theory Spec2Isabelle
  imports Complex_Main
begin

section \<open>The generic element tree and the values it carries\<close>

text \<open>
  The module-data classes of \<^verbatim>\<open>src/classes.ts\<close> read and write the element tree of the
  markup library: named elements with optional attributes and ordered children, and
  text nodes. An attribute value is \<^verbatim>\<open>unknown\<close> in the source; the parser produces
  numbers, strings and booleans, and a key that is missing reads as \<^verbatim>\<open>undefined\<close>.

  Numbers are modelled as rationals: comparisons and differences are exact. The values
  NaN and the infinities, and binary rounding, are outside the model.
\<close>

type_synonym number = rat

datatype jsval = JUndef | JNum number | JStr string | JBool bool

type_synonym Attributes = "(string \<times> jsval) list"

datatype ElementElement =
  ElementElement (name: string) (attributes: "Attributes option") (elements: "Element list")
and Element =
  EElement ElementElement
| TextElement string

text \<open>\<^verbatim>\<open>element.attributes || {}\<close> followed by a destructuring read of one key.\<close>

definition attr :: "ElementElement \<Rightarrow> string \<Rightarrow> jsval" where
  "attr e k =
     (case attributes e of
        None \<Rightarrow> JUndef
      | Some kvs \<Rightarrow> (case map_of kvs k of None \<Rightarrow> JUndef | Some v \<Rightarrow> v))"

text \<open>An optional field written into an attribute object: absent is \<^verbatim>\<open>undefined\<close>.\<close>

definition optNum :: "number option \<Rightarrow> jsval" where
  "optNum v = (case v of None \<Rightarrow> JUndef | Some n \<Rightarrow> JNum n)"

definition optStr :: "string option \<Rightarrow> jsval" where
  "optStr v = (case v of None \<Rightarrow> JUndef | Some s \<Rightarrow> JStr s)"

subsection \<open>Numbers as text\<close>

text \<open>
  \<^verbatim>\<open>String(n)\<close> and a number inside a template literal: an integer prints its decimal
  digits; a number with a fraction prints the digits of its decimal expansion (at most
  twenty of them). The exponent notation of very large and very small magnitudes is
  not modelled.
\<close>

definition decimalDigits :: string where
  "decimalDigits = ''0123456789''"

definition digit_char :: "nat \<Rightarrow> char" where
  \<comment> \<open>called with a digit below ten only\<close>
  "digit_char d = decimalDigits ! d"

function string_of_nat :: "nat \<Rightarrow> string" where
  "string_of_nat n =
     (if n < 10 then [digit_char n] else string_of_nat (n div 10) @ [digit_char (n mod 10)])"
  by pat_completeness auto
termination
  by (relation "measure id") auto

declare string_of_nat.simps [simp del]

fun frac_digits :: "nat \<Rightarrow> rat \<Rightarrow> string" where
  "frac_digits 0 f = []"
| "frac_digits (Suc k) f =
     (if f = 0 then []
      else digit_char (nat \<lfloor>f * 10\<rfloor>) # frac_digits k (f * 10 - of_int \<lfloor>f * 10\<rfloor>))"

definition js_String :: "number \<Rightarrow> string" where
  "js_String x =
     (let a = \<bar>x\<bar>; whole = \<lfloor>a\<rfloor>; f = a - of_int whole
      in (if x < 0 then ''-'' else '''') @ string_of_nat (nat whole) @
         (if f = 0 then '''' else ''.'' @ frac_digits 20 f))"

text \<open>\<^verbatim>\<open>String(v)\<close> on an attribute value that is not \<^verbatim>\<open>undefined\<close>.\<close>

definition String_of :: "jsval \<Rightarrow> string" where
  "String_of v =
     (case v of
        JUndef \<Rightarrow> ''undefined''
      | JNum n \<Rightarrow> js_String n
      | JStr s \<Rightarrow> s
      | JBool b \<Rightarrow> (if b then ''true'' else ''false''))"

subsection \<open>Errors and sequencing\<close>

text \<open>
  Every \<^verbatim>\<open>throw new DominoError(msg)\<close> is the value \<open>Inl (DominoError msg)\<close>; a
  function that can throw returns \<open>DominoError + 'a\<close>. \<open>thenE\<close> is statement
  sequencing, \<open>mapE\<close> is \<^verbatim>\<open>Array.prototype.map\<close> (and \<^verbatim>\<open>forEach\<close>) with a callback that
  can throw: the first throw ends the loop.
\<close>

datatype DominoError = DominoError string

definition thenE :: "DominoError + 'a \<Rightarrow> ('a \<Rightarrow> DominoError + 'b) \<Rightarrow> DominoError + 'b" where
  "thenE r f = (case r of Inl e \<Rightarrow> Inl e | Inr x \<Rightarrow> f x)"

fun mapE :: "('a \<Rightarrow> DominoError + 'b) \<Rightarrow> 'a list \<Rightarrow> DominoError + 'b list" where
  "mapE f [] = Inr []"
| "mapE f (x # xs) = thenE (f x) (\<lambda>y. thenE (mapE f xs) (\<lambda>ys. Inr (y # ys)))"

text \<open>The guards on attribute values that the decoders repeat.\<close>

definition optionalNumber :: "string \<Rightarrow> jsval \<Rightarrow> DominoError + number option" where
  \<comment> \<open>\<^verbatim>\<open>if (v !== undefined && typeof v !== "number") throw ...\<close>\<close>
  "optionalNumber msg v =
     (case v of
        JUndef \<Rightarrow> Inr None
      | JNum n \<Rightarrow> Inr (Some n)
      | JStr s \<Rightarrow> Inl (DominoError msg)
      | JBool b \<Rightarrow> Inl (DominoError msg))"

definition requiredNumber :: "string \<Rightarrow> jsval \<Rightarrow> DominoError + number" where
  \<comment> \<open>\<^verbatim>\<open>if (v === undefined || typeof v !== "number") throw ...\<close>\<close>
  "requiredNumber msg v =
     (case v of
        JUndef \<Rightarrow> Inl (DominoError msg)
      | JNum n \<Rightarrow> Inr n
      | JStr s \<Rightarrow> Inl (DominoError msg)
      | JBool b \<Rightarrow> Inl (DominoError msg))"

definition requiredString :: "string \<Rightarrow> jsval \<Rightarrow> DominoError + string" where
  \<comment> \<open>\<^verbatim>\<open>if (v === undefined || typeof v !== "string") throw ...\<close>\<close>
  "requiredString msg v =
     (case v of
        JUndef \<Rightarrow> Inl (DominoError msg)
      | JNum n \<Rightarrow> Inl (DominoError msg)
      | JStr s \<Rightarrow> Inr s
      | JBool b \<Rightarrow> Inl (DominoError msg))"

definition requiredName :: "string \<Rightarrow> jsval \<Rightarrow> DominoError + string" where
  \<comment> \<open>\<^verbatim>\<open>if (v === undefined) throw ...; String(v)\<close>\<close>
  "requiredName msg v =
     (case v of JUndef \<Rightarrow> Inl (DominoError msg) | _ \<Rightarrow> Inr (String_of v))"

definition optionalName :: "jsval \<Rightarrow> string option" where
  \<comment> \<open>\<^verbatim>\<open>v === undefined ? undefined : String(v)\<close>\<close>
  "optionalName v = (case v of JUndef \<Rightarrow> None | _ \<Rightarrow> Some (String_of v))"

text \<open>The element children of an element that carry a given name, in order.\<close>

fun elementsNamed :: "string \<Rightarrow> Element list \<Rightarrow> ElementElement list" where
  "elementsNamed n [] = []"
| "elementsNamed n (EElement e # es) =
     (if name e = n then e # elementsNamed n es else elementsNamed n es)"
| "elementsNamed n (TextElement t # es) = elementsNamed n es"

text \<open>
  The text of a \<^verbatim>\<open>Memo\<close> or \<^verbatim>\<open>Data\<close> element: its first child when that is a text
  node, the empty string otherwise.
\<close>

definition firstText :: "ElementElement \<Rightarrow> string" where
  "firstText e = (case elements e of TextElement t # _ \<Rightarrow> t | _ \<Rightarrow> '''')"

section \<open>Instrument and drum maps\<close>

subsection \<open>Tone\<close>

record Tone =
  Tone_name :: string
  Tone_key :: number

definition Tone_check :: "Tone \<Rightarrow> DominoError + unit" where
  "Tone_check t =
     (if Tone_key t < 0 \<or> Tone_key t > 127
      then Inl (DominoError (''Key must be between 0 and 127. Received: '' @ js_String (Tone_key t)))
      else Inr ())"

definition Tone_toXMLElement :: "Tone \<Rightarrow> DominoError + ElementElement" where
  "Tone_toXMLElement t =
     thenE (Tone_check t) (\<lambda>_.
       Inr (ElementElement ''Tone''
             (Some [(''Name'', JStr (Tone_name t)), (''Key'', JNum (Tone_key t))]) []))"

definition Tone_fromXMLElement :: "ElementElement \<Rightarrow> DominoError + Tone" where
  "Tone_fromXMLElement e =
     thenE (requiredName ''Invalid XML: Not found Tone Name'' (attr e ''Name'')) (\<lambda>n.
     thenE (requiredNumber ''Invalid XML: Not found Tone Key'' (attr e ''Key'')) (\<lambda>k.
       Inr \<lparr>Tone_name = n, Tone_key = k\<rparr>))"

subsection \<open>Bank and DrumBank\<close>

record Bank =
  Bank_name :: string
  Bank_lsb :: "number option"
  Bank_msb :: "number option"

record DrumBank = Bank +
  DrumBank_tones :: "Tone list"

definition Bank_check :: "'a Bank_scheme \<Rightarrow> DominoError + unit" where
  "Bank_check b =
     (case Bank_lsb b of
        Some l \<Rightarrow>
          if l < 0 \<or> l > 255
          then Inl (DominoError (''LSB must be between 0 and 255. Received: '' @ js_String l))
          else
            (case Bank_msb b of
               Some m \<Rightarrow>
                 if m < 0 \<or> m > 255
                 then Inl (DominoError (''MSB must be between 0 and 255. Received: '' @ js_String m))
                 else Inr ()
             | None \<Rightarrow> Inr ())
      | None \<Rightarrow>
          (case Bank_msb b of
             Some m \<Rightarrow>
               if m < 0 \<or> m > 255
               then Inl (DominoError (''MSB must be between 0 and 255. Received: '' @ js_String m))
               else Inr ()
           | None \<Rightarrow> Inr ()))"

definition Bank_toXMLElement :: "'a Bank_scheme \<Rightarrow> DominoError + ElementElement" where
  "Bank_toXMLElement b =
     thenE (Bank_check b) (\<lambda>_.
       Inr (ElementElement ''Bank''
             (Some [(''Name'', JStr (Bank_name b)), (''LSB'', optNum (Bank_lsb b)),
                    (''MSB'', optNum (Bank_msb b))]) []))"

definition DrumBank_toXMLElement :: "DrumBank \<Rightarrow> DominoError + ElementElement" where
  \<comment> \<open>checks, calls the inherited encoder (which checks again), then appends the tones\<close>
  "DrumBank_toXMLElement b =
     thenE (Bank_check b) (\<lambda>_.
     thenE (Bank_toXMLElement b) (\<lambda>element.
     thenE (mapE Tone_toXMLElement (DrumBank_tones b)) (\<lambda>ts.
       Inr (ElementElement (name element) (attributes element)
             (elements element @ map EElement ts)))))"

definition Bank_fromXMLElementBase :: "ElementElement \<Rightarrow> DominoError + Bank" where
  "Bank_fromXMLElementBase e =
     thenE (requiredName ''Invalid XML: Not found Name'' (attr e ''Name'')) (\<lambda>n.
     thenE (optionalNumber ''Invalid XML: Not found Bank LSB'' (attr e ''LSB'')) (\<lambda>l.
     thenE (optionalNumber ''Invalid XML: Not found Bank MSB'' (attr e ''MSB'')) (\<lambda>m.
       Inr \<lparr>Bank_name = n, Bank_lsb = l, Bank_msb = m\<rparr>)))"

definition Bank_fromXMLElement :: "ElementElement \<Rightarrow> DominoError + Bank" where
  "Bank_fromXMLElement e = Bank_fromXMLElementBase e"

definition DrumBank_fromXMLElement :: "ElementElement \<Rightarrow> DominoError + DrumBank" where
  "DrumBank_fromXMLElement e =
     thenE (Bank_fromXMLElementBase e) (\<lambda>b.
     thenE (mapE Tone_fromXMLElement (elementsNamed ''Tone'' (elements e))) (\<lambda>ts.
       Inr \<lparr>Bank_name = Bank_name b, Bank_lsb = Bank_lsb b, Bank_msb = Bank_msb b,
            DrumBank_tones = ts\<rparr>))"

subsection \<open>PC and Map, generic in the bank\<close>

record 'b PC =
  PC_name :: string
  PC_pc :: number
  PC_banks :: "'b list"

definition PC_check :: "'b PC \<Rightarrow> DominoError + unit" where
  "PC_check p =
     (if PC_pc p < 1 \<or> PC_pc p > 128
      then Inl (DominoError (''PC must be between 1 and 128. Received: '' @
                  js_String (PC_pc p) @ '','' @ PC_name p))
      else Inr ())"

definition PC_toXMLElement ::
    "('b \<Rightarrow> DominoError + ElementElement) \<Rightarrow> 'b PC \<Rightarrow> DominoError + ElementElement" where
  "PC_toXMLElement bankToXML p =
     thenE (PC_check p) (\<lambda>_.
     thenE (mapE bankToXML (PC_banks p)) (\<lambda>bs.
       Inr (ElementElement ''PC''
             (Some [(''Name'', JStr (PC_name p)), (''PC'', JNum (PC_pc p))])
             (map EElement bs))))"

definition PC_fromXMLElementBase ::
    "ElementElement \<Rightarrow> DominoError + (string \<times> number \<times> ElementElement list)" where
  "PC_fromXMLElementBase e =
     thenE (requiredName ''Invalid XML: Not Found PC Name'' (attr e ''Name'')) (\<lambda>n.
     thenE (requiredNumber ''Invalid XML: Not found PC'' (attr e ''PC'')) (\<lambda>pc.
       let bankElements = elementsNamed ''Bank'' (elements e)
       in if length bankElements = 0 then Inl (DominoError ''Invalid XML: Not found Bank'')
          else Inr (n, pc, bankElements)))"

definition PC_fromXMLElement ::
    "(ElementElement \<Rightarrow> DominoError + 'b) \<Rightarrow> ElementElement \<Rightarrow> DominoError + 'b PC" where
  "PC_fromXMLElement bankFromXML e =
     thenE (PC_fromXMLElementBase e) (\<lambda>(n, pc, bankElements).
     thenE (mapE bankFromXML bankElements) (\<lambda>bs.
       Inr \<lparr>PC_name = n, PC_pc = pc, PC_banks = bs\<rparr>))"

definition InstrumentPC_toXMLElement :: "Bank PC \<Rightarrow> DominoError + ElementElement" where
  "InstrumentPC_toXMLElement = PC_toXMLElement Bank_toXMLElement"

definition DrumPC_toXMLElement :: "DrumBank PC \<Rightarrow> DominoError + ElementElement" where
  "DrumPC_toXMLElement = PC_toXMLElement DrumBank_toXMLElement"

definition InstrumentPC_fromXMLElement :: "ElementElement \<Rightarrow> DominoError + Bank PC" where
  "InstrumentPC_fromXMLElement = PC_fromXMLElement Bank_fromXMLElement"

definition DrumPC_fromXMLElement :: "ElementElement \<Rightarrow> DominoError + DrumBank PC" where
  "DrumPC_fromXMLElement = PC_fromXMLElement DrumBank_fromXMLElement"

record 'b Map =
  Map_name :: string
  Map_pcs :: "'b PC list"

definition Map_toXMLElement ::
    "('b PC \<Rightarrow> DominoError + ElementElement) \<Rightarrow> 'b Map \<Rightarrow> DominoError + ElementElement" where
  "Map_toXMLElement pcToXML m =
     thenE (mapE pcToXML (Map_pcs m)) (\<lambda>ps.
       Inr (ElementElement ''Map'' (Some [(''Name'', JStr (Map_name m))]) (map EElement ps)))"

definition Map_fromXMLElementBase ::
    "ElementElement \<Rightarrow> DominoError + (string \<times> ElementElement list)" where
  "Map_fromXMLElementBase e =
     thenE (requiredName ''Invalid XML: Not Found Map Name'' (attr e ''Name'')) (\<lambda>n.
       Inr (n, elementsNamed ''PC'' (elements e)))"

definition Map_fromXMLElement ::
    "(ElementElement \<Rightarrow> DominoError + 'b PC) \<Rightarrow> ElementElement \<Rightarrow> DominoError + 'b Map" where
  "Map_fromXMLElement pcFromXML e =
     thenE (Map_fromXMLElementBase e) (\<lambda>(n, pcElements).
     thenE (mapE pcFromXML pcElements) (\<lambda>ps.
       Inr \<lparr>Map_name = n, Map_pcs = ps\<rparr>))"

definition InstrumentMap_toXMLElement :: "Bank Map \<Rightarrow> DominoError + ElementElement" where
  "InstrumentMap_toXMLElement = Map_toXMLElement InstrumentPC_toXMLElement"

definition DrumMap_toXMLElement :: "DrumBank Map \<Rightarrow> DominoError + ElementElement" where
  "DrumMap_toXMLElement = Map_toXMLElement DrumPC_toXMLElement"

definition InstrumentMap_fromXMLElement :: "ElementElement \<Rightarrow> DominoError + Bank Map" where
  "InstrumentMap_fromXMLElement = Map_fromXMLElement InstrumentPC_fromXMLElement"

definition DrumMap_fromXMLElement :: "ElementElement \<Rightarrow> DominoError + DrumBank Map" where
  "DrumMap_fromXMLElement = Map_fromXMLElement DrumPC_fromXMLElement"

subsection \<open>MapList, InstrumentList, DrumSetList\<close>

record 'b MapList =
  MapList_maps :: "'b Map list"

definition MapList_toXMLElement ::
    "('b Map \<Rightarrow> DominoError + ElementElement) \<Rightarrow> 'b MapList \<Rightarrow> DominoError + ElementElement" where
  "MapList_toXMLElement mapToXML l =
     thenE (mapE mapToXML (MapList_maps l)) (\<lambda>ms.
       Inr (ElementElement ''List'' None (map EElement ms)))"

definition InstrumentList_toXMLElement :: "Bank MapList \<Rightarrow> DominoError + ElementElement" where
  "InstrumentList_toXMLElement l =
     thenE (MapList_toXMLElement InstrumentMap_toXMLElement l) (\<lambda>element.
       Inr (ElementElement ''InstrumentList'' (attributes element) (elements element)))"

definition DrumSetList_toXMLElement :: "DrumBank MapList \<Rightarrow> DominoError + ElementElement" where
  "DrumSetList_toXMLElement l =
     thenE (MapList_toXMLElement DrumMap_toXMLElement l) (\<lambda>element.
       Inr (ElementElement ''DrumSetList'' (attributes element) (elements element)))"

definition InstrumentList_fromXMLElement :: "ElementElement \<Rightarrow> DominoError + Bank MapList" where
  "InstrumentList_fromXMLElement e =
     thenE (mapE InstrumentMap_fromXMLElement (elementsNamed ''Map'' (elements e))) (\<lambda>ms.
       Inr \<lparr>MapList_maps = ms\<rparr>)"

definition DrumSetList_fromXMLElement :: "ElementElement \<Rightarrow> DominoError + DrumBank MapList" where
  "DrumSetList_fromXMLElement e =
     thenE (mapE DrumMap_fromXMLElement (elementsNamed ''Map'' (elements e))) (\<lambda>ms.
       Inr \<lparr>MapList_maps = ms\<rparr>)"

section \<open>Control change macros\<close>

subsection \<open>Entry\<close>

record Entry =
  Entry_label :: string
  Entry_value :: number

definition Entry_toXMLElement :: "Entry \<Rightarrow> DominoError + ElementElement" where
  "Entry_toXMLElement t =
     Inr (ElementElement ''Entry''
           (Some [(''Label'', JStr (Entry_label t)), (''Value'', JNum (Entry_value t))]) [])"

definition Entry_fromXMLElement :: "ElementElement \<Rightarrow> DominoError + Entry" where
  "Entry_fromXMLElement e =
     thenE (requiredName ''Invalid XML: Not found Entry Label'' (attr e ''Label'')) (\<lambda>l.
     thenE (requiredNumber ''Invalid XML: Not found Entry Value'' (attr e ''Value'')) (\<lambda>v.
       Inr \<lparr>Entry_label = l, Entry_value = v\<rparr>))"

text \<open>The children of an element that are elements, whatever their names.\<close>

fun elementChildren :: "Element list \<Rightarrow> ElementElement list" where
  "elementChildren [] = []"
| "elementChildren (EElement e # es) = e # elementChildren es"
| "elementChildren (TextElement t # es) = elementChildren es"

subsection \<open>Value and Gate\<close>

datatype ValueType = Key

record Value =
  Value_default :: "number option"
  Value_min :: "number option"
  Value_max :: "number option"
  Value_offset :: "number option"
  Value_name :: "string option"
  Value_type :: "ValueType option"
  Value_tableId :: "number option"
  Value_tags :: "Entry list option"

text \<open>\<^verbatim>\<open>min !== undefined && value < min\<close> and \<^verbatim>\<open>max !== undefined && value > max\<close>.\<close>

definition belowMin :: "number option \<Rightarrow> number \<Rightarrow> bool" where
  "belowMin m x = (case m of None \<Rightarrow> False | Some b \<Rightarrow> x < b)"

definition aboveMax :: "number option \<Rightarrow> number \<Rightarrow> bool" where
  "aboveMax m x = (case m of None \<Rightarrow> False | Some b \<Rightarrow> x > b)"

definition showBound :: "number option \<Rightarrow> string" where
  "showBound m = (case m of None \<Rightarrow> ''undefined'' | Some b \<Rightarrow> js_String b)"

definition Value_checkEntry :: "Value \<Rightarrow> Entry \<Rightarrow> DominoError + unit" where
  "Value_checkEntry v tag =
     (if belowMin (Value_min v) (Entry_value tag) \<or> aboveMax (Value_max v) (Entry_value tag)
      then Inl (DominoError (''Entry Value must be between '' @ showBound (Value_min v) @
                  '' and '' @ showBound (Value_max v) @ ''. Received '' @
                  js_String (Entry_value tag)))
      else Inr ())"

definition Value_check :: "Value \<Rightarrow> DominoError + unit" where
  "Value_check v =
     (case Value_tags v of
        None \<Rightarrow> Inr ()
      | Some tags \<Rightarrow> thenE (mapE (Value_checkEntry v) tags) (\<lambda>_. Inr ()))"

definition Value_toXMLElement :: "Value \<Rightarrow> DominoError + ElementElement" where
  "Value_toXMLElement v =
     thenE (Value_check v) (\<lambda>_.
     thenE (case Value_tags v of None \<Rightarrow> Inr [] | Some tags \<Rightarrow> mapE Entry_toXMLElement tags)
       (\<lambda>es.
       Inr (ElementElement ''Value''
             (Some [(''Default'', optNum (Value_default v)), (''Min'', optNum (Value_min v)),
                    (''Max'', optNum (Value_max v)), (''Offset'', optNum (Value_offset v)),
                    (''Name'', optStr (Value_name v)),
                    (''Type'', (case Value_type v of None \<Rightarrow> JUndef | Some Key \<Rightarrow> JStr ''Key'')),
                    (''TableID'', optNum (Value_tableId v))])
             (map EElement es))))"

definition Gate_toXMLElement :: "Value \<Rightarrow> DominoError + ElementElement" where
  "Gate_toXMLElement v =
     thenE (Value_toXMLElement v) (\<lambda>element.
       Inr (ElementElement ''Gate'' (attributes element) (elements element)))"

definition Value_typeFromXML :: "jsval \<Rightarrow> DominoError + ValueType option" where
  "Value_typeFromXML v =
     (case v of
        JUndef \<Rightarrow> Inr None
      | JStr s \<Rightarrow> if s = ''Key'' then Inr (Some Key)
                  else Inl (DominoError ''Invalid XML: Not found Value Type'')
      | _ \<Rightarrow> Inl (DominoError ''Invalid XML: Not found Value Type''))"

definition Value_fromXMLElement :: "ElementElement \<Rightarrow> DominoError + Value" where
  "Value_fromXMLElement e =
     thenE (optionalNumber ''Invalid XML: Not found Value Default'' (attr e ''Default'')) (\<lambda>d.
     thenE (optionalNumber ''Invalid XML: Not found Value Min'' (attr e ''Min'')) (\<lambda>mn.
     thenE (optionalNumber ''Invalid XML: Not found Value Max'' (attr e ''Max'')) (\<lambda>mx.
     thenE (optionalNumber ''Invalid XML: Not found Value Offset'' (attr e ''Offset'')) (\<lambda>off.
     thenE (Value_typeFromXML (attr e ''Type'')) (\<lambda>ty.
     thenE (optionalNumber ''Invalid XML: Not found Value TableID'' (attr e ''TableID'')) (\<lambda>tid.
     thenE (mapE Entry_fromXMLElement (elementChildren (elements e))) (\<lambda>entries.
       Inr \<lparr>Value_default = d, Value_min = mn, Value_max = mx, Value_offset = off,
            Value_name = optionalName (attr e ''Name''), Value_type = ty,
            Value_tableId = tid, Value_tags = Some entries\<rparr>)))))))"

subsection \<open>Table and Data\<close>

record Table =
  Table_id :: number
  Table_tags :: "Entry list"

definition Table_check :: "Table \<Rightarrow> DominoError + unit" where
  "Table_check t =
     (if Table_id t < 0
      then Inl (DominoError (''Table ID must be 0 or more. Received: '' @ js_String (Table_id t)))
      else Inr ())"

definition Table_toXMLElement :: "Table \<Rightarrow> DominoError + ElementElement" where
  "Table_toXMLElement t =
     thenE (Table_check t) (\<lambda>_.
     thenE (mapE Entry_toXMLElement (Table_tags t)) (\<lambda>es.
       Inr (ElementElement ''Table'' (Some [(''ID'', JNum (Table_id t))]) (map EElement es))))"

definition Table_fromXMLElement :: "ElementElement \<Rightarrow> DominoError + Table" where
  "Table_fromXMLElement e =
     thenE (requiredNumber ''Invalid XML: Not found Table ID'' (attr e ''ID'')) (\<lambda>i.
     thenE (mapE Entry_fromXMLElement (elementChildren (elements e))) (\<lambda>tags.
       Inr \<lparr>Table_id = i, Table_tags = tags\<rparr>))"

record Data =
  Data_text :: string

definition Data_toXMLElement :: "Data \<Rightarrow> DominoError + ElementElement" where
  "Data_toXMLElement d = Inr (ElementElement ''Data'' None [TextElement (Data_text d)])"

definition Data_fromXMLElements :: "string \<Rightarrow> Data" where
  "Data_fromXMLElements node = \<lparr>Data_text = node\<rparr>"

subsection \<open>Objects with optional keys\<close>

text \<open>
  \<^verbatim>\<open>CCM.tags\<close> and \<^verbatim>\<open>ModuleData.tags\<close> are objects whose keys are all optional. Such an
  object is the list of its entries in the order the keys were created, which is the
  order \<^verbatim>\<open>Object.values\<close> walks. \<^verbatim>\<open>tags.k = v\<close> overwrites the entry of a key that
  exists, in its place, and appends the entry otherwise. Each entry's constructor
  fixes its key and the class of its value, as the field declarations do.
\<close>

fun assign :: "('a \<Rightarrow> string) \<Rightarrow> 'a \<Rightarrow> 'a list \<Rightarrow> 'a list" where
  "assign key v [] = [v]"
| "assign key v (x # xs) = (if key x = key v then v # xs else x # assign key v xs)"

text \<open>
  \<^verbatim>\<open>element.elements.forEach((e) => { if (e.type !== "element") return; ... })\<close> with a
  body that updates what is being built and can throw.
\<close>

fun forEachElement ::
    "(ElementElement \<Rightarrow> 'acc \<Rightarrow> DominoError + 'acc) \<Rightarrow> Element list \<Rightarrow> 'acc \<Rightarrow> DominoError + 'acc" where
  "forEachElement f [] acc = Inr acc"
| "forEachElement f (EElement e # es) acc = thenE (f e acc) (forEachElement f es)"
| "forEachElement f (TextElement t # es) acc = forEachElement f es acc"

subsection \<open>CCM\<close>

datatype Sync = Sync_Last | Sync_LastEachGate

datatype CCM_tag = CCM_value Value | CCM_gate Value | CCM_data Data | CCM_memo string

fun CCM_tag_key :: "CCM_tag \<Rightarrow> string" where
  "CCM_tag_key (CCM_value v) = ''value''"
| "CCM_tag_key (CCM_gate v) = ''gate''"
| "CCM_tag_key (CCM_data d) = ''data''"
| "CCM_tag_key (CCM_memo s) = ''memo''"

record CCM =
  CCM_id :: number
  CCM_name :: string
  CCM_color :: "string option"
  CCM_sync :: "Sync option"
  CCM_tags :: "CCM_tag list"

definition startsWithHash :: "string \<Rightarrow> bool" where
  "startsWithHash s = (case s of [] \<Rightarrow> False | c # _ \<Rightarrow> c = CHR ''#'')"

definition CCM_check :: "CCM \<Rightarrow> DominoError + unit" where
  "CCM_check c =
     (if CCM_id c < 0 \<or> CCM_id c > 1300
      then Inl (DominoError (''CCM ID must be between 0 and 1300. Received: '' @
                  js_String (CCM_id c)))
      else
        (case CCM_color c of
           None \<Rightarrow> Inr ()
         | Some col \<Rightarrow>
             if startsWithHash col then Inr ()
             else Inl (DominoError (''CCM Color must start with #. Received: '' @ col))))"

fun CCM_tag_toXMLElement :: "CCM_tag \<Rightarrow> DominoError + ElementElement" where
  "CCM_tag_toXMLElement (CCM_value v) = Value_toXMLElement v"
| "CCM_tag_toXMLElement (CCM_gate v) = Gate_toXMLElement v"
| "CCM_tag_toXMLElement (CCM_data d) = Data_toXMLElement d"
| "CCM_tag_toXMLElement (CCM_memo s) = Inr (ElementElement ''Memo'' None [TextElement s])"

definition SyncText :: "Sync option \<Rightarrow> jsval" where
  "SyncText s =
     (case s of
        None \<Rightarrow> JUndef
      | Some Sync_Last \<Rightarrow> JStr ''Last''
      | Some Sync_LastEachGate \<Rightarrow> JStr ''LastEachGate'')"

definition CCM_toXMLElement :: "CCM \<Rightarrow> DominoError + ElementElement" where
  "CCM_toXMLElement c =
     thenE (CCM_check c) (\<lambda>_.
     thenE (mapE CCM_tag_toXMLElement (CCM_tags c)) (\<lambda>es.
       Inr (ElementElement ''CCM''
             (Some [(''ID'', JNum (CCM_id c)), (''Name'', JStr (CCM_name c)),
                    (''Color'', optStr (CCM_color c)), (''Sync'', SyncText (CCM_sync c))])
             (map EElement es))))"

definition CCM_colorFromXML :: "jsval \<Rightarrow> DominoError + string option" where
  "CCM_colorFromXML v =
     (case v of
        JUndef \<Rightarrow> Inr None
      | JStr s \<Rightarrow> Inr (Some s)
      | _ \<Rightarrow> Inl (DominoError ''Invalid XML: Not found CCM Color''))"

definition CCM_syncFromXML :: "jsval \<Rightarrow> DominoError + Sync option" where
  "CCM_syncFromXML v =
     (case v of
        JUndef \<Rightarrow> Inr None
      | JStr s \<Rightarrow>
          if s = ''Last'' then Inr (Some Sync_Last)
          else if s = ''LastEachGate'' then Inr (Some Sync_LastEachGate)
          else Inl (DominoError ''Invalid XML: Not found CCM Sync'')
      | _ \<Rightarrow> Inl (DominoError ''Invalid XML: Not found CCM Sync''))"

definition CCM_childFromXML :: "ElementElement \<Rightarrow> CCM_tag list \<Rightarrow> DominoError + CCM_tag list" where
  "CCM_childFromXML e tags =
     (if name e = ''Value''
      then thenE (Value_fromXMLElement e) (\<lambda>v. Inr (assign CCM_tag_key (CCM_value v) tags))
      else if name e = ''Gate''
      then thenE (Value_fromXMLElement e) (\<lambda>v. Inr (assign CCM_tag_key (CCM_gate v) tags))
      else if name e = ''Data''
      then Inr (assign CCM_tag_key (CCM_data (Data_fromXMLElements (firstText e))) tags)
      else if name e = ''Memo''
      then Inr (assign CCM_tag_key (CCM_memo (firstText e)) tags)
      else Inr tags)"

definition CCM_fromXMLElement :: "ElementElement \<Rightarrow> DominoError + CCM" where
  "CCM_fromXMLElement e =
     thenE (case attr e ''ID'' of JNum n \<Rightarrow> Inr n
            | _ \<Rightarrow> Inl (DominoError ''Invalid XML: Not found CCM ID'')) (\<lambda>i.
     thenE (requiredName ''Invalid XML: Not found CCM Name'' (attr e ''Name'')) (\<lambda>n.
     thenE (CCM_colorFromXML (attr e ''Color'')) (\<lambda>col.
     thenE (CCM_syncFromXML (attr e ''Sync'')) (\<lambda>sy.
     thenE (forEachElement CCM_childFromXML (elements e) []) (\<lambda>tags.
       Inr \<lparr>CCM_id = i, CCM_name = n, CCM_color = col, CCM_sync = sy, CCM_tags = tags\<rparr>)))))"

subsection \<open>CCMLink and CCMFolderLink\<close>

record CCMLink =
  CCMLink_id :: number
  CCMLink_value :: "number option"
  CCMLink_gate :: "number option"

definition CCMLink_toXMLElement :: "CCMLink \<Rightarrow> DominoError + ElementElement" where
  "CCMLink_toXMLElement l =
     Inr (ElementElement ''CCMLink''
           (Some [(''ID'', JNum (CCMLink_id l)), (''Value'', optNum (CCMLink_value l)),
                  (''Gate'', optNum (CCMLink_gate l))]) [])"

definition CCMLink_fromXMLElement :: "ElementElement \<Rightarrow> DominoError + CCMLink" where
  "CCMLink_fromXMLElement e =
     thenE (requiredNumber ''Invalid XML: Not found CCMLink ID'' (attr e ''ID'')) (\<lambda>i.
     thenE (optionalNumber ''Invalid XML: Not found CCMLink Value'' (attr e ''Value'')) (\<lambda>v.
     thenE (optionalNumber ''Invalid XML: Not found CCMLink Gate'' (attr e ''Gate'')) (\<lambda>g.
       Inr \<lparr>CCMLink_id = i, CCMLink_value = v, CCMLink_gate = g\<rparr>)))"

record CCMFolderLink =
  CCMFolderLink_name :: string
  CCMFolderLink_id :: number
  CCMFolderLink_value :: "number option"
  CCMFolderLink_gate :: "number option"

definition CCMFolderLink_toXMLElement :: "CCMFolderLink \<Rightarrow> DominoError + ElementElement" where
  "CCMFolderLink_toXMLElement l =
     Inr (ElementElement ''FolderLink''
           (Some [(''Name'', JStr (CCMFolderLink_name l)), (''ID'', JNum (CCMFolderLink_id l)),
                  (''Value'', optNum (CCMFolderLink_value l)),
                  (''Gate'', optNum (CCMFolderLink_gate l))]) [])"

definition CCMFolderLink_fromXMLElement :: "ElementElement \<Rightarrow> DominoError + CCMFolderLink" where
  "CCMFolderLink_fromXMLElement e =
     thenE (requiredName ''Invalid XML: Not found FolderLink Name'' (attr e ''Name'')) (\<lambda>n.
     thenE (requiredNumber ''Invalid XML: Not found FolderLink ID'' (attr e ''ID'')) (\<lambda>i.
     thenE (optionalNumber ''Invalid XML: Not found FolderLink Value'' (attr e ''Value'')) (\<lambda>v.
     thenE (optionalNumber ''Invalid XML: Not found FolderLink Gate'' (attr e ''Gate'')) (\<lambda>g.
       Inr \<lparr>CCMFolderLink_name = n, CCMFolderLink_id = i, CCMFolderLink_value = v,
            CCMFolderLink_gate = g\<rparr>))))"

subsection \<open>CCMFolder, which nests\<close>

datatype CCMFolder =
  CCMFolder (CCMFolder_name: string) (CCMFolder_id: "number option")
            (CCMFolder_tags: "CCMFolderTag list")
and CCMFolderTag =
  FolderTag CCMFolder
| FolderLinkTag CCMFolderLink
| CCMTag CCM
| CCMLinkTag CCMLink
| TableTag Table
| MemoTag string

lemma thenE_cong [fundef_cong]:
  "r = r' \<Longrightarrow> (\<And>x. r' = Inr x \<Longrightarrow> f x = g x) \<Longrightarrow> thenE r f = thenE r' g"
  by (auto simp: thenE_def split: sum.splits)

lemma mapE_cong [fundef_cong]:
  "xs = ys \<Longrightarrow> (\<And>x. x \<in> set ys \<Longrightarrow> f x = g x) \<Longrightarrow> mapE f xs = mapE g ys"
  by (induction ys arbitrary: xs) (auto simp: thenE_def split: sum.splits)

fun CCMFolder_toXMLElement :: "CCMFolder \<Rightarrow> DominoError + ElementElement"
and CCMFolderTag_toXMLElement :: "CCMFolderTag \<Rightarrow> DominoError + ElementElement" where
  "CCMFolder_toXMLElement (CCMFolder n i tags) =
     thenE (mapE CCMFolderTag_toXMLElement tags) (\<lambda>es.
       Inr (ElementElement ''Folder'' (Some [(''Name'', JStr n), (''ID'', optNum i)])
             (map EElement es)))"
| "CCMFolderTag_toXMLElement (FolderTag f) = CCMFolder_toXMLElement f"
| "CCMFolderTag_toXMLElement (FolderLinkTag l) = CCMFolderLink_toXMLElement l"
| "CCMFolderTag_toXMLElement (CCMTag c) = CCM_toXMLElement c"
| "CCMFolderTag_toXMLElement (CCMLinkTag l) = CCMLink_toXMLElement l"
| "CCMFolderTag_toXMLElement (TableTag t) = Table_toXMLElement t"
| "CCMFolderTag_toXMLElement (MemoTag s) = Inr (ElementElement ''Memo'' None [TextElement s])"

fun CCMFolder_fromXMLElement :: "ElementElement \<Rightarrow> DominoError + CCMFolder"
and CCMFolder_childrenFromXML ::
      "Element list \<Rightarrow> CCMFolderTag list \<Rightarrow> DominoError + CCMFolderTag list" where
  "CCMFolder_fromXMLElement (ElementElement nm a es) =
     thenE (requiredName ''Invalid XML: Not found Folder Name''
              (attr (ElementElement nm a es) ''Name'')) (\<lambda>n.
     thenE (optionalNumber ''Invalid XML: Not found Folder ID''
              (attr (ElementElement nm a es) ''ID'')) (\<lambda>i.
     thenE (CCMFolder_childrenFromXML es []) (\<lambda>tags.
       Inr (CCMFolder n i tags))))"
| "CCMFolder_childrenFromXML [] tags = Inr tags"
| "CCMFolder_childrenFromXML (TextElement t # es) tags = CCMFolder_childrenFromXML es tags"
| "CCMFolder_childrenFromXML (EElement e # es) tags =
     (if name e = ''Folder''
      then thenE (CCMFolder_fromXMLElement e) (\<lambda>f.
             CCMFolder_childrenFromXML es (tags @ [FolderTag f]))
      else if name e = ''FolderLink''
      then thenE (CCMFolderLink_fromXMLElement e) (\<lambda>l.
             CCMFolder_childrenFromXML es (tags @ [FolderLinkTag l]))
      else if name e = ''CCM''
      then thenE (CCM_fromXMLElement e) (\<lambda>c.
             CCMFolder_childrenFromXML es (tags @ [CCMTag c]))
      else if name e = ''CCMLink''
      then thenE (CCMLink_fromXMLElement e) (\<lambda>l.
             CCMFolder_childrenFromXML es (tags @ [CCMLinkTag l]))
      else if name e = ''Table''
      then thenE (Table_fromXMLElement e) (\<lambda>t.
             CCMFolder_childrenFromXML es (tags @ [TableTag t]))
      else if name e = ''Memo''
      then CCMFolder_childrenFromXML es (tags @ [MemoTag (firstText e)])
      else CCMFolder_childrenFromXML es tags)"

subsection \<open>ControlChangeMacroList\<close>

datatype MacroTag =
  MacroFolder CCMFolder
| MacroFolderLink CCMFolderLink
| MacroCCM CCM
| MacroCCMLink CCMLink
| MacroTable Table

record ControlChangeMacroList =
  ControlChangeMacroList_tags :: "MacroTag list"

fun MacroTag_toXMLElement :: "MacroTag \<Rightarrow> DominoError + ElementElement" where
  "MacroTag_toXMLElement (MacroFolder f) = CCMFolder_toXMLElement f"
| "MacroTag_toXMLElement (MacroFolderLink l) = CCMFolderLink_toXMLElement l"
| "MacroTag_toXMLElement (MacroCCM c) = CCM_toXMLElement c"
| "MacroTag_toXMLElement (MacroCCMLink l) = CCMLink_toXMLElement l"
| "MacroTag_toXMLElement (MacroTable t) = Table_toXMLElement t"

definition ControlChangeMacroList_toXMLElement ::
    "ControlChangeMacroList \<Rightarrow> DominoError + ElementElement" where
  "ControlChangeMacroList_toXMLElement l =
     thenE (mapE MacroTag_toXMLElement (ControlChangeMacroList_tags l)) (\<lambda>es.
       Inr (ElementElement ''ControlChangeMacroList'' None (map EElement es)))"

definition ControlChangeMacroList_childFromXML ::
    "ElementElement \<Rightarrow> MacroTag list \<Rightarrow> DominoError + MacroTag list" where
  "ControlChangeMacroList_childFromXML e tags =
     (if name e = ''Folder''
      then thenE (CCMFolder_fromXMLElement e) (\<lambda>f. Inr (tags @ [MacroFolder f]))
      else if name e = ''FolderLink''
      then thenE (CCMFolderLink_fromXMLElement e) (\<lambda>l. Inr (tags @ [MacroFolderLink l]))
      else if name e = ''CCM''
      then thenE (CCM_fromXMLElement e) (\<lambda>c. Inr (tags @ [MacroCCM c]))
      else if name e = ''CCMLink''
      then thenE (CCMLink_fromXMLElement e) (\<lambda>l. Inr (tags @ [MacroCCMLink l]))
      else if name e = ''Table''
      then thenE (Table_fromXMLElement e) (\<lambda>t. Inr (tags @ [MacroTable t]))
      else Inr tags)"

definition ControlChangeMacroList_fromXMLElement ::
    "ElementElement \<Rightarrow> DominoError + ControlChangeMacroList" where
  "ControlChangeMacroList_fromXMLElement e =
     thenE (forEachElement ControlChangeMacroList_childFromXML (elements e) []) (\<lambda>tags.
       Inr \<lparr>ControlChangeMacroList_tags = tags\<rparr>)"

section \<open>Templates\<close>

record CC =
  CC_id :: number
  CC_value :: "number option"
  CC_gate :: "number option"

definition CC_toXMLElement :: "CC \<Rightarrow> DominoError + ElementElement" where
  "CC_toXMLElement c =
     Inr (ElementElement ''CC''
           (Some [(''ID'', JNum (CC_id c)), (''Value'', optNum (CC_value c)),
                  (''Gate'', optNum (CC_gate c))]) [])"

definition CC_fromXMLElement :: "ElementElement \<Rightarrow> DominoError + CC" where
  "CC_fromXMLElement e =
     thenE (requiredNumber ''Invalid XML: Not found CC ID'' (attr e ''ID'')) (\<lambda>i.
     thenE (optionalNumber ''Invalid XML: Not found CC Value'' (attr e ''Value'')) (\<lambda>v.
     thenE (optionalNumber ''Invalid XML: Not found CC Gate'' (attr e ''Gate'')) (\<lambda>g.
       Inr \<lparr>CC_id = i, CC_value = v, CC_gate = g\<rparr>)))"

record Memo =
  Memo_text :: string

definition Memo_toXMLElement :: "Memo \<Rightarrow> DominoError + ElementElement" where
  "Memo_toXMLElement m = Inr (ElementElement ''Memo'' None [TextElement (Memo_text m)])"

definition Memo_fromXMLElement :: "ElementElement \<Rightarrow> DominoError + Memo" where
  "Memo_fromXMLElement e = Inr \<lparr>Memo_text = firstText e\<rparr>"

datatype PCMode = Drumset | Auto

definition PCModeText :: "PCMode option \<Rightarrow> jsval" where
  "PCModeText m =
     (case m of None \<Rightarrow> JUndef | Some Drumset \<Rightarrow> JStr ''Drumset'' | Some Auto \<Rightarrow> JStr ''Auto'')"

definition PCModeFromXML :: "string \<Rightarrow> jsval \<Rightarrow> DominoError + PCMode option" where
  "PCModeFromXML msg v =
     (case v of
        JUndef \<Rightarrow> Inr None
      | JStr s \<Rightarrow>
          if s = ''Drumset'' then Inr (Some Drumset)
          else if s = ''Auto'' then Inr (Some Auto)
          else Inl (DominoError msg)
      | _ \<Rightarrow> Inl (DominoError msg))"

record TemplatePC =
  TemplatePC_pc :: "number option"
  TemplatePC_msb :: "number option"
  TemplatePC_lsb :: "number option"
  TemplatePC_mode :: "PCMode option"

definition TemplatePC_check :: "TemplatePC \<Rightarrow> DominoError + unit" where
  "TemplatePC_check p =
     (case TemplatePC_pc p of
        None \<Rightarrow> Inr ()
      | Some n \<Rightarrow>
          if n \<le> 0 \<or> n \<ge> 129
          then Inl (DominoError (''PC PC must be 1 or more less than 128. Received: '' @
                      js_String n))
          else Inr ())"

definition TemplatePC_toXMLElement :: "TemplatePC \<Rightarrow> DominoError + ElementElement" where
  "TemplatePC_toXMLElement p =
     thenE (TemplatePC_check p) (\<lambda>_.
       Inr (ElementElement ''PC''
             (Some [(''PC'', optNum (TemplatePC_pc p)), (''MSB'', optNum (TemplatePC_msb p)),
                    (''LSB'', optNum (TemplatePC_lsb p)),
                    (''Mode'', PCModeText (TemplatePC_mode p))]) []))"

definition TemplatePC_fromXMLElement :: "ElementElement \<Rightarrow> DominoError + TemplatePC" where
  "TemplatePC_fromXMLElement e =
     thenE (optionalNumber ''Invalid XML: Not found PC PC'' (attr e ''PC'')) (\<lambda>pc.
     thenE (optionalNumber ''Invalid XML: Not found PC MSB'' (attr e ''MSB'')) (\<lambda>msb.
     thenE (optionalNumber ''Invalid XML: Not found PC LSB'' (attr e ''LSB'')) (\<lambda>lsb.
     thenE (PCModeFromXML ''Invalid XML: PC Mode is not Drumset or Auto'' (attr e ''Mode''))
       (\<lambda>mode.
       Inr \<lparr>TemplatePC_pc = pc, TemplatePC_msb = msb, TemplatePC_lsb = lsb,
            TemplatePC_mode = mode\<rparr>))))"

record Comment =
  Comment_text :: "string option"

definition Comment_toXMLElement :: "Comment \<Rightarrow> DominoError + ElementElement" where
  "Comment_toXMLElement c =
     Inr (ElementElement ''Comment'' (Some [(''Text'', optStr (Comment_text c))]) [])"

definition Comment_fromXMLElement :: "ElementElement \<Rightarrow> DominoError + Comment" where
  "Comment_fromXMLElement e = Inr \<lparr>Comment_text = optionalName (attr e ''Text'')\<rparr>"

datatype TemplateTag =
  TemplateMemo Memo
| TemplateCC CC
| TemplatePCTag TemplatePC
| TemplateComment Comment

record Template =
  Template_id :: "number option"
  Template_name :: string
  Template_tags :: "TemplateTag list"

definition Template_check :: "Template \<Rightarrow> DominoError + unit" where
  "Template_check t =
     (case Template_id t of
        None \<Rightarrow> Inr ()
      | Some i \<Rightarrow>
          if i < 0
          then Inl (DominoError (''Template ID must be 0 or more. Received: '' @ js_String i))
          else Inr ())"

fun TemplateTag_toXMLElement :: "TemplateTag \<Rightarrow> DominoError + ElementElement" where
  "TemplateTag_toXMLElement (TemplateMemo m) = Memo_toXMLElement m"
| "TemplateTag_toXMLElement (TemplateCC c) = CC_toXMLElement c"
| "TemplateTag_toXMLElement (TemplatePCTag p) = TemplatePC_toXMLElement p"
| "TemplateTag_toXMLElement (TemplateComment c) = Comment_toXMLElement c"

definition Template_toXMLElement :: "Template \<Rightarrow> DominoError + ElementElement" where
  "Template_toXMLElement t =
     thenE (Template_check t) (\<lambda>_.
     thenE (mapE TemplateTag_toXMLElement (Template_tags t)) (\<lambda>es.
       Inr (ElementElement ''Template''
             (Some [(''ID'', optNum (Template_id t)), (''Name'', JStr (Template_name t))])
             (map EElement es))))"

definition Template_childFromXML ::
    "ElementElement \<Rightarrow> TemplateTag list \<Rightarrow> DominoError + TemplateTag list" where
  "Template_childFromXML e tags =
     (if name e = ''CC''
      then thenE (CC_fromXMLElement e) (\<lambda>c. Inr (tags @ [TemplateCC c]))
      else if name e = ''Memo''
      then thenE (Memo_fromXMLElement e) (\<lambda>m. Inr (tags @ [TemplateMemo m]))
      else if name e = ''PC''
      then thenE (TemplatePC_fromXMLElement e) (\<lambda>p. Inr (tags @ [TemplatePCTag p]))
      else if name e = ''Comment''
      then thenE (Comment_fromXMLElement e) (\<lambda>c. Inr (tags @ [TemplateComment c]))
      else Inr tags)"

definition Template_fromXMLElement :: "ElementElement \<Rightarrow> DominoError + Template" where
  "Template_fromXMLElement e =
     thenE (requiredName ''Invalid XML: Not found Template Name'' (attr e ''Name'')) (\<lambda>n.
     thenE (optionalNumber ''Invalid XML: Not found Template ID'' (attr e ''ID'')) (\<lambda>i.
     thenE (forEachElement Template_childFromXML (elements e) []) (\<lambda>tags.
       Inr \<lparr>Template_id = i, Template_name = n, Template_tags = tags\<rparr>)))"

subsection \<open>TemplateFolder, which nests, and TemplateList\<close>

datatype TemplateFolder =
  TemplateFolder (TemplateFolder_name: string) (TemplateFolder_tags: "TemplateFolderTag list")
and TemplateFolderTag =
  TemplateTagOf Template
| TemplateFolderTagOf TemplateFolder

fun TemplateFolder_toXMLElement :: "TemplateFolder \<Rightarrow> DominoError + ElementElement"
and TemplateFolderTag_toXMLElement :: "TemplateFolderTag \<Rightarrow> DominoError + ElementElement" where
  "TemplateFolder_toXMLElement (TemplateFolder n tags) =
     thenE (mapE TemplateFolderTag_toXMLElement tags) (\<lambda>es.
       Inr (ElementElement ''Folder'' (Some [(''Name'', JStr n)]) (map EElement es)))"
| "TemplateFolderTag_toXMLElement (TemplateTagOf t) = Template_toXMLElement t"
| "TemplateFolderTag_toXMLElement (TemplateFolderTagOf f) = TemplateFolder_toXMLElement f"

fun TemplateFolder_fromXMLElement :: "ElementElement \<Rightarrow> DominoError + TemplateFolder"
and TemplateFolder_childrenFromXML ::
      "Element list \<Rightarrow> TemplateFolderTag list \<Rightarrow> DominoError + TemplateFolderTag list" where
  "TemplateFolder_fromXMLElement (ElementElement nm a es) =
     thenE (requiredName ''Invalid XML: Not found Folder Name''
              (attr (ElementElement nm a es) ''Name'')) (\<lambda>n.
     thenE (TemplateFolder_childrenFromXML es []) (\<lambda>tags.
       Inr (TemplateFolder n tags)))"
| "TemplateFolder_childrenFromXML [] tags = Inr tags"
| "TemplateFolder_childrenFromXML (TextElement t # es) tags =
     TemplateFolder_childrenFromXML es tags"
| "TemplateFolder_childrenFromXML (EElement e # es) tags =
     (if name e = ''Template''
      then thenE (Template_fromXMLElement e) (\<lambda>t.
             TemplateFolder_childrenFromXML es (tags @ [TemplateTagOf t]))
      else if name e = ''Folder''
      then thenE (TemplateFolder_fromXMLElement e) (\<lambda>f.
             TemplateFolder_childrenFromXML es (tags @ [TemplateFolderTagOf f]))
      else TemplateFolder_childrenFromXML es tags)"

record TemplateList =
  TemplateList_tags :: "TemplateFolderTag list"

definition TemplateList_toXMLElement :: "TemplateList \<Rightarrow> DominoError + ElementElement" where
  "TemplateList_toXMLElement l =
     thenE (mapE TemplateFolderTag_toXMLElement (TemplateList_tags l)) (\<lambda>es.
       Inr (ElementElement ''TemplateList'' None (map EElement es)))"

definition TemplateList_childFromXML ::
    "ElementElement \<Rightarrow> TemplateFolderTag list \<Rightarrow> DominoError + TemplateFolderTag list" where
  "TemplateList_childFromXML e tags =
     (if name e = ''Folder''
      then thenE (TemplateFolder_fromXMLElement e) (\<lambda>f. Inr (tags @ [TemplateFolderTagOf f]))
      else if name e = ''Template''
      then thenE (Template_fromXMLElement e) (\<lambda>t. Inr (tags @ [TemplateTagOf t]))
      else Inr tags)"

definition TemplateList_fromXMLElement :: "ElementElement \<Rightarrow> DominoError + TemplateList" where
  "TemplateList_fromXMLElement e =
     thenE (forEachElement TemplateList_childFromXML (elements e) []) (\<lambda>tags.
       Inr \<lparr>TemplateList_tags = tags\<rparr>)"

section \<open>Default data: marks and tracks\<close>

record Mark =
  Mark_meas :: number
  Mark_name :: "string option"

definition Mark_check :: "Mark \<Rightarrow> DominoError + unit" where
  "Mark_check m =
     (if Mark_meas m \<le> 0
      then Inl (DominoError (''Mark Meas must be 1 or more. Received: '' @ js_String (Mark_meas m)))
      else Inr ())"

definition Mark_toXMLElement :: "Mark \<Rightarrow> DominoError + ElementElement" where
  "Mark_toXMLElement m =
     thenE (Mark_check m) (\<lambda>_.
       Inr (ElementElement ''Mark''
             (Some [(''Meas'', JNum (Mark_meas m)), (''Name'', optStr (Mark_name m))]) []))"

definition Mark_fromXMLElement :: "ElementElement \<Rightarrow> DominoError + Mark" where
  "Mark_fromXMLElement e =
     thenE (requiredNumber ''Invalid XML: Not found Mark Meas'' (attr e ''Meas'')) (\<lambda>meas.
       Inr \<lparr>Mark_meas = meas, Mark_name = optionalName (attr e ''Name'')\<rparr>)"

subsection \<open>The nine kinds of track event\<close>

record DefaultDataTrackMark =
  DefaultDataTrackMark_name :: "string option"
  DefaultDataTrackMark_tick :: "number option"
  DefaultDataTrackMark_step :: "number option"

definition DefaultDataTrackMark_toXMLElement ::
    "DefaultDataTrackMark \<Rightarrow> DominoError + ElementElement" where
  "DefaultDataTrackMark_toXMLElement m =
     Inr (ElementElement ''Mark''
           (Some [(''Name'', optStr (DefaultDataTrackMark_name m)),
                  (''Tick'', optNum (DefaultDataTrackMark_tick m)),
                  (''Step'', optNum (DefaultDataTrackMark_step m))]) [])"

definition DefaultDataTrackMark_fromXMLElement ::
    "ElementElement \<Rightarrow> DominoError + DefaultDataTrackMark" where
  "DefaultDataTrackMark_fromXMLElement e =
     thenE (optionalNumber ''Invalid XML: Not found TimeSignature Tick'' (attr e ''Tick'')) (\<lambda>tick.
     thenE (optionalNumber ''Invalid XML: Not found TimeSignature Step'' (attr e ''Step'')) (\<lambda>step.
       Inr \<lparr>DefaultDataTrackMark_name = optionalName (attr e ''Name''),
            DefaultDataTrackMark_tick = tick, DefaultDataTrackMark_step = step\<rparr>))"

text \<open>
  \<^verbatim>\<open>Number.prototype.toFixed(3)\<close>: the sign, then the integer nearest to a thousand
  times the magnitude (the larger one on a tie) written with its last three digits
  after the point. From 10^21 on the method answers as \<^verbatim>\<open>String\<close> does.
\<close>

definition js_toFixed3 :: "number \<Rightarrow> string" where
  "js_toFixed3 x =
     (if \<bar>x\<bar> \<ge> 10 ^ 21 then js_String x
      else
        (let n = nat \<lfloor>\<bar>x\<bar> * 1000 + 1 / 2\<rfloor>
         in (if x < 0 then ''-'' else []) @ string_of_nat (n div 1000) @ ''.'' @
            [digit_char (n mod 1000 div 100), digit_char (n mod 100 div 10),
             digit_char (n mod 10)]))"

record Tempo =
  Tempo_tempo :: number
  Tempo_tick :: "number option"
  Tempo_step :: "number option"

definition Tempo_toXMLElement :: "Tempo \<Rightarrow> DominoError + ElementElement" where
  "Tempo_toXMLElement t =
     Inr (ElementElement ''Tempo''
           (Some [(''Tempo'', JStr (js_toFixed3 (Tempo_tempo t))),
                  (''Tick'', optNum (Tempo_tick t)), (''Step'', optNum (Tempo_step t))]) [])"

definition Tempo_fromXMLElement :: "ElementElement \<Rightarrow> DominoError + Tempo" where
  "Tempo_fromXMLElement e =
     thenE (requiredNumber ''Invalid XML: Not found Tempo Tempo'' (attr e ''Tempo'')) (\<lambda>tempo.
     thenE (optionalNumber ''Invalid XML: Not found Tempo Tick'' (attr e ''Tick'')) (\<lambda>tick.
     thenE (optionalNumber ''Invalid XML: Not found Tempo Step'' (attr e ''Step'')) (\<lambda>step.
       Inr \<lparr>Tempo_tempo = tempo, Tempo_tick = tick, Tempo_step = step\<rparr>)))"

text \<open>\<^verbatim>\<open>s.split("/")\<close> and the test \<^verbatim>\<open>/^\d+$/\<close>.\<close>

fun splitOn :: "char \<Rightarrow> string \<Rightarrow> string list" where
  "splitOn c [] = [[]]"
| "splitOn c (x # xs) =
     (if x = c then [] # splitOn c xs
      else (case splitOn c xs of [] \<Rightarrow> [[x]] | p # ps \<Rightarrow> (x # p) # ps))"

definition digit_val :: "char \<Rightarrow> nat option" where
  "digit_val c = map_of (zip decimalDigits [0, 1, 2, 3, 4, 5, 6, 7, 8, 9]) c"

definition isDigit :: "char \<Rightarrow> bool" where
  "isDigit c = (case digit_val c of None \<Rightarrow> False | Some d \<Rightarrow> True)"

definition allDigits :: "string \<Rightarrow> bool" where
  "allDigits s = (case s of [] \<Rightarrow> False | _ # _ \<Rightarrow> list_all isDigit s)"

record TimeSignature =
  TimeSignature_timeSignature :: string
  TimeSignature_tick :: "number option"
  TimeSignature_step :: "number option"

definition TimeSignature_check :: "TimeSignature \<Rightarrow> DominoError + unit" where
  "TimeSignature_check t =
     (if list_all allDigits (splitOn (CHR ''/'') (TimeSignature_timeSignature t)) then Inr ()
      else Inl (DominoError (''TimeSignature TimeSignature does not follow format. Received: '' @
                  TimeSignature_timeSignature t)))"

definition TimeSignature_toXMLElement :: "TimeSignature \<Rightarrow> DominoError + ElementElement" where
  "TimeSignature_toXMLElement t =
     thenE (TimeSignature_check t) (\<lambda>_.
       Inr (ElementElement ''TimeSignature''
             (Some [(''TimeSignature'', JStr (TimeSignature_timeSignature t)),
                    (''Tick'', optNum (TimeSignature_tick t)),
                    (''Step'', optNum (TimeSignature_step t))]) []))"

definition TimeSignature_fromXMLElement :: "ElementElement \<Rightarrow> DominoError + TimeSignature" where
  "TimeSignature_fromXMLElement e =
     thenE (requiredString ''Invalid XML: Not found TimeSignature TimeSignature''
              (attr e ''TimeSignature'')) (\<lambda>ts.
     thenE (optionalNumber ''Invalid XML: Not found TimeSignature Tick'' (attr e ''Tick'')) (\<lambda>tick.
     thenE (optionalNumber ''Invalid XML: Not found TimeSignature Step'' (attr e ''Step'')) (\<lambda>step.
       Inr \<lparr>TimeSignature_timeSignature = ts, TimeSignature_tick = tick,
            TimeSignature_step = step\<rparr>)))"

record KeySignature =
  KeySignature_keySignature :: string
  KeySignature_tick :: "number option"
  KeySignature_step :: "number option"

definition KeySignature_toXMLElement :: "KeySignature \<Rightarrow> DominoError + ElementElement" where
  "KeySignature_toXMLElement k =
     Inr (ElementElement ''KeySignature''
           (Some [(''KeySignature'', JStr (KeySignature_keySignature k)),
                  (''Tick'', optNum (KeySignature_tick k)),
                  (''Step'', optNum (KeySignature_step k))]) [])"

definition KeySignature_fromXMLElement :: "ElementElement \<Rightarrow> DominoError + KeySignature" where
  "KeySignature_fromXMLElement e =
     thenE (requiredString ''Invalid XML: Not found KeySignature KeySignature''
              (attr e ''KeySignature'')) (\<lambda>ks.
     thenE (optionalNumber ''Invalid XML: Not found KeySignature Tick'' (attr e ''Tick'')) (\<lambda>tick.
     thenE (optionalNumber ''Invalid XML: Not found KeySignature Step'' (attr e ''Step'')) (\<lambda>step.
       Inr \<lparr>KeySignature_keySignature = ks, KeySignature_tick = tick,
            KeySignature_step = step\<rparr>)))"

record DefaultDataCC =
  DefaultDataCC_id :: number
  DefaultDataCC_value :: "number option"
  DefaultDataCC_gate :: "number option"
  DefaultDataCC_tick :: "number option"
  DefaultDataCC_step :: "number option"

definition DefaultDataCC_toXMLElement :: "DefaultDataCC \<Rightarrow> DominoError + ElementElement" where
  "DefaultDataCC_toXMLElement c =
     Inr (ElementElement ''CC''
           (Some [(''ID'', JNum (DefaultDataCC_id c)), (''Value'', optNum (DefaultDataCC_value c)),
                  (''Gate'', optNum (DefaultDataCC_gate c)),
                  (''Tick'', optNum (DefaultDataCC_tick c)),
                  (''Step'', optNum (DefaultDataCC_step c))]) [])"

definition DefaultDataCC_fromXMLElement :: "ElementElement \<Rightarrow> DominoError + DefaultDataCC" where
  "DefaultDataCC_fromXMLElement e =
     thenE (requiredNumber ''Invalid XML: Not found DefaultData CC Name'' (attr e ''ID'')) (\<lambda>i.
     thenE (optionalNumber ''Invalid XML: Not found DefaultData CC Value'' (attr e ''Value'')) (\<lambda>v.
     thenE (optionalNumber ''Invalid XML: Not found DefaultData CC Gate'' (attr e ''Gate'')) (\<lambda>g.
     thenE (optionalNumber ''Invalid XML: Not found DefaultData CC Tick'' (attr e ''Tick'')) (\<lambda>tick.
     thenE (optionalNumber ''Invalid XML: Not found DefaultData CC Step'' (attr e ''Step'')) (\<lambda>step.
       Inr \<lparr>DefaultDataCC_id = i, DefaultDataCC_value = v, DefaultDataCC_gate = g,
            DefaultDataCC_tick = tick, DefaultDataCC_step = step\<rparr>)))))"

record DefaultDataPC =
  DefaultDataPC_pc :: "number option"
  DefaultDataPC_msb :: "number option"
  DefaultDataPC_lsb :: "number option"
  DefaultDataPC_mode :: "PCMode option"
  DefaultDataPC_tick :: "number option"
  DefaultDataPC_step :: "number option"

definition DefaultDataPC_check :: "DefaultDataPC \<Rightarrow> DominoError + unit" where
  "DefaultDataPC_check p =
     (case DefaultDataPC_pc p of
        None \<Rightarrow> Inr ()
      | Some n \<Rightarrow>
          if n \<le> 0 \<or> n > 128
          then Inl (DominoError
                 (''DefaultData PC PC must be 1 or more and 128 or less. Received: '' @
                  js_String n))
          else Inr ())"

definition DefaultDataPC_toXMLElement :: "DefaultDataPC \<Rightarrow> DominoError + ElementElement" where
  "DefaultDataPC_toXMLElement p =
     thenE (DefaultDataPC_check p) (\<lambda>_.
       Inr (ElementElement ''PC''
             (Some [(''PC'', optNum (DefaultDataPC_pc p)), (''MSB'', optNum (DefaultDataPC_msb p)),
                    (''LSB'', optNum (DefaultDataPC_lsb p)),
                    (''Mode'', PCModeText (DefaultDataPC_mode p)),
                    (''Tick'', optNum (DefaultDataPC_tick p)),
                    (''Step'', optNum (DefaultDataPC_step p))]) []))"

definition DefaultDataPC_fromXMLElement :: "ElementElement \<Rightarrow> DominoError + DefaultDataPC" where
  "DefaultDataPC_fromXMLElement e =
     thenE (optionalNumber ''Invalid XML: Not found DefaultData PC PC'' (attr e ''PC'')) (\<lambda>pc.
     thenE (optionalNumber ''Invalid XML: Not found DefaultData PC MSB'' (attr e ''MSB'')) (\<lambda>msb.
     thenE (optionalNumber ''Invalid XML: Not found DefaultData PC LSB'' (attr e ''LSB'')) (\<lambda>lsb.
     thenE (PCModeFromXML ''Invalid XML: Not found DefaultData PC Mode'' (attr e ''Mode'')) (\<lambda>mode.
     thenE (optionalNumber ''Invalid XML: Not found DefaultData PC Tick'' (attr e ''Tick'')) (\<lambda>tick.
     thenE (optionalNumber ''Invalid XML: Not found DefaultData PC Step'' (attr e ''Step'')) (\<lambda>step.
       Inr \<lparr>DefaultDataPC_pc = pc, DefaultDataPC_msb = msb, DefaultDataPC_lsb = lsb,
            DefaultDataPC_mode = mode, DefaultDataPC_tick = tick,
            DefaultDataPC_step = step\<rparr>))))))"

record DefaultDataComment =
  DefaultDataComment_text :: "string option"
  DefaultDataComment_tick :: "number option"
  DefaultDataComment_step :: "number option"

definition DefaultDataComment_toXMLElement ::
    "DefaultDataComment \<Rightarrow> DominoError + ElementElement" where
  "DefaultDataComment_toXMLElement c =
     Inr (ElementElement ''Comment''
           (Some [(''Text'', optStr (DefaultDataComment_text c)),
                  (''Tick'', optNum (DefaultDataComment_tick c)),
                  (''Step'', optNum (DefaultDataComment_step c))]) [])"

definition DefaultDataComment_fromXMLElement ::
    "ElementElement \<Rightarrow> DominoError + DefaultDataComment" where
  "DefaultDataComment_fromXMLElement e =
     thenE (optionalNumber ''Invalid XML: Not found DefaultData Comment Tick'' (attr e ''Tick''))
       (\<lambda>tick.
     thenE (optionalNumber ''Invalid XML: Not found DefaultData Comment Step'' (attr e ''Step''))
       (\<lambda>step.
       Inr \<lparr>DefaultDataComment_text = optionalName (attr e ''Text''),
            DefaultDataComment_tick = tick, DefaultDataComment_step = step\<rparr>))"

record DefaultDataTemplate =
  DefaultDataTemplate_id :: "number option"
  DefaultDataTemplate_tick :: "number option"
  DefaultDataTemplate_step :: "number option"

definition DefaultDataTemplate_toXMLElement ::
    "DefaultDataTemplate \<Rightarrow> DominoError + ElementElement" where
  "DefaultDataTemplate_toXMLElement t =
     Inr (ElementElement ''Template''
           (Some [(''ID'', optNum (DefaultDataTemplate_id t)),
                  (''Tick'', optNum (DefaultDataTemplate_tick t)),
                  (''Step'', optNum (DefaultDataTemplate_step t))]) [])"

definition DefaultDataTemplate_fromXMLElement ::
    "ElementElement \<Rightarrow> DominoError + DefaultDataTemplate" where
  "DefaultDataTemplate_fromXMLElement e =
     thenE (optionalNumber ''Invalid XML: Not found DefaultData Template ID'' (attr e ''ID'')) (\<lambda>i.
     thenE (optionalNumber ''Invalid XML: Not found DefaultData Template Tick'' (attr e ''Tick''))
       (\<lambda>tick.
     thenE (optionalNumber ''Invalid XML: Not found DefaultData Template Step'' (attr e ''Step''))
       (\<lambda>step.
       Inr \<lparr>DefaultDataTemplate_id = i, DefaultDataTemplate_tick = tick,
            DefaultDataTemplate_step = step\<rparr>)))"

record EOT =
  EOT_tick :: "number option"

definition EOT_toXMLElement :: "EOT \<Rightarrow> DominoError + ElementElement" where
  "EOT_toXMLElement t = Inr (ElementElement ''EOT'' (Some [(''Tick'', optNum (EOT_tick t))]) [])"

definition EOT_fromXMLElement :: "ElementElement \<Rightarrow> DominoError + EOT" where
  "EOT_fromXMLElement e =
     thenE (optionalNumber ''Invalid XML: Not found DefaultData Template Tick'' (attr e ''Tick''))
       (\<lambda>tick. Inr \<lparr>EOT_tick = tick\<rparr>)"

subsection \<open>Track and DefaultData\<close>

datatype TrackMode = Conductor | Rhythm

datatype TrackTag =
  TrackMark DefaultDataTrackMark
| TrackTempo Tempo
| TrackTimeSignature TimeSignature
| TrackKeySignature KeySignature
| TrackCC DefaultDataCC
| TrackPC DefaultDataPC
| TrackComment DefaultDataComment
| TrackTemplate DefaultDataTemplate
| TrackEOT EOT

record Track =
  Track_name :: "string option"
  Track_ch :: "number option"
  Track_mode :: "TrackMode option"
  Track_current :: "number option"
  Track_tags :: "TrackTag list"

definition Track_check :: "Track \<Rightarrow> DominoError + unit" where
  "Track_check t =
     (case Track_ch t of
        None \<Rightarrow> Inr ()
      | Some ch \<Rightarrow>
          if ch \<le> 0 \<or> ch > 16
          then Inl (DominoError (''Track Ch must be 1 or more and 16 or less. Received: '' @
                      js_String ch))
          else Inr ())"

fun TrackTag_toXMLElement :: "TrackTag \<Rightarrow> DominoError + ElementElement" where
  "TrackTag_toXMLElement (TrackMark m) = DefaultDataTrackMark_toXMLElement m"
| "TrackTag_toXMLElement (TrackTempo t) = Tempo_toXMLElement t"
| "TrackTag_toXMLElement (TrackTimeSignature t) = TimeSignature_toXMLElement t"
| "TrackTag_toXMLElement (TrackKeySignature k) = KeySignature_toXMLElement k"
| "TrackTag_toXMLElement (TrackCC c) = DefaultDataCC_toXMLElement c"
| "TrackTag_toXMLElement (TrackPC p) = DefaultDataPC_toXMLElement p"
| "TrackTag_toXMLElement (TrackComment c) = DefaultDataComment_toXMLElement c"
| "TrackTag_toXMLElement (TrackTemplate t) = DefaultDataTemplate_toXMLElement t"
| "TrackTag_toXMLElement (TrackEOT t) = EOT_toXMLElement t"

definition TrackModeText :: "TrackMode option \<Rightarrow> jsval" where
  "TrackModeText m =
     (case m of
        None \<Rightarrow> JUndef
      | Some Conductor \<Rightarrow> JStr ''Conductor''
      | Some Rhythm \<Rightarrow> JStr ''Rhythm'')"

definition Track_toXMLElement :: "Track \<Rightarrow> DominoError + ElementElement" where
  "Track_toXMLElement t =
     thenE (Track_check t) (\<lambda>_.
     thenE (mapE TrackTag_toXMLElement (Track_tags t)) (\<lambda>es.
       Inr (ElementElement ''Track''
             (Some [(''Name'', optStr (Track_name t)), (''Ch'', optNum (Track_ch t)),
                    (''Mode'', TrackModeText (Track_mode t)),
                    (''Current'', optNum (Track_current t))])
             (map EElement es))))"

definition Track_modeFromXML :: "jsval \<Rightarrow> DominoError + TrackMode option" where
  "Track_modeFromXML v =
     (case v of
        JUndef \<Rightarrow> Inr None
      | JStr s \<Rightarrow>
          if s = ''Conductor'' then Inr (Some Conductor)
          else if s = ''Rhythm'' then Inr (Some Rhythm)
          else Inl (DominoError ''Invalid XML: Not found Track Mode'')
      | _ \<Rightarrow> Inl (DominoError ''Invalid XML: Not found Track Mode''))"

definition Track_childFromXML ::
    "ElementElement \<Rightarrow> TrackTag list \<Rightarrow> DominoError + TrackTag list" where
  "Track_childFromXML e tags =
     (if name e = ''Mark''
      then thenE (DefaultDataTrackMark_fromXMLElement e) (\<lambda>x. Inr (tags @ [TrackMark x]))
      else if name e = ''Tempo''
      then thenE (Tempo_fromXMLElement e) (\<lambda>x. Inr (tags @ [TrackTempo x]))
      else if name e = ''TimeSignature''
      then thenE (TimeSignature_fromXMLElement e) (\<lambda>x. Inr (tags @ [TrackTimeSignature x]))
      else if name e = ''KeySignature''
      then thenE (KeySignature_fromXMLElement e) (\<lambda>x. Inr (tags @ [TrackKeySignature x]))
      else if name e = ''CC''
      then thenE (DefaultDataCC_fromXMLElement e) (\<lambda>x. Inr (tags @ [TrackCC x]))
      else if name e = ''PC''
      then thenE (DefaultDataPC_fromXMLElement e) (\<lambda>x. Inr (tags @ [TrackPC x]))
      else if name e = ''Comment''
      then thenE (DefaultDataComment_fromXMLElement e) (\<lambda>x. Inr (tags @ [TrackComment x]))
      else if name e = ''Template''
      then thenE (DefaultDataTemplate_fromXMLElement e) (\<lambda>x. Inr (tags @ [TrackTemplate x]))
      else if name e = ''EOT''
      then thenE (EOT_fromXMLElement e) (\<lambda>x. Inr (tags @ [TrackEOT x]))
      else Inr tags)"

definition Track_fromXMLElement :: "ElementElement \<Rightarrow> DominoError + Track" where
  "Track_fromXMLElement e =
     thenE (optionalNumber ''Invalid XML: Not found Track Ch'' (attr e ''Ch'')) (\<lambda>ch.
     thenE (Track_modeFromXML (attr e ''Mode'')) (\<lambda>mode.
     thenE (optionalNumber ''Invalid XML: Not found Track Current'' (attr e ''Current'')) (\<lambda>cur.
     thenE (forEachElement Track_childFromXML (elements e) []) (\<lambda>tags.
       Inr \<lparr>Track_name = optionalName (attr e ''Name''), Track_ch = ch, Track_mode = mode,
            Track_current = cur, Track_tags = tags\<rparr>))))"

datatype DefaultDataTag = DefaultDataMark Mark | DefaultDataTrack Track

record DefaultData =
  DefaultData_tags :: "DefaultDataTag list"

fun DefaultDataTag_toXMLElement :: "DefaultDataTag \<Rightarrow> DominoError + ElementElement" where
  "DefaultDataTag_toXMLElement (DefaultDataMark m) = Mark_toXMLElement m"
| "DefaultDataTag_toXMLElement (DefaultDataTrack t) = Track_toXMLElement t"

definition DefaultData_toXMLElement :: "DefaultData \<Rightarrow> DominoError + ElementElement" where
  "DefaultData_toXMLElement d =
     thenE (mapE DefaultDataTag_toXMLElement (DefaultData_tags d)) (\<lambda>es.
       Inr (ElementElement ''DefaultData'' None (map EElement es)))"

definition DefaultData_childFromXML ::
    "ElementElement \<Rightarrow> DefaultDataTag list \<Rightarrow> DominoError + DefaultDataTag list" where
  "DefaultData_childFromXML e tags =
     (if name e = ''Mark''
      then thenE (Mark_fromXMLElement e) (\<lambda>m. Inr (tags @ [DefaultDataMark m]))
      else if name e = ''Track''
      then thenE (Track_fromXMLElement e) (\<lambda>t. Inr (tags @ [DefaultDataTrack t]))
      else Inr tags)"

definition DefaultData_fromXMLElement :: "ElementElement \<Rightarrow> DominoError + DefaultData" where
  "DefaultData_fromXMLElement e =
     thenE (forEachElement DefaultData_childFromXML (elements e) []) (\<lambda>tags.
       Inr \<lparr>DefaultData_tags = tags\<rparr>)"

section \<open>The module data\<close>

subsection \<open>The four defaults that hold one value\<close>

record RhythmTrackDefault =
  RhythmTrackDefault_gate :: number

definition RhythmTrackDefault_toXMLElement ::
    "RhythmTrackDefault \<Rightarrow> DominoError + ElementElement" where
  "RhythmTrackDefault_toXMLElement r =
     Inr (ElementElement ''RhythmTrackDefault''
           (Some [(''Gate'', JNum (RhythmTrackDefault_gate r))]) [])"

definition RhythmTrackDefault_fromXMLElement ::
    "ElementElement \<Rightarrow> DominoError + RhythmTrackDefault" where
  "RhythmTrackDefault_fromXMLElement e =
     thenE (requiredNumber ''Invalid XML: Not found RhythmTrackDefault Gate'' (attr e ''Gate''))
       (\<lambda>g. Inr \<lparr>RhythmTrackDefault_gate = g\<rparr>)"

record ExclusiveEventDefault =
  ExclusiveEventDefault_data :: string

definition ExclusiveEventDefault_toXMLElement ::
    "ExclusiveEventDefault \<Rightarrow> DominoError + ElementElement" where
  "ExclusiveEventDefault_toXMLElement x =
     Inr (ElementElement ''ExclusiveEventDefault''
           (Some [(''Data'', JStr (ExclusiveEventDefault_data x))]) [])"

definition ExclusiveEventDefault_fromXMLElement ::
    "ElementElement \<Rightarrow> DominoError + ExclusiveEventDefault" where
  "ExclusiveEventDefault_fromXMLElement e =
     thenE (requiredString ''Invalid XML: Not found ExclusiveEventDefault Data'' (attr e ''Data''))
       (\<lambda>d. Inr \<lparr>ExclusiveEventDefault_data = d\<rparr>)"

record ProgramChangeEventPropertyDlg =
  ProgramChangeEventPropertyDlg_autoPreviewDelay :: number

definition ProgramChangeEventPropertyDlg_toXMLElement ::
    "ProgramChangeEventPropertyDlg \<Rightarrow> DominoError + ElementElement" where
  "ProgramChangeEventPropertyDlg_toXMLElement p =
     Inr (ElementElement ''ProgramChangeEventPropertyDlg''
           (Some [(''AutoPreviewDelay'', JNum (ProgramChangeEventPropertyDlg_autoPreviewDelay p))])
           [])"

definition ProgramChangeEventPropertyDlg_fromXMLElement ::
    "ElementElement \<Rightarrow> DominoError + ProgramChangeEventPropertyDlg" where
  "ProgramChangeEventPropertyDlg_fromXMLElement e =
     thenE (requiredNumber
              ''Invalid XML: Not found ProgramChangeEventPropertyDlg AutoPreviewDelay''
              (attr e ''AutoPreviewDelay''))
       (\<lambda>d. Inr \<lparr>ProgramChangeEventPropertyDlg_autoPreviewDelay = d\<rparr>)"

record ControlChangeEventDefault =
  ControlChangeEventDefault_id :: number

definition ControlChangeEventDefault_toXMLElement ::
    "ControlChangeEventDefault \<Rightarrow> DominoError + ElementElement" where
  "ControlChangeEventDefault_toXMLElement c =
     Inr (ElementElement ''ControlChangeEventDefault''
           (Some [(''ID'', JNum (ControlChangeEventDefault_id c))]) [])"

definition ControlChangeEventDefault_fromXMLElement ::
    "ElementElement \<Rightarrow> DominoError + ControlChangeEventDefault" where
  "ControlChangeEventDefault_fromXMLElement e =
     thenE (requiredNumber ''Invalid XML: Not found ControlChangeEventDefault ID'' (attr e ''ID''))
       (\<lambda>i. Inr \<lparr>ControlChangeEventDefault_id = i\<rparr>)"

subsection \<open>ModuleData\<close>

datatype ModuleData_tag =
  Tag_rhythmTrackDefault RhythmTrackDefault
| Tag_exclusiveEventDefault ExclusiveEventDefault
| Tag_programChangeEventPropertyDlg ProgramChangeEventPropertyDlg
| Tag_controlChangeEventDefault ControlChangeEventDefault
| Tag_instrumentList "Bank MapList"
| Tag_drumSetList "DrumBank MapList"
| Tag_controlChangeMacroList ControlChangeMacroList
| Tag_templateList TemplateList
| Tag_defaultData DefaultData

fun ModuleData_tag_key :: "ModuleData_tag \<Rightarrow> string" where
  "ModuleData_tag_key (Tag_rhythmTrackDefault x) = ''rhythmTrackDefault''"
| "ModuleData_tag_key (Tag_exclusiveEventDefault x) = ''exclusiveEventDefault''"
| "ModuleData_tag_key (Tag_programChangeEventPropertyDlg x) = ''programChangeEventPropertyDlg''"
| "ModuleData_tag_key (Tag_controlChangeEventDefault x) = ''controlChangeEventDefault''"
| "ModuleData_tag_key (Tag_instrumentList x) = ''instrumentList''"
| "ModuleData_tag_key (Tag_drumSetList x) = ''drumSetList''"
| "ModuleData_tag_key (Tag_controlChangeMacroList x) = ''controlChangeMacroList''"
| "ModuleData_tag_key (Tag_templateList x) = ''templateList''"
| "ModuleData_tag_key (Tag_defaultData x) = ''defaultData''"

record ModuleData =
  ModuleData_name :: string
  ModuleData_folder :: "string option"
  ModuleData_priority :: "number option"
  ModuleData_fileCreator :: "string option"
  ModuleData_fileVersion :: "string option"
  ModuleData_website :: "string option"
  ModuleData_tags :: "ModuleData_tag list"

fun ModuleData_tag_toXMLElement :: "ModuleData_tag \<Rightarrow> DominoError + ElementElement" where
  "ModuleData_tag_toXMLElement (Tag_rhythmTrackDefault x) = RhythmTrackDefault_toXMLElement x"
| "ModuleData_tag_toXMLElement (Tag_exclusiveEventDefault x) =
     ExclusiveEventDefault_toXMLElement x"
| "ModuleData_tag_toXMLElement (Tag_programChangeEventPropertyDlg x) =
     ProgramChangeEventPropertyDlg_toXMLElement x"
| "ModuleData_tag_toXMLElement (Tag_controlChangeEventDefault x) =
     ControlChangeEventDefault_toXMLElement x"
| "ModuleData_tag_toXMLElement (Tag_instrumentList x) = InstrumentList_toXMLElement x"
| "ModuleData_tag_toXMLElement (Tag_drumSetList x) = DrumSetList_toXMLElement x"
| "ModuleData_tag_toXMLElement (Tag_controlChangeMacroList x) =
     ControlChangeMacroList_toXMLElement x"
| "ModuleData_tag_toXMLElement (Tag_templateList x) = TemplateList_toXMLElement x"
| "ModuleData_tag_toXMLElement (Tag_defaultData x) = DefaultData_toXMLElement x"

subsection \<open>The consistency check of the macro tree\<close>

text \<open>
  \<^verbatim>\<open>ModuleData.check\<close> writes to the log and returns nothing; the model returns the
  records it logs, in order. Its helpers take lists of folders, of macros or of tables:
  \<open>Identified\<close> is that union, \<open>param_id\<close> reads \<^verbatim>\<open>tag.param.id\<close> and \<open>typeName\<close> is
  the \<^verbatim>\<open>instanceof\<close> chain that names the kind in a message.
\<close>

datatype LogRecord = LogError string | LogInfo string

datatype Identified = IdFolder CCMFolder | IdCCM CCM | IdTable Table

fun param_id :: "Identified \<Rightarrow> number option" where
  "param_id (IdFolder f) = CCMFolder_id f"
| "param_id (IdCCM c) = Some (CCM_id c)"
| "param_id (IdTable t) = Some (Table_id t)"

fun typeName :: "Identified \<Rightarrow> string" where
  "typeName (IdFolder f) = ''Folder''"
| "typeName (IdCCM c) = ''CCM''"
| "typeName (IdTable t) = ''Table''"

fun flatFn :: "CCMFolderTag \<Rightarrow> CCMFolderTag list" where
  "flatFn (FolderTag (CCMFolder n i tags)) =
     FolderTag (CCMFolder n i tags) # concat (map flatFn tags)"
| "flatFn (FolderLinkTag l) = [FolderLinkTag l]"
| "flatFn (CCMTag c) = [CCMTag c]"
| "flatFn (CCMLinkTag l) = [CCMLinkTag l]"
| "flatFn (TableTag t) = [TableTag t]"
| "flatFn (MemoTag s) = [MemoTag s]"

text \<open>
  \<^verbatim>\<open>(a.param.id ?? Infinity) - (b.param.id ?? Infinity)\<close>, by its sign. Infinity minus
  Infinity is NaN, which \<^verbatim>\<open>Array.prototype.sort\<close> reads as 0.
\<close>

definition sortFn :: "Identified \<Rightarrow> Identified \<Rightarrow> int" where
  "sortFn a b =
     (case (param_id a, param_id b) of
        (Some x, Some y) \<Rightarrow> (if x < y then - 1 else if x = y then 0 else 1)
      | (Some x, None) \<Rightarrow> - 1
      | (None, Some y) \<Rightarrow> 1
      | (None, None) \<Rightarrow> 0)"

text \<open>\<^verbatim>\<open>list.sort(compare)\<close>, which is stable: an insertion sort from the right.\<close>

fun insertSorted :: "('a \<Rightarrow> 'a \<Rightarrow> int) \<Rightarrow> 'a \<Rightarrow> 'a list \<Rightarrow> 'a list" where
  "insertSorted compare x [] = [x]"
| "insertSorted compare x (y # ys) =
     (if compare x y \<le> 0 then x # y # ys else y # insertSorted compare x ys)"

definition js_sort :: "('a \<Rightarrow> 'a \<Rightarrow> int) \<Rightarrow> 'a list \<Rightarrow> 'a list" where
  "js_sort compare xs = foldr (insertSorted compare) xs []"

fun checkDuplicateFrom :: "number \<Rightarrow> Identified list \<Rightarrow> LogRecord list" where
  "checkDuplicateFrom prevId [] = []"
| "checkDuplicateFrom prevId (tag # list) =
     (case param_id tag of
        None \<Rightarrow> checkDuplicateFrom prevId list
      | Some i \<Rightarrow>
          (if i = prevId
           then [LogError (''Duplicate '' @ typeName tag @ '' tag ID: '' @ js_String i)]
           else []) @ checkDuplicateFrom i list)"

definition checkDuplicate :: "Identified list \<Rightarrow> LogRecord list" where
  "checkDuplicate list = checkDuplicateFrom (- 1) list"

text \<open>
  The inner loop of \<^verbatim>\<open>outputUsedId\<close>: from the identifier before, it walks on while the
  next entry has an identifier less than 2 above it, and returns the last identifier it
  took (\<^verbatim>\<open>end\<close>) with the entries it left.
\<close>

fun extendRun ::
    "number \<Rightarrow> number option \<Rightarrow> Identified list \<Rightarrow> number option \<times> Identified list" where
  "extendRun prev end' [] = (end', [])"
| "extendRun prev end' (tag # list) =
     (case param_id tag of
        None \<Rightarrow> (end', tag # list)
      | Some next \<Rightarrow>
          if next - prev \<ge> 2 then (end', tag # list) else extendRun next (Some next) list)"

lemma extendRun_length: "length (snd (extendRun prev end' list)) \<le> length list"
  by (induction list arbitrary: prev end') (auto split: option.splits intro: le_SucI)

text \<open>The outer loop: one piece of text for each run, until an entry has no identifier.\<close>

function usedRanges :: "Identified list \<Rightarrow> string" where
  "usedRanges [] = []"
| "usedRanges (tag # list) =
     (case param_id tag of
        None \<Rightarrow> []
      | Some start \<Rightarrow>
          (case extendRun start None list of
             (end', rest) \<Rightarrow>
               (case end' of
                  None \<Rightarrow> js_String start @ '' ''
                | Some e \<Rightarrow>
                    if start = e then js_String start @ '' ''
                    else js_String start @ ''-'' @ js_String e @ '' '') @ usedRanges rest))"
  by pat_completeness auto
termination
proof (relation "measure length")
  show "wf (measure length)" by simp
next
  fix tag :: Identified and list x2 x y
  assume "(x, y) = extendRun x2 None list"
  then have "y = snd (extendRun x2 None list)" by (metis snd_conv)
  then show "(y, tag # list) \<in> measure length"
    using extendRun_length [of x2 None list] by simp
qed

definition outputUsedId :: "Identified list \<Rightarrow> LogRecord list" where
  "outputUsedId list =
     (case list of
        [] \<Rightarrow> []
      | tag # _ \<Rightarrow>
          (case param_id tag of
             None \<Rightarrow> []
           | Some _ \<Rightarrow> [LogInfo (''Used Ids ('' @ typeName tag @ ''): '' @ usedRanges list)]))"

fun MacroTag_asFolderTag :: "MacroTag \<Rightarrow> CCMFolderTag" where
  "MacroTag_asFolderTag (MacroFolder f) = FolderTag f"
| "MacroTag_asFolderTag (MacroFolderLink l) = FolderLinkTag l"
| "MacroTag_asFolderTag (MacroCCM c) = CCMTag c"
| "MacroTag_asFolderTag (MacroCCMLink l) = CCMLinkTag l"
| "MacroTag_asFolderTag (MacroTable t) = TableTag t"

fun ccmOf :: "CCMFolderTag \<Rightarrow> Identified list" where
  "ccmOf (CCMTag c) = [IdCCM c]"
| "ccmOf _ = []"

fun ccmFolderOf :: "CCMFolderTag \<Rightarrow> Identified list" where
  "ccmFolderOf (FolderTag f) = [IdFolder f]"
| "ccmFolderOf _ = []"

fun tableOf :: "CCMFolderTag \<Rightarrow> Identified list" where
  "tableOf (TableTag t) = [IdTable t]"
| "tableOf _ = []"

text \<open>\<^verbatim>\<open>this.tags.controlChangeMacroList\<close>.\<close>

fun ModuleData_controlChangeMacroList :: "ModuleData_tag list \<Rightarrow> ControlChangeMacroList option" where
  "ModuleData_controlChangeMacroList [] = None"
| "ModuleData_controlChangeMacroList (Tag_controlChangeMacroList l # tags) = Some l"
| "ModuleData_controlChangeMacroList (_ # tags) = ModuleData_controlChangeMacroList tags"

definition ModuleData_check :: "ModuleData \<Rightarrow> LogRecord list" where
  "ModuleData_check md =
     (let ccmFlatList =
            (case ModuleData_controlChangeMacroList (ModuleData_tags md) of
               None \<Rightarrow> []
             | Some l \<Rightarrow>
                 concat (map (\<lambda>t. flatFn (MacroTag_asFolderTag t)) (ControlChangeMacroList_tags l)));
          ccm = js_sort sortFn (concat (map ccmOf ccmFlatList));
          ccmFolder = js_sort sortFn (concat (map ccmFolderOf ccmFlatList));
          table = js_sort sortFn (concat (map tableOf ccmFlatList))
      in checkDuplicate ccm @ checkDuplicate ccmFolder @ checkDuplicate table @
         outputUsedId ccm @ outputUsedId ccmFolder @ outputUsedId table)"

subsection \<open>Encoding and decoding the module data\<close>

definition ModuleData_toXMLElement ::
    "ModuleData \<Rightarrow> DominoError + (ElementElement \<times> LogRecord list)" where
  "ModuleData_toXMLElement md =
     thenE (mapE ModuleData_tag_toXMLElement (ModuleData_tags md)) (\<lambda>es.
       Inr (ElementElement ''ModuleData''
              (Some [(''Name'', JStr (ModuleData_name md)),
                     (''Folder'', optStr (ModuleData_folder md)),
                     (''Priority'', optNum (ModuleData_priority md)),
                     (''FileCreator'', optStr (ModuleData_fileCreator md)),
                     (''FileVersion'', optStr (ModuleData_fileVersion md)),
                     (''WebSite'', optStr (ModuleData_website md))])
              (map EElement es),
            ModuleData_check md))"

definition ModuleData_childFromXML ::
    "ElementElement \<Rightarrow> ModuleData_tag list \<Rightarrow> DominoError + ModuleData_tag list" where
  "ModuleData_childFromXML e tags =
     (if name e = ''RhythmTrackDefault''
      then thenE (RhythmTrackDefault_fromXMLElement e) (\<lambda>x.
             Inr (assign ModuleData_tag_key (Tag_rhythmTrackDefault x) tags))
      else if name e = ''ExclusiveEventDefault''
      then thenE (ExclusiveEventDefault_fromXMLElement e) (\<lambda>x.
             Inr (assign ModuleData_tag_key (Tag_exclusiveEventDefault x) tags))
      else if name e = ''ProgramChangeEventPropertyDlg''
      then thenE (ProgramChangeEventPropertyDlg_fromXMLElement e) (\<lambda>x.
             Inr (assign ModuleData_tag_key (Tag_programChangeEventPropertyDlg x) tags))
      else if name e = ''ControlChangeEventDefault''
      then thenE (ControlChangeEventDefault_fromXMLElement e) (\<lambda>x.
             Inr (assign ModuleData_tag_key (Tag_controlChangeEventDefault x) tags))
      else if name e = ''InstrumentList''
      then thenE (InstrumentList_fromXMLElement e) (\<lambda>x.
             Inr (assign ModuleData_tag_key (Tag_instrumentList x) tags))
      else if name e = ''DrumSetList''
      then thenE (DrumSetList_fromXMLElement e) (\<lambda>x.
             Inr (assign ModuleData_tag_key (Tag_drumSetList x) tags))
      else if name e = ''ControlChangeMacroList''
      then thenE (ControlChangeMacroList_fromXMLElement e) (\<lambda>x.
             Inr (assign ModuleData_tag_key (Tag_controlChangeMacroList x) tags))
      else if name e = ''TemplateList''
      then thenE (TemplateList_fromXMLElement e) (\<lambda>x.
             Inr (assign ModuleData_tag_key (Tag_templateList x) tags))
      else if name e = ''DefaultData''
      then thenE (DefaultData_fromXMLElement e) (\<lambda>x.
             Inr (assign ModuleData_tag_key (Tag_defaultData x) tags))
      else Inr tags)"

definition ModuleData_fromXMLElement :: "ElementElement \<Rightarrow> DominoError + ModuleData" where
  "ModuleData_fromXMLElement e =
     thenE (requiredName ''Invalid XML: Not found ModuleData Name'' (attr e ''Name'')) (\<lambda>n.
     thenE (optionalNumber ''Invalid XML: Not found ModuleData Priority'' (attr e ''Priority''))
       (\<lambda>priority.
     thenE (forEachElement ModuleData_childFromXML (elements e) []) (\<lambda>tags.
       Inr \<lparr>ModuleData_name = n, ModuleData_folder = optionalName (attr e ''Folder''),
            ModuleData_priority = priority,
            ModuleData_fileCreator = optionalName (attr e ''FileCreator''),
            ModuleData_fileVersion = optionalName (attr e ''FileVersion''),
            ModuleData_website = optionalName (attr e ''WebSite''),
            ModuleData_tags = tags\<rparr>)))"

section \<open>The document and its text\<close>

subsection \<open>The markup library\<close>

text \<open>
  \<^verbatim>\<open>js2xml\<close>, \<^verbatim>\<open>xml2js\<close>, \<^verbatim>\<open>format\<close> and \<^verbatim>\<open>EOL\<close> come from \<^verbatim>\<open>deps.ts\<close>, which is not
  among the sources: the first two belong to a markup library, the third rewrites the
  line endings of a text. \<^verbatim>\<open>File.toXML\<close> and \<^verbatim>\<open>File.fromXML\<close> take them as a parameter,
  the record \<open>Deps\<close>, and the type of a text is a parameter too. \<open>XmlJs\<close> is the object
  that the library writes and builds: the attributes of the declaration, when there is
  one, and the elements. An options object is the list of its entries.
\<close>

record XmlJs =
  XmlJs_declaration :: "Attributes option"
  XmlJs_elements :: "Element list option"

type_synonym Js2XmlOptions = "(string \<times> jsval) list"

type_synonym Xml2JsOptions = "(string \<times> jsval) list"

datatype EOL = LF | CRLF

record 'text Deps =
  Deps_js2xml :: "XmlJs \<Rightarrow> Js2XmlOptions \<Rightarrow> 'text"
  Deps_format :: "'text \<Rightarrow> EOL \<Rightarrow> 'text"
  Deps_xml2js :: "'text \<Rightarrow> Xml2JsOptions \<Rightarrow> XmlJs"

subsection \<open>File\<close>

record File =
  File_moduleData :: ModuleData

definition File_xmlVersion :: string where
  "File_xmlVersion = ''1.0''"

definition File_xmlEncoding :: string where
  "File_xmlEncoding = ''Shift_JIS''"

text \<open>The constant \<^verbatim>\<open>obj\<close> of \<^verbatim>\<open>toXML\<close>, with the records that encoding the root logs.\<close>

definition File_obj :: "File \<Rightarrow> DominoError + (XmlJs \<times> LogRecord list)" where
  "File_obj f =
     thenE (ModuleData_toXMLElement (File_moduleData f)) (\<lambda>(element, logged).
       Inr (\<lparr>XmlJs_declaration =
               Some [(''version'', JStr File_xmlVersion), (''encoding'', JStr File_xmlEncoding)],
             XmlJs_elements = Some [EElement element]\<rparr>,
            logged))"

text \<open>
  The constant \<^verbatim>\<open>op\<close>, \<^verbatim>\<open>{ ...options, compact: false }\<close>: the entries of the options
  that were passed, if any, with \<^verbatim>\<open>compact\<close> set to \<^verbatim>\<open>false\<close>.
\<close>

definition File_op :: "Js2XmlOptions option \<Rightarrow> Js2XmlOptions" where
  "File_op options =
     assign fst (''compact'', JBool False) (case options of None \<Rightarrow> [] | Some given \<Rightarrow> given)"

definition File_toXML ::
    "'text Deps \<Rightarrow> Js2XmlOptions option \<Rightarrow> File \<Rightarrow> DominoError + ('text \<times> LogRecord list)" where
  "File_toXML deps options f =
     thenE (File_obj f) (\<lambda>(obj, logged).
       Inr (Deps_format deps (Deps_js2xml deps obj (File_op options)) CRLF, logged))"

text \<open>The options that \<^verbatim>\<open>fromXML\<close> passes to the parser.\<close>

definition File_parseOptions :: Xml2JsOptions where
  "File_parseOptions =
     [(''compact'', JBool False), (''nativeTypeAttributes'', JBool True),
      (''alwaysChildren'', JBool True)]"

definition declaredEncoding :: "Attributes \<Rightarrow> jsval" where
  "declaredEncoding kvs = (case map_of kvs ''encoding'' of None \<Rightarrow> JUndef | Some v \<Rightarrow> v)"

definition File_fromXML :: "'text Deps \<Rightarrow> 'text \<Rightarrow> DominoError + File" where
  "File_fromXML deps xml =
     (let doc = Deps_xml2js deps xml File_parseOptions
      in case XmlJs_declaration doc of
           None \<Rightarrow> Inl (DominoError ''Invalid XML'')
         | Some kvs \<Rightarrow>
             if declaredEncoding kvs \<noteq> JStr ''Shift_JIS''
             then Inl (DominoError ''Invalid encoding'')
             else
               (case XmlJs_elements doc of
                  None \<Rightarrow> Inl (DominoError ''Invalid XML: Not found ModuleData'')
                | Some [] \<Rightarrow> Inl (DominoError ''Invalid XML: Not found ModuleData'')
                | Some (TextElement t # _) \<Rightarrow>
                    Inl (DominoError ''Invalid XML: Not found ModuleData'')
                | Some (EElement e # _) \<Rightarrow>
                    thenE (ModuleData_fromXMLElement e) (\<lambda>md. Inr \<lparr>File_moduleData = md\<rparr>)))"

subsection \<open>What a library reads back\<close>

text \<open>
  Modelled from the spec: the contract of the library, which is not among the sources.
  The parser is asked to coerce the attribute values (\<^verbatim>\<open>nativeTypeAttributes\<close>): where
  the serializer wrote a string, the parser reads what its coercion makes of the
  string, a number where the string looks like one. \<open>readDocument\<close> is the object that
  a library with the coercion \<open>coerce\<close> reads from the text of an object when nothing
  else is lost on the way: an attribute without a value is not written, a number and a
  boolean are read as they were, and every element and every text is read in its
  place. The coercion is a parameter.
\<close>

definition readBack :: "(string \<Rightarrow> jsval) \<Rightarrow> jsval \<Rightarrow> jsval" where
  "readBack coerce v = (case v of JStr s \<Rightarrow> coerce s | _ \<Rightarrow> v)"

fun readAttributes :: "(string \<Rightarrow> jsval) \<Rightarrow> Attributes \<Rightarrow> Attributes" where
  "readAttributes coerce [] = []"
| "readAttributes coerce ((k, v) # kvs) =
     (case v of
        JUndef \<Rightarrow> readAttributes coerce kvs
      | _ \<Rightarrow> (k, readBack coerce v) # readAttributes coerce kvs)"

text \<open>An element none of whose attributes was written is read without attributes.\<close>

definition readAttributeList ::
    "(string \<Rightarrow> jsval) \<Rightarrow> Attributes option \<Rightarrow> Attributes option" where
  "readAttributeList coerce a =
     (case a of
        None \<Rightarrow> None
      | Some kvs \<Rightarrow>
          if readAttributes coerce kvs = [] then None else Some (readAttributes coerce kvs))"

fun readElement :: "(string \<Rightarrow> jsval) \<Rightarrow> ElementElement \<Rightarrow> ElementElement"
and readNode :: "(string \<Rightarrow> jsval) \<Rightarrow> Element \<Rightarrow> Element" where
  "readElement coerce (ElementElement n a es) =
     ElementElement n (readAttributeList coerce a) (map (readNode coerce) es)"
| "readNode coerce (EElement e) = EElement (readElement coerce e)"
| "readNode coerce (TextElement t) = TextElement t"

definition readDocument :: "(string \<Rightarrow> jsval) \<Rightarrow> XmlJs \<Rightarrow> XmlJs" where
  "readDocument coerce obj =
     \<lparr>XmlJs_declaration = map_option (readAttributes coerce) (XmlJs_declaration obj),
      XmlJs_elements =
        Some (map (readNode coerce) (case XmlJs_elements obj of None \<Rightarrow> [] | Some es \<Rightarrow> es))\<rparr>"

text \<open>
  The object that \<^verbatim>\<open>fromXML\<close> gets from the library for the text that \<^verbatim>\<open>toXML\<close> made of
  an object.
\<close>

definition writtenAndRead :: "'text Deps \<Rightarrow> Js2XmlOptions option \<Rightarrow> XmlJs \<Rightarrow> XmlJs" where
  "writtenAndRead deps options obj =
     Deps_xml2js deps (Deps_format deps (Deps_js2xml deps obj (File_op options)) CRLF)
       File_parseOptions"

subsection \<open>A library for the examples\<close>

text \<open>
  Modelled from the spec: one library that meets the contract, for the examples that
  need a text. Its text is the object itself, so that nothing of a written object is
  escaped, trimmed or re-encoded, and its coercion \<open>nativeType\<close> reads a decimal numeral
  (an optional sign, digits, and optionally a point and more digits) as the number it
  spells and \<^verbatim>\<open>true\<close> and \<^verbatim>\<open>false\<close>, in any mix of cases, as booleans. The library of
  \<^verbatim>\<open>deps.ts\<close> coerces more than that (the empty string, blanks, exponents, a leading
  point, other radixes) and writes characters; no general statement below is about
  this example.
\<close>

fun parse_digits :: "string \<Rightarrow> nat \<Rightarrow> nat option" where
  "parse_digits [] acc = Some acc"
| "parse_digits (c # cs) acc =
     (case digit_val c of None \<Rightarrow> None | Some d \<Rightarrow> parse_digits cs (acc * 10 + d))"

definition parse_nat :: "string \<Rightarrow> nat option" where
  "parse_nat s = (case s of [] \<Rightarrow> None | _ # _ \<Rightarrow> parse_digits s 0)"

definition notPoint :: "char \<Rightarrow> bool" where
  "notPoint c = (c \<noteq> CHR ''.'')"

definition parse_unsigned :: "string \<Rightarrow> number option" where
  "parse_unsigned s =
     (case dropWhile notPoint s of
        [] \<Rightarrow> map_option of_nat (parse_nat s)
      | _ # f \<Rightarrow>
          (case parse_nat (takeWhile notPoint s) of
             None \<Rightarrow> None
           | Some a \<Rightarrow>
               (case parse_digits f 0 of
                  None \<Rightarrow> None
                | Some b \<Rightarrow> Some (of_nat a + of_nat b / 10 ^ length f))))"

definition parse_number :: "string \<Rightarrow> number option" where
  "parse_number s =
     (case s of
        [] \<Rightarrow> None
      | c # r \<Rightarrow>
          if c = CHR ''-'' then map_option uminus (parse_unsigned r)
          else if c = CHR ''+'' then parse_unsigned r
          else parse_unsigned s)"

definition spells :: "string \<Rightarrow> string \<Rightarrow> string \<Rightarrow> bool" where
  \<comment> \<open>each character is the lower-case or the upper-case letter at its place\<close>
  "spells lower upper s =
     (length s = length lower \<and>
      list_all (\<lambda>(c, l, u). c = l \<or> c = u) (zip s (zip lower upper)))"

definition nativeType :: "string \<Rightarrow> jsval" where
  "nativeType s =
     (case parse_number s of
        Some n \<Rightarrow> JNum n
      | None \<Rightarrow>
          if spells ''true'' ''TRUE'' s then JBool True
          else if spells ''false'' ''FALSE'' s then JBool False
          else JStr s)"

datatype XmlText = XmlText XmlJs

definition js2xml :: "XmlJs \<Rightarrow> Js2XmlOptions \<Rightarrow> XmlText" where
  "js2xml obj op = XmlText obj"

definition format :: "XmlText \<Rightarrow> EOL \<Rightarrow> XmlText" where
  "format str eol = str"

fun xml2js :: "XmlText \<Rightarrow> Xml2JsOptions \<Rightarrow> XmlJs" where
  "xml2js (XmlText obj) op =
     readDocument
       (if map_of op ''nativeTypeAttributes'' = Some (JBool True) then nativeType else JStr) obj"

definition treeDeps :: "XmlText Deps" where
  "treeDeps = \<lparr>Deps_js2xml = js2xml, Deps_format = format, Deps_xml2js = xml2js\<rparr>"

section \<open>Properties\<close>

subsection \<open>Evaluation of the helpers\<close>

lemmas js_String_eval = js_String_def string_of_nat.simps digit_char_def decimalDigits_def

lemma thenE_simps [simp]:
  "thenE (Inl e) f = Inl e"
  "thenE (Inr x) f = f x"
  by (simp_all add: thenE_def)

lemma thenE_Inr_iff: "thenE r f = Inr y \<longleftrightarrow> (\<exists>x. r = Inr x \<and> f x = Inr y)"
  by (cases r) simp_all

lemma thenE_Inl_iff: "thenE r f = Inl e \<longleftrightarrow> r = Inl e \<or> (\<exists>x. r = Inr x \<and> f x = Inl e)"
  by (cases r) simp_all

subsection \<open>Range validators\<close>

text \<open>
  C6. The range validators enforce their closed bounds at the boundary values:
  \<open>PC_check\<close> raises for program number 0 and for 129 and passes 1 and 128;
  \<open>Bank_check\<close> raises for an LSB of 256 and for an MSB of -1 and passes LSB 0 with
  MSB 255; \<open>Tone_check\<close> raises for key 128 and passes keys 0 and 127. The other fields
  are arbitrary.
\<close>

theorem range_validators_at_their_bounds:
  "PC_check \<lparr>PC_name = n, PC_pc = 0, PC_banks = bs\<rparr> =
     Inl (DominoError (''PC must be between 1 and 128. Received: 0,'' @ n))
   \<and> PC_check \<lparr>PC_name = n, PC_pc = 129, PC_banks = bs\<rparr> =
     Inl (DominoError (''PC must be between 1 and 128. Received: 129,'' @ n))
   \<and> PC_check \<lparr>PC_name = n, PC_pc = 1, PC_banks = bs\<rparr> = Inr ()
   \<and> PC_check \<lparr>PC_name = n, PC_pc = 128, PC_banks = bs\<rparr> = Inr ()
   \<and> Bank_check \<lparr>Bank_name = n, Bank_lsb = Some 256, Bank_msb = m\<rparr> =
     Inl (DominoError ''LSB must be between 0 and 255. Received: 256'')
   \<and> Bank_check \<lparr>Bank_name = n, Bank_lsb = None, Bank_msb = Some (- 1)\<rparr> =
     Inl (DominoError ''MSB must be between 0 and 255. Received: -1'')
   \<and> Bank_check \<lparr>Bank_name = n, Bank_lsb = Some 0, Bank_msb = Some (- 1)\<rparr> =
     Inl (DominoError ''MSB must be between 0 and 255. Received: -1'')
   \<and> Bank_check \<lparr>Bank_name = n, Bank_lsb = Some 0, Bank_msb = Some 255\<rparr> = Inr ()
   \<and> Tone_check \<lparr>Tone_name = n, Tone_key = 128\<rparr> =
     Inl (DominoError ''Key must be between 0 and 127. Received: 128'')
   \<and> Tone_check \<lparr>Tone_name = n, Tone_key = 0\<rparr> = Inr ()
   \<and> Tone_check \<lparr>Tone_name = n, Tone_key = 127\<rparr> = Inr ()"
  by (simp add: PC_check_def Bank_check_def Tone_check_def js_String_eval)

subsection \<open>Entries against the bounds of a value\<close>

lemma mapE_unit_iff:
  "mapE f xs = Inr us \<longleftrightarrow> length us = length xs \<and> (\<forall>x \<in> set xs. f x = Inr ())"
  for f :: "'a \<Rightarrow> DominoError + unit"
proof (induction xs arbitrary: us)
  case Nil
  then show ?case by auto
next
  case (Cons x xs)
  show ?case
  proof (cases "f x")
    case (Inl e)
    then show ?thesis by simp
  next
    case (Inr u)
    then show ?thesis
      by (cases us) (auto simp: thenE_Inr_iff Cons.IH)
  qed
qed

lemma mapE_unit_ok: "(\<exists>us. mapE f xs = Inr us) \<longleftrightarrow> (\<forall>x \<in> set xs. f x = Inr ())"
  for f :: "'a \<Rightarrow> DominoError + unit"
proof
  assume "\<exists>us. mapE f xs = Inr us"
  then show "\<forall>x \<in> set xs. f x = Inr ()" by (auto simp: mapE_unit_iff)
next
  assume "\<forall>x \<in> set xs. f x = Inr ()"
  then have "mapE f xs = Inr (replicate (length xs) ())" by (simp add: mapE_unit_iff)
  then show "\<exists>us. mapE f xs = Inr us" ..
qed

theorem Value_check_one_bound_counterexample:
  "Value_max \<lparr>Value_default = None, Value_min = Some 0, Value_max = None, Value_offset = None,
       Value_name = None, Value_type = None, Value_tableId = None,
       Value_tags = Some [\<lparr>Entry_label = ''low'', Entry_value = - 1\<rparr>]\<rparr> = None
   \<and> Value_check \<lparr>Value_default = None, Value_min = Some 0, Value_max = None,
       Value_offset = None, Value_name = None, Value_type = None, Value_tableId = None,
       Value_tags = Some [\<lparr>Entry_label = ''low'', Entry_value = - 1\<rparr>]\<rparr> =
     Inl (DominoError ''Entry Value must be between 0 and undefined. Received -1'')"
  by (simp add: Value_check_def Value_checkEntry_def belowMin_def aboveMax_def showBound_def
      js_String_eval)

text \<open>
  C4, as amended. \<open>Value_check\<close>, which \<open>Gate\<close> shares, enforces each bound that is
  present on its own: it passes exactly when every entry's value is at least the minimum,
  if there is one, and at most the maximum, if there is one. Entries are unconstrained
  only when both bounds are absent.
\<close>

theorem Value_check_each_present_bound:
  "Value_check v = Inr () \<longleftrightarrow>
     (\<forall>tag \<in> set (case Value_tags v of None \<Rightarrow> [] | Some tags \<Rightarrow> tags).
        (\<forall>lo. Value_min v = Some lo \<longrightarrow> lo \<le> Entry_value tag) \<and>
        (\<forall>hi. Value_max v = Some hi \<longrightarrow> Entry_value tag \<le> hi))"
proof (cases "Value_tags v")
  case None
  then show ?thesis by (simp add: Value_check_def)
next
  case (Some tags)
  have entry: "Value_checkEntry v tag = Inr () \<longleftrightarrow>
      (\<forall>lo. Value_min v = Some lo \<longrightarrow> lo \<le> Entry_value tag) \<and>
      (\<forall>hi. Value_max v = Some hi \<longrightarrow> Entry_value tag \<le> hi)" for tag
    by (auto simp: Value_checkEntry_def belowMin_def aboveMax_def split: option.splits)
  have "Value_check v = Inr () \<longleftrightarrow> (\<exists>us. mapE (Value_checkEntry v) tags = Inr us)"
    by (auto simp: Value_check_def Some thenE_Inr_iff)
  also have "\<dots> \<longleftrightarrow> (\<forall>tag \<in> set tags. Value_checkEntry v tag = Inr ())"
    by (rule mapE_unit_ok)
  finally show ?thesis by (simp add: Some entry)
qed

theorem Value_check_each_present_bound_witness:
  "Value_check \<lparr>Value_default = None, Value_min = Some 0, Value_max = Some 10,
       Value_offset = None, Value_name = None, Value_type = None, Value_tableId = None,
       Value_tags = Some [\<lparr>Entry_label = ''top'', Entry_value = 10\<rparr>]\<rparr> = Inr ()
   \<and> Value_check \<lparr>Value_default = None, Value_min = Some 0, Value_max = Some 10,
       Value_offset = None, Value_name = None, Value_type = None, Value_tableId = None,
       Value_tags = Some [\<lparr>Entry_label = ''over'', Entry_value = 11\<rparr>]\<rparr> \<noteq> Inr ()"
  using Value_check_each_present_bound
    [of "\<lparr>Value_default = None, Value_min = Some 0, Value_max = Some 10,
       Value_offset = None, Value_name = None, Value_type = None, Value_tableId = None,
       Value_tags = Some [\<lparr>Entry_label = ''top'', Entry_value = 10\<rparr>]\<rparr>"]
    Value_check_each_present_bound
    [of "\<lparr>Value_default = None, Value_min = Some 0, Value_max = Some 10,
       Value_offset = None, Value_name = None, Value_type = None, Value_tableId = None,
       Value_tags = Some [\<lparr>Entry_label = ''over'', Entry_value = 11\<rparr>]\<rparr>"]
  by simp

subsection \<open>The consistency check\<close>

lemmas checker_eval =
  ModuleData_check_def checkDuplicate_def outputUsedId_def js_sort_def sortFn_def js_String_eval

text \<open>
  The macros that a macro list holds, in the order of the document: those of the list
  itself and those inside its folders, at any depth.
\<close>

fun macrosIn :: "CCMFolderTag \<Rightarrow> CCM list" where
  "macrosIn (FolderTag (CCMFolder n i tags)) = concat (map macrosIn tags)"
| "macrosIn (FolderLinkTag l) = []"
| "macrosIn (CCMTag c) = [c]"
| "macrosIn (CCMLinkTag l) = []"
| "macrosIn (TableTag t) = []"
| "macrosIn (MemoTag s) = []"

definition ModuleData_macros :: "ModuleData \<Rightarrow> CCM list" where
  "ModuleData_macros md =
     (case ModuleData_controlChangeMacroList (ModuleData_tags md) of
        None \<Rightarrow> []
      | Some l \<Rightarrow>
          concat (map (\<lambda>t. macrosIn (MacroTag_asFolderTag t)) (ControlChangeMacroList_tags l)))"

text \<open>
  The constant \<^verbatim>\<open>ccmFlatList\<close> of \<^verbatim>\<open>check\<close>, and its lists \<^verbatim>\<open>ccmFolder\<close> and \<^verbatim>\<open>table\<close>
  after they are sorted.
\<close>

definition ModuleData_ccmFlatList :: "ModuleData \<Rightarrow> CCMFolderTag list" where
  "ModuleData_ccmFlatList md =
     (case ModuleData_controlChangeMacroList (ModuleData_tags md) of
        None \<Rightarrow> []
      | Some l \<Rightarrow>
          concat (map (\<lambda>t. flatFn (MacroTag_asFolderTag t)) (ControlChangeMacroList_tags l)))"

definition ModuleData_folders :: "ModuleData \<Rightarrow> Identified list" where
  "ModuleData_folders md = js_sort sortFn (concat (map ccmFolderOf (ModuleData_ccmFlatList md)))"

definition ModuleData_tables :: "ModuleData \<Rightarrow> Identified list" where
  "ModuleData_tables md = js_sort sortFn (concat (map tableOf (ModuleData_ccmFlatList md)))"

lemma concat_map_concat:
  "concat (map f (concat xss)) = concat (map (\<lambda>xs. concat (map f xs)) xss)"
  by (induction xss) simp_all

lemma ccmOf_flatFn: "concat (map ccmOf (flatFn t)) = map IdCCM (macrosIn t)"
proof (induction t rule: flatFn.induct)
  case (1 n i tags)
  have "concat (map ccmOf (concat (map flatFn tags))) =
      concat (map (\<lambda>t. concat (map ccmOf (flatFn t))) tags)"
    by (simp add: concat_map_concat comp_def)
  also have "\<dots> = concat (map (\<lambda>t. map IdCCM (macrosIn t)) tags)"
    using 1 by (simp cong: map_cong)
  also have "\<dots> = map IdCCM (concat (map macrosIn tags))"
    by (simp add: map_concat comp_def)
  finally show ?case by simp
qed simp_all

lemma ccm_of_ccmFlatList:
  "concat (map ccmOf (ModuleData_ccmFlatList md)) = map IdCCM (ModuleData_macros md)"
proof (cases "ModuleData_controlChangeMacroList (ModuleData_tags md)")
  case None
  then show ?thesis by (simp add: ModuleData_ccmFlatList_def ModuleData_macros_def)
next
  case (Some l)
  have "concat (map ccmOf (concat (map (\<lambda>t. flatFn (MacroTag_asFolderTag t)) ts))) =
      map IdCCM (concat (map (\<lambda>t. macrosIn (MacroTag_asFolderTag t)) ts))" for ts
    by (induction ts) (simp_all add: ccmOf_flatFn)
  with Some show ?thesis by (simp add: ModuleData_ccmFlatList_def ModuleData_macros_def)
qed

text \<open>On macros, \<^verbatim>\<open>sort(sortFn)\<close> sorts by the identifier and keeps the order of equals.\<close>

lemma insertSorted_IdCCM:
  "insertSorted sortFn (IdCCM c) (map IdCCM ds) = map IdCCM (insort_key CCM_id c ds)"
  by (induction ds) (simp_all add: sortFn_def)

lemma js_sort_IdCCM: "js_sort sortFn (map IdCCM cs) = map IdCCM (sort_key CCM_id cs)"
proof -
  have "foldr (insertSorted sortFn) (map IdCCM cs) [] =
      map IdCCM (foldr (insort_key CCM_id) cs [])"
    by (induction cs) (simp_all add: insertSorted_IdCCM)
  then show ?thesis by (simp add: js_sort_def sort_key_def)
qed

lemma map_insort_key: "map f (insort_key f x xs) = insort (f x) (map f xs)"
  by (induction xs) simp_all

lemma map_sort_key: "map f (sort_key f xs) = sort (map f xs)"
proof -
  have "map f (foldr (insort_key f) xs []) = foldr insort (map f xs) []"
    by (induction xs) (simp_all add: map_insort_key)
  then show ?thesis by (simp add: sort_key_def)
qed

lemma no_ids_no_records:
  assumes "list_all (\<lambda>t. param_id t = None) list"
  shows "checkDuplicate list = []" and "outputUsedId list = []"
proof -
  have "checkDuplicateFrom prevId list = []" for prevId
    using assms by (induction list arbitrary: prevId) simp_all
  then show "checkDuplicate list = []"
    by (simp add: checkDuplicate_def)
  from assms show "outputUsedId list = []"
    by (cases list) (simp_all add: outputUsedId_def)
qed

text \<open>
  C7. When the macro list of a module data holds macros with the identifiers
  1, 1, 3, 4, 5, 9, in any order and at any depth of its folders (the identifiers of
  \<open>ModuleData_macros\<close>, put in ascending order, are that list), the consistency check
  logs for the macros exactly one error, for the duplicate identifier 1, and exactly
  one information record, whose ranges read \<open>1 3-5 9\<close>: a run of one identifier prints
  as a bare number, a longer run as its first and last identifier with a dash. Each
  range is followed by one space. The other records of the log are those of the
  folders and of the tables; when no folder carries an identifier and the list holds
  no table, the two records are the whole log.
\<close>

theorem ModuleData_check_scenario:
  assumes "sort (map CCM_id (ModuleData_macros md)) = [1, 1, 3, 4, 5, 9]"
  shows "ModuleData_check md =
      LogError ''Duplicate CCM tag ID: 1'' #
        checkDuplicate (ModuleData_folders md) @ checkDuplicate (ModuleData_tables md) @
      LogInfo ''Used Ids (CCM): 1 3-5 9 '' #
        outputUsedId (ModuleData_folders md) @ outputUsedId (ModuleData_tables md)
    \<and> (list_all (\<lambda>t. param_id t = None) (ModuleData_folders md) \<and> ModuleData_tables md = [] \<longrightarrow>
        ModuleData_check md =
          [LogError ''Duplicate CCM tag ID: 1'', LogInfo ''Used Ids (CCM): 1 3-5 9 ''])"
proof -
  define ds where "ds = sort_key CCM_id (ModuleData_macros md)"
  have sorted: "js_sort sortFn (concat (map ccmOf (ModuleData_ccmFlatList md))) = map IdCCM ds"
    by (simp add: ccm_of_ccmFlatList js_sort_IdCCM ds_def)
  from assms have "map CCM_id ds = [1, 1, 3, 4, 5, 9]"
    by (simp add: ds_def map_sort_key)
  then obtain c1 c2 c3 c4 c5 c6 where ds: "ds = [c1, c2, c3, c4, c5, c6]"
    and ids: "CCM_id c1 = 1" "CCM_id c2 = 1" "CCM_id c3 = 3" "CCM_id c4 = 4" "CCM_id c5 = 5"
      "CCM_id c6 = 9"
    by (auto simp: map_eq_Cons_conv)
  have duplicate: "checkDuplicate (map IdCCM ds) = [LogError ''Duplicate CCM tag ID: 1'']"
    by (simp add: checkDuplicate_def js_String_eval ds ids)
  have used: "outputUsedId (map IdCCM ds) = [LogInfo ''Used Ids (CCM): 1 3-5 9 '']"
    by (simp add: outputUsedId_def js_String_eval ds ids)
  have whole: "ModuleData_check md =
      checkDuplicate (map IdCCM ds) @
        checkDuplicate (ModuleData_folders md) @ checkDuplicate (ModuleData_tables md) @
      outputUsedId (map IdCCM ds) @
        outputUsedId (ModuleData_folders md) @ outputUsedId (ModuleData_tables md)"
    unfolding ModuleData_check_def Let_def
    by (simp only: sorted [unfolded ModuleData_ccmFlatList_def] ModuleData_folders_def
        ModuleData_tables_def ModuleData_ccmFlatList_def)
  show ?thesis
    by (simp add: whole duplicate used no_ids_no_records)
qed

theorem ModuleData_check_scenario_witness:
  "ModuleData_check
     \<lparr>ModuleData_name = ''module'', ModuleData_folder = None, ModuleData_priority = None,
      ModuleData_fileCreator = None, ModuleData_fileVersion = None, ModuleData_website = None,
      ModuleData_tags =
        [Tag_controlChangeMacroList
          \<lparr>ControlChangeMacroList_tags =
             [MacroCCM \<lparr>CCM_id = 9, CCM_name = ''i'', CCM_color = None, CCM_sync = None,
                        CCM_tags = []\<rparr>,
              MacroFolder (CCMFolder ''outer'' None
                [CCMTag \<lparr>CCM_id = 5, CCM_name = ''e'', CCM_color = None, CCM_sync = None,
                          CCM_tags = []\<rparr>,
                 CCMTag \<lparr>CCM_id = 1, CCM_name = ''a'', CCM_color = None, CCM_sync = None,
                          CCM_tags = []\<rparr>,
                 FolderTag (CCMFolder ''inner'' None
                   [CCMTag \<lparr>CCM_id = 4, CCM_name = ''d'', CCM_color = None, CCM_sync = None,
                             CCM_tags = []\<rparr>])]),
              MacroCCM \<lparr>CCM_id = 3, CCM_name = ''c'', CCM_color = None, CCM_sync = None,
                        CCM_tags = []\<rparr>,
              MacroCCM \<lparr>CCM_id = 1, CCM_name = ''b'', CCM_color = None, CCM_sync = None,
                        CCM_tags = []\<rparr>]\<rparr>]\<rparr> =
   [LogError ''Duplicate CCM tag ID: 1'', LogInfo ''Used Ids (CCM): 1 3-5 9 '']"
proof -
  let ?md = "\<lparr>ModuleData_name = ''module'', ModuleData_folder = None, ModuleData_priority = None,
      ModuleData_fileCreator = None, ModuleData_fileVersion = None, ModuleData_website = None,
      ModuleData_tags =
        [Tag_controlChangeMacroList
          \<lparr>ControlChangeMacroList_tags =
             [MacroCCM \<lparr>CCM_id = 9, CCM_name = ''i'', CCM_color = None, CCM_sync = None,
                        CCM_tags = []\<rparr>,
              MacroFolder (CCMFolder ''outer'' None
                [CCMTag \<lparr>CCM_id = 5, CCM_name = ''e'', CCM_color = None, CCM_sync = None,
                          CCM_tags = []\<rparr>,
                 CCMTag \<lparr>CCM_id = 1, CCM_name = ''a'', CCM_color = None, CCM_sync = None,
                          CCM_tags = []\<rparr>,
                 FolderTag (CCMFolder ''inner'' None
                   [CCMTag \<lparr>CCM_id = 4, CCM_name = ''d'', CCM_color = None, CCM_sync = None,
                             CCM_tags = []\<rparr>])]),
              MacroCCM \<lparr>CCM_id = 3, CCM_name = ''c'', CCM_color = None, CCM_sync = None,
                        CCM_tags = []\<rparr>,
              MacroCCM \<lparr>CCM_id = 1, CCM_name = ''b'', CCM_color = None, CCM_sync = None,
                        CCM_tags = []\<rparr>]\<rparr>]\<rparr>"
  have macros: "sort (map CCM_id (ModuleData_macros ?md)) = [1, 1, 3, 4, 5, 9]"
    by (simp add: ModuleData_macros_def)
  have others: "list_all (\<lambda>t. param_id t = None) (ModuleData_folders ?md) \<and>
      ModuleData_tables ?md = []"
    by (simp add: ModuleData_folders_def ModuleData_tables_def ModuleData_ccmFlatList_def
        js_sort_def sortFn_def)
  from ModuleData_check_scenario [OF macros]
  have "list_all (\<lambda>t. param_id t = None) (ModuleData_folders ?md) \<and>
      ModuleData_tables ?md = [] \<longrightarrow>
      ModuleData_check ?md =
        [LogError ''Duplicate CCM tag ID: 1'', LogInfo ''Used Ids (CCM): 1 3-5 9 '']"
    by (rule conjunct2)
  then show ?thesis using others by (rule mp)
qed

text \<open>
  What the scan does on identifiers other than its initial \<open>prevId\<close>: three entries with
  one identifier give two errors, and entries without an identifier give none.
\<close>

lemma checkDuplicate_three_times:
  assumes "i \<noteq> - 1" and "map param_id list = [Some i, Some i, Some i]"
  shows "length (checkDuplicate list) = 2"
proof -
  from assms(2) obtain a b c where "list = [a, b, c]"
    and "param_id a = Some i" "param_id b = Some i" "param_id c = Some i"
    by (auto simp: map_eq_Cons_conv)
  with assms(1) show ?thesis by (simp add: checkDuplicate_def)
qed

lemma checkDuplicateFrom_no_ids:
  "(\<And>tag. tag \<in> set list \<Longrightarrow> param_id tag = None) \<Longrightarrow> checkDuplicateFrom prevId list = []"
  by (induction list) simp_all

text \<open>
  C8, at the input where the code departs from it. Three folders that all carry the
  identifier -1 are three adjacent entries of the sorted folder list, and the scan logs
  three errors for them, not two: the first folder is compared with the initial value of
  \<open>prevId\<close>, which is -1 as well.
\<close>

theorem ModuleData_check_three_folders_minus_one:
  "ModuleData_check
     \<lparr>ModuleData_name = n, ModuleData_folder = None, ModuleData_priority = None,
      ModuleData_fileCreator = None, ModuleData_fileVersion = None, ModuleData_website = None,
      ModuleData_tags =
        [Tag_controlChangeMacroList
          \<lparr>ControlChangeMacroList_tags =
             [MacroFolder (CCMFolder a (Some (- 1)) []), MacroFolder (CCMFolder b (Some (- 1)) []),
              MacroFolder (CCMFolder c (Some (- 1)) [])]\<rparr>]\<rparr> =
   [LogError ''Duplicate Folder tag ID: -1'', LogError ''Duplicate Folder tag ID: -1'',
    LogError ''Duplicate Folder tag ID: -1'', LogInfo ''Used Ids (Folder): -1 '']"
  by (simp add: checker_eval)

text \<open>
  C10. The scan starts from \<open>prevId = -1\<close>. A folder may carry the identifier -1, since
  its validation is empty and its encoding succeeds; for a module data whose macro list
  holds one such folder and nothing else, the check logs a duplicate-identifier error for
  -1 although that identifier occurs once, and encoding the module data returns an element
  together with that log.
\<close>

theorem ModuleData_check_lone_minus_one:
  "CCMFolder_toXMLElement (CCMFolder a (Some (- 1)) []) =
     Inr (ElementElement ''Folder'' (Some [(''Name'', JStr a), (''ID'', JNum (- 1))]) [])
   \<and> ModuleData_check
     \<lparr>ModuleData_name = n, ModuleData_folder = None, ModuleData_priority = None,
      ModuleData_fileCreator = None, ModuleData_fileVersion = None, ModuleData_website = None,
      ModuleData_tags =
        [Tag_controlChangeMacroList
          \<lparr>ControlChangeMacroList_tags = [MacroFolder (CCMFolder a (Some (- 1)) [])]\<rparr>]\<rparr> =
     [LogError ''Duplicate Folder tag ID: -1'', LogInfo ''Used Ids (Folder): -1 '']
   \<and> (\<exists>element. ModuleData_toXMLElement
     \<lparr>ModuleData_name = n, ModuleData_folder = None, ModuleData_priority = None,
      ModuleData_fileCreator = None, ModuleData_fileVersion = None, ModuleData_website = None,
      ModuleData_tags =
        [Tag_controlChangeMacroList
          \<lparr>ControlChangeMacroList_tags = [MacroFolder (CCMFolder a (Some (- 1)) [])]\<rparr>]\<rparr> =
     Inr (element,
       [LogError ''Duplicate Folder tag ID: -1'', LogInfo ''Used Ids (Folder): -1 '']))"
  by (simp add: checker_eval ModuleData_toXMLElement_def ControlChangeMacroList_toXMLElement_def
      optNum_def)

subsection \<open>The declaration of a document\<close>

lemmas library_eval =
  treeDeps_def js2xml_def format_def File_parseOptions_def File_op_def readDocument_def
  readAttributeList_def

text \<open>
  C9. When the declaration that the parser reads from a text carries an encoding label
  other than \<open>Shift_JIS\<close>, \<open>File_fromXML\<close> raises the bad-encoding error, whatever the
  library is and whatever the elements of the document are: no module data is decoded,
  and no error of a sub-tree can take its place.
\<close>

theorem File_fromXML_bad_encoding:
  assumes "XmlJs_declaration (Deps_xml2js deps xml File_parseOptions) = Some kvs"
    and "declaredEncoding kvs \<noteq> JStr ''Shift_JIS''"
  shows "File_fromXML deps xml = Inl (DominoError ''Invalid encoding'')"
  using assms by (simp add: File_fromXML_def Let_def)

theorem File_fromXML_bad_encoding_witness:
  "File_fromXML treeDeps (XmlText
     \<lparr>XmlJs_declaration = Some [(''version'', JStr ''1.0''), (''encoding'', JStr ''UTF-8'')],
      XmlJs_elements = Some [EElement (ElementElement ''ModuleData'' None [])]\<rparr>) =
     Inl (DominoError ''Invalid encoding'')
   \<and> ModuleData_fromXMLElement
       (readElement nativeType (ElementElement ''ModuleData'' None [])) =
     Inl (DominoError ''Invalid XML: Not found ModuleData Name'')"
proof -
  have "File_fromXML treeDeps (XmlText
     \<lparr>XmlJs_declaration = Some [(''version'', JStr ''1.0''), (''encoding'', JStr ''UTF-8'')],
      XmlJs_elements = Some [EElement (ElementElement ''ModuleData'' None [])]\<rparr>) =
     Inl (DominoError ''Invalid encoding'')"
    by (rule File_fromXML_bad_encoding
        [where kvs = "[(''version'', JNum 1), (''encoding'', JStr ''UTF-8'')]"])
      (simp_all add: library_eval readBack_def nativeType_def parse_number_def
        parse_unsigned_def parse_nat_def notPoint_def digit_val_def decimalDigits_def
        spells_def declaredEncoding_def)
  moreover have "ModuleData_fromXMLElement
       (readElement nativeType (ElementElement ''ModuleData'' None [])) =
     Inl (DominoError ''Invalid XML: Not found ModuleData Name'')"
    by (simp add: ModuleData_fromXMLElement_def requiredName_def attr_def
        readAttributeList_def)
  ultimately show ?thesis by simp
qed

subsection \<open>Children with unknown names\<close>

lemma forEachElement_append:
  "forEachElement f (xs @ ys) acc = thenE (forEachElement f xs acc) (forEachElement f ys)"
proof (induction xs arbitrary: acc)
  case Nil
  then show ?case by simp
next
  case (Cons x xs)
  show ?case
  proof (cases x)
    case (EElement e)
    then show ?thesis using Cons.IH by (cases "f e acc") simp_all
  next
    case (TextElement t)
    then show ?thesis using Cons.IH by simp
  qed
qed

definition ModuleData_childNames :: "string list" where
  "ModuleData_childNames =
     [''RhythmTrackDefault'', ''ExclusiveEventDefault'', ''ProgramChangeEventPropertyDlg'',
      ''ControlChangeEventDefault'', ''InstrumentList'', ''DrumSetList'',
      ''ControlChangeMacroList'', ''TemplateList'', ''DefaultData'']"

text \<open>
  The module data skips a child element whose name it does not know: the decoding is
  what it is without that child.
\<close>

lemma ModuleData_fromXMLElement_skips_unknown:
  assumes "name u \<notin> set ModuleData_childNames"
  shows "ModuleData_fromXMLElement (ElementElement n a (xs @ EElement u # ys)) =
    ModuleData_fromXMLElement (ElementElement n a (xs @ ys))"
proof -
  have skip: "ModuleData_childFromXML u tags = Inr tags" for tags
    using assms by (simp add: ModuleData_childFromXML_def ModuleData_childNames_def)
  have "forEachElement ModuleData_childFromXML (xs @ EElement u # ys) [] =
      forEachElement ModuleData_childFromXML (xs @ ys) []"
    by (simp add: forEachElement_append skip cong: thenE_cong)
  then show ?thesis
    by (simp add: ModuleData_fromXMLElement_def attr_def)
qed

text \<open>
  C3, at the inputs where the code departs from it. \<open>Value_fromXMLElement\<close> and
  \<open>Table_fromXMLElement\<close> decode every child element as an entry, whatever its name. A
  child with an unknown name and no attributes makes the decoding raise, where the same
  element without that child decodes; a child with an unknown name that carries a label
  and a value is stored as an entry.
\<close>

theorem Value_and_Table_decode_unknown_children:
  "Value_fromXMLElement (ElementElement ''Value'' None []) =
     Inr \<lparr>Value_default = None, Value_min = None, Value_max = None, Value_offset = None,
          Value_name = None, Value_type = None, Value_tableId = None, Value_tags = Some []\<rparr>
   \<and> Value_fromXMLElement
       (ElementElement ''Value'' None [EElement (ElementElement ''Unknown'' None [])]) =
     Inl (DominoError ''Invalid XML: Not found Entry Label'')
   \<and> Value_fromXMLElement
       (ElementElement ''Value'' None
         [EElement (ElementElement ''Unknown''
            (Some [(''Label'', JStr ''x''), (''Value'', JNum 1)]) [])]) =
     Inr \<lparr>Value_default = None, Value_min = None, Value_max = None, Value_offset = None,
          Value_name = None, Value_type = None, Value_tableId = None,
          Value_tags = Some [\<lparr>Entry_label = ''x'', Entry_value = 1\<rparr>]\<rparr>
   \<and> Table_fromXMLElement (ElementElement ''Table'' (Some [(''ID'', JNum 0)]) []) =
     Inr \<lparr>Table_id = 0, Table_tags = []\<rparr>
   \<and> Table_fromXMLElement
       (ElementElement ''Table'' (Some [(''ID'', JNum 0)])
         [EElement (ElementElement ''Unknown'' None [])]) =
     Inl (DominoError ''Invalid XML: Not found Entry Label'')"
  by (simp add: Value_fromXMLElement_def Table_fromXMLElement_def Entry_fromXMLElement_def
      optionalNumber_def requiredNumber_def requiredName_def optionalName_def
      Value_typeFromXML_def attr_def String_of_def)

subsection \<open>Validation on the way out, none on the way in\<close>

text \<open>
  Every class of \<^verbatim>\<open>classes.ts\<close> implements \<^verbatim>\<open>Base\<close>, that is \<^verbatim>\<open>check\<close> and
  \<^verbatim>\<open>toXMLElement\<close>. \<open>Entity\<close> is the union of these classes; \<open>Entity_check\<close> and
  \<open>Entity_toXMLElement\<close> dispatch as the method calls do. A class whose \<^verbatim>\<open>check\<close> has an
  empty body never raises; \<^verbatim>\<open>ModuleData.check\<close> only logs.
\<close>

datatype Entity =
  E_ModuleData ModuleData
| E_RhythmTrackDefault RhythmTrackDefault
| E_ExclusiveEventDefault ExclusiveEventDefault
| E_ProgramChangeEventPropertyDlg ProgramChangeEventPropertyDlg
| E_ControlChangeEventDefault ControlChangeEventDefault
| E_InstrumentList "Bank MapList"
| E_DrumSetList "DrumBank MapList"
| E_ControlChangeMacroList ControlChangeMacroList
| E_TemplateList TemplateList
| E_DefaultData DefaultData
| E_InstrumentMap "Bank Map"
| E_DrumMap "DrumBank Map"
| E_InstrumentPC "Bank PC"
| E_DrumPC "DrumBank PC"
| E_Bank Bank
| E_DrumBank DrumBank
| E_Tone Tone
| E_CCMFolder CCMFolder
| E_CCMFolderLink CCMFolderLink
| E_CCM CCM
| E_CCMLink CCMLink
| E_Value Value
| E_Gate Value
| E_Entry Entry
| E_Table Table
| E_Data Data
| E_TemplateFolder TemplateFolder
| E_Template Template
| E_CC CC
| E_Memo Memo
| E_TemplatePC TemplatePC
| E_Comment Comment
| E_Mark Mark
| E_Track Track
| E_DefaultDataTrackMark DefaultDataTrackMark
| E_Tempo Tempo
| E_TimeSignature TimeSignature
| E_KeySignature KeySignature
| E_DefaultDataCC DefaultDataCC
| E_DefaultDataPC DefaultDataPC
| E_DefaultDataComment DefaultDataComment
| E_DefaultDataTemplate DefaultDataTemplate
| E_EOT EOT

fun Entity_check :: "Entity \<Rightarrow> DominoError + unit" where
  "Entity_check (E_InstrumentPC p) = PC_check p"
| "Entity_check (E_DrumPC p) = PC_check p"
| "Entity_check (E_Bank b) = Bank_check b"
| "Entity_check (E_DrumBank b) = Bank_check b"
| "Entity_check (E_Tone t) = Tone_check t"
| "Entity_check (E_CCM c) = CCM_check c"
| "Entity_check (E_Value v) = Value_check v"
| "Entity_check (E_Gate v) = Value_check v"
| "Entity_check (E_Table t) = Table_check t"
| "Entity_check (E_Template t) = Template_check t"
| "Entity_check (E_TemplatePC p) = TemplatePC_check p"
| "Entity_check (E_Mark m) = Mark_check m"
| "Entity_check (E_Track t) = Track_check t"
| "Entity_check (E_TimeSignature t) = TimeSignature_check t"
| "Entity_check (E_DefaultDataPC p) = DefaultDataPC_check p"
| "Entity_check _ = Inr ()"

fun Entity_toXMLElement :: "Entity \<Rightarrow> DominoError + ElementElement" where
  "Entity_toXMLElement (E_ModuleData x) =
     thenE (ModuleData_toXMLElement x) (\<lambda>(element, logged). Inr element)"
| "Entity_toXMLElement (E_RhythmTrackDefault x) = RhythmTrackDefault_toXMLElement x"
| "Entity_toXMLElement (E_ExclusiveEventDefault x) = ExclusiveEventDefault_toXMLElement x"
| "Entity_toXMLElement (E_ProgramChangeEventPropertyDlg x) =
     ProgramChangeEventPropertyDlg_toXMLElement x"
| "Entity_toXMLElement (E_ControlChangeEventDefault x) =
     ControlChangeEventDefault_toXMLElement x"
| "Entity_toXMLElement (E_InstrumentList x) = InstrumentList_toXMLElement x"
| "Entity_toXMLElement (E_DrumSetList x) = DrumSetList_toXMLElement x"
| "Entity_toXMLElement (E_ControlChangeMacroList x) = ControlChangeMacroList_toXMLElement x"
| "Entity_toXMLElement (E_TemplateList x) = TemplateList_toXMLElement x"
| "Entity_toXMLElement (E_DefaultData x) = DefaultData_toXMLElement x"
| "Entity_toXMLElement (E_InstrumentMap x) = InstrumentMap_toXMLElement x"
| "Entity_toXMLElement (E_DrumMap x) = DrumMap_toXMLElement x"
| "Entity_toXMLElement (E_InstrumentPC x) = InstrumentPC_toXMLElement x"
| "Entity_toXMLElement (E_DrumPC x) = DrumPC_toXMLElement x"
| "Entity_toXMLElement (E_Bank x) = Bank_toXMLElement x"
| "Entity_toXMLElement (E_DrumBank x) = DrumBank_toXMLElement x"
| "Entity_toXMLElement (E_Tone x) = Tone_toXMLElement x"
| "Entity_toXMLElement (E_CCMFolder x) = CCMFolder_toXMLElement x"
| "Entity_toXMLElement (E_CCMFolderLink x) = CCMFolderLink_toXMLElement x"
| "Entity_toXMLElement (E_CCM x) = CCM_toXMLElement x"
| "Entity_toXMLElement (E_CCMLink x) = CCMLink_toXMLElement x"
| "Entity_toXMLElement (E_Value x) = Value_toXMLElement x"
| "Entity_toXMLElement (E_Gate x) = Gate_toXMLElement x"
| "Entity_toXMLElement (E_Entry x) = Entry_toXMLElement x"
| "Entity_toXMLElement (E_Table x) = Table_toXMLElement x"
| "Entity_toXMLElement (E_Data x) = Data_toXMLElement x"
| "Entity_toXMLElement (E_TemplateFolder x) = TemplateFolder_toXMLElement x"
| "Entity_toXMLElement (E_Template x) = Template_toXMLElement x"
| "Entity_toXMLElement (E_CC x) = CC_toXMLElement x"
| "Entity_toXMLElement (E_Memo x) = Memo_toXMLElement x"
| "Entity_toXMLElement (E_TemplatePC x) = TemplatePC_toXMLElement x"
| "Entity_toXMLElement (E_Comment x) = Comment_toXMLElement x"
| "Entity_toXMLElement (E_Mark x) = Mark_toXMLElement x"
| "Entity_toXMLElement (E_Track x) = Track_toXMLElement x"
| "Entity_toXMLElement (E_DefaultDataTrackMark x) = DefaultDataTrackMark_toXMLElement x"
| "Entity_toXMLElement (E_Tempo x) = Tempo_toXMLElement x"
| "Entity_toXMLElement (E_TimeSignature x) = TimeSignature_toXMLElement x"
| "Entity_toXMLElement (E_KeySignature x) = KeySignature_toXMLElement x"
| "Entity_toXMLElement (E_DefaultDataCC x) = DefaultDataCC_toXMLElement x"
| "Entity_toXMLElement (E_DefaultDataPC x) = DefaultDataPC_toXMLElement x"
| "Entity_toXMLElement (E_DefaultDataComment x) = DefaultDataComment_toXMLElement x"
| "Entity_toXMLElement (E_DefaultDataTemplate x) = DefaultDataTemplate_toXMLElement x"
| "Entity_toXMLElement (E_EOT x) = EOT_toXMLElement x"

lemmas decode_eval =
  attr_def requiredName_def requiredNumber_def requiredString_def optionalNumber_def
  optionalName_def String_of_def

lemmas parser_eval =
  readBack_def nativeType_def parse_number_def parse_unsigned_def parse_nat_def notPoint_def
  digit_val_def decimalDigits_def spells_def

text \<open>
  No decoder looks at a range or a format: each one returns the value it reads, whatever
  it is, also where the class's validation would reject it.
\<close>

lemma decoders_accept_any_value:
  "Tone_fromXMLElement
     (ElementElement ''Tone'' (Some [(''Name'', JStr n), (''Key'', JNum k)]) es) =
     Inr \<lparr>Tone_name = n, Tone_key = k\<rparr>"
  "Bank_fromXMLElement
     (ElementElement ''Bank'' (Some [(''Name'', JStr n), (''LSB'', JNum l), (''MSB'', JNum m)]) es) =
     Inr \<lparr>Bank_name = n, Bank_lsb = Some l, Bank_msb = Some m\<rparr>"
  "InstrumentPC_fromXMLElement
     (ElementElement ''PC'' (Some [(''Name'', JStr n), (''PC'', JNum k)])
       [EElement (ElementElement ''Bank'' (Some [(''Name'', JStr b)]) [])]) =
     Inr \<lparr>PC_name = n, PC_pc = k, PC_banks = [\<lparr>Bank_name = b, Bank_lsb = None, Bank_msb = None\<rparr>]\<rparr>"
  "DrumBank_fromXMLElement
     (ElementElement ''Bank'' (Some [(''Name'', JStr n), (''LSB'', JNum l), (''MSB'', JNum m)])
       [EElement (ElementElement ''Tone'' (Some [(''Name'', JStr b), (''Key'', JNum k)]) [])]) =
     Inr \<lparr>Bank_name = n, Bank_lsb = Some l, Bank_msb = Some m,
          DrumBank_tones = [\<lparr>Tone_name = b, Tone_key = k\<rparr>]\<rparr>"
  "DrumPC_fromXMLElement
     (ElementElement ''PC'' (Some [(''Name'', JStr n), (''PC'', JNum k)])
       [EElement (ElementElement ''Bank'' (Some [(''Name'', JStr b)]) [])]) =
     Inr \<lparr>PC_name = n, PC_pc = k,
          PC_banks = [\<lparr>Bank_name = b, Bank_lsb = None, Bank_msb = None, DrumBank_tones = []\<rparr>]\<rparr>"
  "CCM_childFromXML
     (ElementElement ''Gate'' (Some [(''Min'', JNum lo), (''Max'', JNum hi)])
       [EElement (ElementElement ''Entry'' (Some [(''Label'', JStr n), (''Value'', JNum k)]) [])])
     [] =
     Inr [CCM_gate
       \<lparr>Value_default = None, Value_min = Some lo, Value_max = Some hi, Value_offset = None,
        Value_name = None, Value_type = None, Value_tableId = None,
        Value_tags = Some [\<lparr>Entry_label = n, Entry_value = k\<rparr>]\<rparr>]"
  "CCM_fromXMLElement
     (ElementElement ''CCM'' (Some [(''ID'', JNum k), (''Name'', JStr n), (''Color'', JStr c)]) []) =
     Inr \<lparr>CCM_id = k, CCM_name = n, CCM_color = Some c, CCM_sync = None, CCM_tags = []\<rparr>"
  "Value_fromXMLElement
     (ElementElement ''Value'' (Some [(''Min'', JNum lo), (''Max'', JNum hi)])
       [EElement (ElementElement ''Entry'' (Some [(''Label'', JStr n), (''Value'', JNum k)]) [])]) =
     Inr \<lparr>Value_default = None, Value_min = Some lo, Value_max = Some hi, Value_offset = None,
          Value_name = None, Value_type = None, Value_tableId = None,
          Value_tags = Some [\<lparr>Entry_label = n, Entry_value = k\<rparr>]\<rparr>"
  "Table_fromXMLElement (ElementElement ''Table'' (Some [(''ID'', JNum k)]) []) =
     Inr \<lparr>Table_id = k, Table_tags = []\<rparr>"
  "Template_fromXMLElement
     (ElementElement ''Template'' (Some [(''ID'', JNum k), (''Name'', JStr n)]) []) =
     Inr \<lparr>Template_id = Some k, Template_name = n, Template_tags = []\<rparr>"
  "TemplatePC_fromXMLElement (ElementElement ''PC'' (Some [(''PC'', JNum k)]) es) =
     Inr \<lparr>TemplatePC_pc = Some k, TemplatePC_msb = None, TemplatePC_lsb = None,
          TemplatePC_mode = None\<rparr>"
  "Mark_fromXMLElement (ElementElement ''Mark'' (Some [(''Meas'', JNum k)]) es) =
     Inr \<lparr>Mark_meas = k, Mark_name = None\<rparr>"
  "Track_fromXMLElement (ElementElement ''Track'' (Some [(''Ch'', JNum k)]) []) =
     Inr \<lparr>Track_name = None, Track_ch = Some k, Track_mode = None, Track_current = None,
          Track_tags = []\<rparr>"
  "TimeSignature_fromXMLElement
     (ElementElement ''TimeSignature'' (Some [(''TimeSignature'', JStr s)]) es) =
     Inr \<lparr>TimeSignature_timeSignature = s, TimeSignature_tick = None,
          TimeSignature_step = None\<rparr>"
  "DefaultDataPC_fromXMLElement (ElementElement ''PC'' (Some [(''PC'', JNum k)]) es) =
     Inr \<lparr>DefaultDataPC_pc = Some k, DefaultDataPC_msb = None, DefaultDataPC_lsb = None,
          DefaultDataPC_mode = None, DefaultDataPC_tick = None, DefaultDataPC_step = None\<rparr>"
  by (simp_all add: Tone_fromXMLElement_def Bank_fromXMLElement_def Bank_fromXMLElementBase_def
      InstrumentPC_fromXMLElement_def DrumPC_fromXMLElement_def DrumBank_fromXMLElement_def
      CCM_childFromXML_def PC_fromXMLElement_def PC_fromXMLElementBase_def
      CCM_fromXMLElement_def CCM_colorFromXML_def CCM_syncFromXML_def
      Value_fromXMLElement_def Value_typeFromXML_def Entry_fromXMLElement_def
      Table_fromXMLElement_def Template_fromXMLElement_def TemplatePC_fromXMLElement_def
      PCModeFromXML_def Mark_fromXMLElement_def Track_fromXMLElement_def Track_modeFromXML_def
      TimeSignature_fromXMLElement_def DefaultDataPC_fromXMLElement_def decode_eval)

text \<open>
  Every class but \<^verbatim>\<open>ModuleData\<close> calls \<^verbatim>\<open>this.check()\<close> in the first statement of
  \<^verbatim>\<open>toXMLElement\<close>: when the check of an entity raises, \<open>toXMLElement\<close> raises that
  error and returns no element, whatever the children of the entity are.
\<close>

lemma Entity_check_first:
  "Entity_check e = Inl err \<Longrightarrow> Entity_toXMLElement e = Inl err"
  by (cases e)
    (simp_all add: InstrumentPC_toXMLElement_def DrumPC_toXMLElement_def PC_toXMLElement_def
      Bank_toXMLElement_def DrumBank_toXMLElement_def Tone_toXMLElement_def
      CCM_toXMLElement_def Value_toXMLElement_def Gate_toXMLElement_def
      Table_toXMLElement_def Template_toXMLElement_def TemplatePC_toXMLElement_def
      Mark_toXMLElement_def Track_toXMLElement_def TimeSignature_toXMLElement_def
      DefaultDataPC_toXMLElement_def)


subsection \<open>The order of the sub-trees of a module data\<close>

text \<open>The name of the element that each entry of \<^verbatim>\<open>ModuleData.tags\<close> is written as.\<close>

fun ModuleData_tag_elementName :: "ModuleData_tag \<Rightarrow> string" where
  "ModuleData_tag_elementName (Tag_rhythmTrackDefault x) = ''RhythmTrackDefault''"
| "ModuleData_tag_elementName (Tag_exclusiveEventDefault x) = ''ExclusiveEventDefault''"
| "ModuleData_tag_elementName (Tag_programChangeEventPropertyDlg x) =
     ''ProgramChangeEventPropertyDlg''"
| "ModuleData_tag_elementName (Tag_controlChangeEventDefault x) = ''ControlChangeEventDefault''"
| "ModuleData_tag_elementName (Tag_instrumentList x) = ''InstrumentList''"
| "ModuleData_tag_elementName (Tag_drumSetList x) = ''DrumSetList''"
| "ModuleData_tag_elementName (Tag_controlChangeMacroList x) = ''ControlChangeMacroList''"
| "ModuleData_tag_elementName (Tag_templateList x) = ''TemplateList''"
| "ModuleData_tag_elementName (Tag_defaultData x) = ''DefaultData''"

text \<open>The distinct members of a list in the order in which each appears first.\<close>

fun firstAppearances :: "'a list \<Rightarrow> 'a list \<Rightarrow> 'a list" where
  "firstAppearances seen [] = seen"
| "firstAppearances seen (x # xs) =
     firstAppearances (if x \<in> set seen then seen else seen @ [x]) xs"

lemma elementChildren_map_EElement [simp]: "elementChildren (map EElement es) = es"
  by (induction es) simp_all

lemma mapE_pointwise:
  assumes "mapE f xs = Inr ys" and "\<And>x y. f x = Inr y \<Longrightarrow> g y = h x"
  shows "map g ys = map h xs"
  using assms(1)
proof (induction xs arbitrary: ys)
  case Nil
  then show ?case by simp
next
  case (Cons x xs)
  then obtain y ys' where "f x = Inr y" "mapE f xs = Inr ys'" "ys = y # ys'"
    by (auto simp: thenE_Inr_iff)
  then show ?case using Cons.IH assms(2) by simp
qed

lemma ModuleData_tag_toXMLElement_name:
  "ModuleData_tag_toXMLElement t = Inr el \<Longrightarrow> name el = ModuleData_tag_elementName t"
  by (cases t)
    (auto simp: RhythmTrackDefault_toXMLElement_def ExclusiveEventDefault_toXMLElement_def
      ProgramChangeEventPropertyDlg_toXMLElement_def ControlChangeEventDefault_toXMLElement_def
      InstrumentList_toXMLElement_def DrumSetList_toXMLElement_def
      ControlChangeMacroList_toXMLElement_def TemplateList_toXMLElement_def
      DefaultData_toXMLElement_def thenE_Inr_iff)

lemma ModuleData_tag_key_eq_iff:
  "ModuleData_tag_key x = ModuleData_tag_key y \<longleftrightarrow>
   ModuleData_tag_elementName x = ModuleData_tag_elementName y"
  by (cases x; cases y; simp)

lemma assign_elementNames:
  "map ModuleData_tag_elementName (assign ModuleData_tag_key v acc) =
     (if ModuleData_tag_elementName v \<in> set (map ModuleData_tag_elementName acc)
      then map ModuleData_tag_elementName acc
      else map ModuleData_tag_elementName acc @ [ModuleData_tag_elementName v])"
proof (induction acc)
  case Nil
  then show ?case by simp
next
  case (Cons x xs)
  show ?case
  proof (cases "ModuleData_tag_key x = ModuleData_tag_key v")
    case True
    then have "ModuleData_tag_elementName x = ModuleData_tag_elementName v"
      by (simp add: ModuleData_tag_key_eq_iff)
    with True show ?thesis by simp
  next
    case False
    then have "ModuleData_tag_elementName x \<noteq> ModuleData_tag_elementName v"
      by (simp add: ModuleData_tag_key_eq_iff)
    with False Cons.IH show ?thesis by auto
  qed
qed

lemma ModuleData_childFromXML_elementNames:
  assumes "ModuleData_childFromXML e acc = Inr tags"
  shows "map ModuleData_tag_elementName tags =
     (if name e \<in> set ModuleData_childNames
      then (if name e \<in> set (map ModuleData_tag_elementName acc)
            then map ModuleData_tag_elementName acc
            else map ModuleData_tag_elementName acc @ [name e])
      else map ModuleData_tag_elementName acc)"
proof (cases "name e \<in> set ModuleData_childNames")
  case False
  then have "ModuleData_childFromXML e acc = Inr acc"
    by (simp add: ModuleData_childFromXML_def ModuleData_childNames_def)
  with assms False show ?thesis by simp
next
  case True
  then obtain v where "tags = assign ModuleData_tag_key v acc"
    and "ModuleData_tag_elementName v = name e"
    using assms
    by (auto simp: ModuleData_childFromXML_def ModuleData_childNames_def thenE_Inr_iff
        split: if_splits)
  with True show ?thesis by (simp add: assign_elementNames)
qed

lemma forEachElement_ModuleData_elementNames:
  "forEachElement ModuleData_childFromXML es acc = Inr tags \<Longrightarrow>
   map ModuleData_tag_elementName tags =
     firstAppearances (map ModuleData_tag_elementName acc)
       (filter (\<lambda>n. n \<in> set ModuleData_childNames) (map name (elementChildren es)))"
proof (induction es arbitrary: acc)
  case Nil
  then show ?case by simp
next
  case (Cons x es)
  show ?case
  proof (cases x)
    case (TextElement t)
    with Cons show ?thesis by simp
  next
    case (EElement e)
    with Cons.prems obtain acc' where step: "ModuleData_childFromXML e acc = Inr acc'"
      and rest: "forEachElement ModuleData_childFromXML es acc' = Inr tags"
      by (auto simp: thenE_Inr_iff)
    from Cons.IH [OF rest] ModuleData_childFromXML_elementNames [OF step] EElement
    show ?thesis by simp
  qed
qed

theorem ModuleData_toXMLElement_declared_order_counterexample:
  "ModuleData_fromXMLElement
     (ElementElement ''ModuleData'' (Some [(''Name'', JStr ''Module'')])
       [EElement (ElementElement ''DefaultData'' None []),
        EElement (ElementElement ''RhythmTrackDefault'' (Some [(''Gate'', JNum 1)]) [])]) =
     Inr \<lparr>ModuleData_name = ''Module'', ModuleData_folder = None, ModuleData_priority = None,
          ModuleData_fileCreator = None, ModuleData_fileVersion = None,
          ModuleData_website = None,
          ModuleData_tags =
            [Tag_defaultData \<lparr>DefaultData_tags = []\<rparr>,
             Tag_rhythmTrackDefault \<lparr>RhythmTrackDefault_gate = 1\<rparr>]\<rparr>
   \<and> ModuleData_toXMLElement
     \<lparr>ModuleData_name = ''Module'', ModuleData_folder = None, ModuleData_priority = None,
      ModuleData_fileCreator = None, ModuleData_fileVersion = None, ModuleData_website = None,
      ModuleData_tags =
        [Tag_defaultData \<lparr>DefaultData_tags = []\<rparr>,
         Tag_rhythmTrackDefault \<lparr>RhythmTrackDefault_gate = 1\<rparr>]\<rparr> =
     Inr (ElementElement ''ModuleData''
            (Some [(''Name'', JStr ''Module''), (''Folder'', JUndef), (''Priority'', JUndef),
                   (''FileCreator'', JUndef), (''FileVersion'', JUndef), (''WebSite'', JUndef)])
            [EElement (ElementElement ''DefaultData'' None []),
             EElement (ElementElement ''RhythmTrackDefault'' (Some [(''Gate'', JNum 1)]) [])],
          [])"
  by (simp add: ModuleData_fromXMLElement_def ModuleData_childFromXML_def
      DefaultData_fromXMLElement_def RhythmTrackDefault_fromXMLElement_def decode_eval
      ModuleData_toXMLElement_def DefaultData_toXMLElement_def
      RhythmTrackDefault_toXMLElement_def ModuleData_check_def checkDuplicate_def
      outputUsedId_def js_sort_def optStr_def optNum_def)

text \<open>
  C2, as amended. \<open>ModuleData_toXMLElement\<close> emits the present sub-trees in the order
  of \<^verbatim>\<open>Object.values(this.tags)\<close>, the order in which the keys of the \<^verbatim>\<open>tags\<close> object
  were created, not in the order of the field declarations. For a module data that was
  decoded, that is the order in which the names of the sub-trees first appeared among
  the children of the decoded element.
\<close>

theorem ModuleData_toXMLElement_order_of_tags:
  "(ModuleData_toXMLElement md = Inr (element, logged) \<longrightarrow>
      map name (elementChildren (elements element)) =
        map ModuleData_tag_elementName (ModuleData_tags md))
   \<and> (ModuleData_fromXMLElement e = Inr md' \<longrightarrow>
      map ModuleData_tag_elementName (ModuleData_tags md') =
        firstAppearances []
          (filter (\<lambda>n. n \<in> set ModuleData_childNames) (map name (elementChildren (elements e)))))"
proof (intro conjI impI)
  assume "ModuleData_toXMLElement md = Inr (element, logged)"
  then obtain es where es: "mapE ModuleData_tag_toXMLElement (ModuleData_tags md) = Inr es"
    and "elements element = map EElement es"
    by (auto simp: ModuleData_toXMLElement_def thenE_Inr_iff)
  then show "map name (elementChildren (elements element)) =
      map ModuleData_tag_elementName (ModuleData_tags md)"
    using mapE_pointwise [OF es ModuleData_tag_toXMLElement_name] by simp
next
  assume "ModuleData_fromXMLElement e = Inr md'"
  then have "forEachElement ModuleData_childFromXML (elements e) [] = Inr (ModuleData_tags md')"
    by (auto simp: ModuleData_fromXMLElement_def thenE_Inr_iff)
  from forEachElement_ModuleData_elementNames [OF this]
  show "map ModuleData_tag_elementName (ModuleData_tags md') =
      firstAppearances []
        (filter (\<lambda>n. n \<in> set ModuleData_childNames) (map name (elementChildren (elements e))))"
    by simp
qed

theorem ModuleData_toXMLElement_order_of_tags_witness:
  "map name (elementChildren
     [EElement (ElementElement ''DefaultData'' None []),
      EElement (ElementElement ''RhythmTrackDefault'' (Some [(''Gate'', JNum 1)]) [])]) =
     [''DefaultData'', ''RhythmTrackDefault'']
   \<and> map ModuleData_tag_elementName
       [Tag_defaultData \<lparr>DefaultData_tags = []\<rparr>,
        Tag_rhythmTrackDefault \<lparr>RhythmTrackDefault_gate = 1\<rparr>] =
     firstAppearances []
       (filter (\<lambda>n. n \<in> set ModuleData_childNames)
         [''DefaultData'', ''Unknown'', ''RhythmTrackDefault'', ''DefaultData''])"
proof -
  let ?md = "\<lparr>ModuleData_name = ''Module'', ModuleData_folder = None,
      ModuleData_priority = None, ModuleData_fileCreator = None, ModuleData_fileVersion = None,
      ModuleData_website = None,
      ModuleData_tags =
        [Tag_defaultData \<lparr>DefaultData_tags = []\<rparr>,
         Tag_rhythmTrackDefault \<lparr>RhythmTrackDefault_gate = 1\<rparr>]\<rparr>"
  let ?out = "ElementElement ''ModuleData''
      (Some [(''Name'', JStr ''Module''), (''Folder'', JUndef), (''Priority'', JUndef),
             (''FileCreator'', JUndef), (''FileVersion'', JUndef), (''WebSite'', JUndef)])
      [EElement (ElementElement ''DefaultData'' None []),
       EElement (ElementElement ''RhythmTrackDefault'' (Some [(''Gate'', JNum 1)]) [])]"
  let ?in = "ElementElement ''ModuleData'' (Some [(''Name'', JStr ''Module'')])
      [EElement (ElementElement ''DefaultData'' None []),
       EElement (ElementElement ''Unknown'' None []),
       EElement (ElementElement ''RhythmTrackDefault'' (Some [(''Gate'', JNum 1)]) []),
       EElement (ElementElement ''DefaultData'' None [])]"
  have enc: "ModuleData_toXMLElement ?md = Inr (?out, [])"
    by (simp add: ModuleData_toXMLElement_def DefaultData_toXMLElement_def
        RhythmTrackDefault_toXMLElement_def ModuleData_check_def checkDuplicate_def
        outputUsedId_def js_sort_def optStr_def optNum_def)
  have dec: "ModuleData_fromXMLElement ?in = Inr ?md"
    by (simp add: ModuleData_fromXMLElement_def ModuleData_childFromXML_def
        DefaultData_fromXMLElement_def RhythmTrackDefault_fromXMLElement_def decode_eval)
  from ModuleData_toXMLElement_order_of_tags [of ?md ?out "[]" ?in ?md] enc dec
  show ?thesis by simp
qed

section \<open>Decoding what was encoded\<close>

subsection \<open>The tree as it is read back\<close>

text \<open>
  Two things change on the way through a text. \<^verbatim>\<open>Tempo.toXMLElement\<close> writes its value
  with three decimals, as a string, so the value read back is the number that the
  coercion of the parser reads from those decimals (\<open>numberRead\<close>; where the coercion
  reads no number the decoder raises, and the theorem below excludes it); and
  \<^verbatim>\<open>Value.fromXMLElement\<close> always builds a list of entries, so a \<^verbatim>\<open>Value\<close> or \<^verbatim>\<open>Gate\<close>
  without one comes back with the empty list. \<open>File_asRead\<close> applies both to a tree.
\<close>

definition numberRead :: "(string \<Rightarrow> jsval) \<Rightarrow> string \<Rightarrow> number" where
  "numberRead coerce s = (case coerce s of JNum v \<Rightarrow> v | _ \<Rightarrow> 0)"

definition Tempo_asRead :: "(string \<Rightarrow> jsval) \<Rightarrow> Tempo \<Rightarrow> Tempo" where
  "Tempo_asRead coerce t =
     t\<lparr>Tempo_tempo := numberRead coerce (js_toFixed3 (Tempo_tempo t))\<rparr>"

fun TrackTag_asRead :: "(string \<Rightarrow> jsval) \<Rightarrow> TrackTag \<Rightarrow> TrackTag" where
  "TrackTag_asRead coerce (TrackTempo t) = TrackTempo (Tempo_asRead coerce t)"
| "TrackTag_asRead coerce tag = tag"

definition Track_asRead :: "(string \<Rightarrow> jsval) \<Rightarrow> Track \<Rightarrow> Track" where
  "Track_asRead coerce t = t\<lparr>Track_tags := map (TrackTag_asRead coerce) (Track_tags t)\<rparr>"

fun DefaultDataTag_asRead :: "(string \<Rightarrow> jsval) \<Rightarrow> DefaultDataTag \<Rightarrow> DefaultDataTag" where
  "DefaultDataTag_asRead coerce (DefaultDataMark m) = DefaultDataMark m"
| "DefaultDataTag_asRead coerce (DefaultDataTrack t) = DefaultDataTrack (Track_asRead coerce t)"

definition DefaultData_asRead :: "(string \<Rightarrow> jsval) \<Rightarrow> DefaultData \<Rightarrow> DefaultData" where
  "DefaultData_asRead coerce d =
     \<lparr>DefaultData_tags = map (DefaultDataTag_asRead coerce) (DefaultData_tags d)\<rparr>"

definition Value_asRead :: "Value \<Rightarrow> Value" where
  "Value_asRead v =
     v\<lparr>Value_tags := Some (case Value_tags v of None \<Rightarrow> [] | Some tags \<Rightarrow> tags)\<rparr>"

fun CCM_tag_asRead :: "CCM_tag \<Rightarrow> CCM_tag" where
  "CCM_tag_asRead (CCM_value v) = CCM_value (Value_asRead v)"
| "CCM_tag_asRead (CCM_gate v) = CCM_gate (Value_asRead v)"
| "CCM_tag_asRead tag = tag"

definition CCM_asRead :: "CCM \<Rightarrow> CCM" where
  "CCM_asRead c = c\<lparr>CCM_tags := map CCM_tag_asRead (CCM_tags c)\<rparr>"

fun CCMFolder_asRead :: "CCMFolder \<Rightarrow> CCMFolder"
and CCMFolderTag_asRead :: "CCMFolderTag \<Rightarrow> CCMFolderTag" where
  "CCMFolder_asRead (CCMFolder n i tags) = CCMFolder n i (map CCMFolderTag_asRead tags)"
| "CCMFolderTag_asRead (FolderTag f) = FolderTag (CCMFolder_asRead f)"
| "CCMFolderTag_asRead (FolderLinkTag l) = FolderLinkTag l"
| "CCMFolderTag_asRead (CCMTag c) = CCMTag (CCM_asRead c)"
| "CCMFolderTag_asRead (CCMLinkTag l) = CCMLinkTag l"
| "CCMFolderTag_asRead (TableTag t) = TableTag t"
| "CCMFolderTag_asRead (MemoTag s) = MemoTag s"

fun MacroTag_asRead :: "MacroTag \<Rightarrow> MacroTag" where
  "MacroTag_asRead (MacroFolder f) = MacroFolder (CCMFolder_asRead f)"
| "MacroTag_asRead (MacroCCM c) = MacroCCM (CCM_asRead c)"
| "MacroTag_asRead tag = tag"

definition ControlChangeMacroList_asRead :: "ControlChangeMacroList \<Rightarrow> ControlChangeMacroList" where
  "ControlChangeMacroList_asRead l =
     \<lparr>ControlChangeMacroList_tags = map MacroTag_asRead (ControlChangeMacroList_tags l)\<rparr>"

fun ModuleData_tag_asRead :: "(string \<Rightarrow> jsval) \<Rightarrow> ModuleData_tag \<Rightarrow> ModuleData_tag" where
  "ModuleData_tag_asRead coerce (Tag_controlChangeMacroList l) =
     Tag_controlChangeMacroList (ControlChangeMacroList_asRead l)"
| "ModuleData_tag_asRead coerce (Tag_defaultData d) = Tag_defaultData (DefaultData_asRead coerce d)"
| "ModuleData_tag_asRead coerce tag = tag"

definition ModuleData_asRead :: "(string \<Rightarrow> jsval) \<Rightarrow> ModuleData \<Rightarrow> ModuleData" where
  "ModuleData_asRead coerce md =
     md\<lparr>ModuleData_tags := map (ModuleData_tag_asRead coerce) (ModuleData_tags md)\<rparr>"

definition File_asRead :: "(string \<Rightarrow> jsval) \<Rightarrow> File \<Rightarrow> File" where
  "File_asRead coerce f = \<lparr>File_moduleData = ModuleData_asRead coerce (File_moduleData f)\<rparr>"

subsection \<open>A tree whose every entity passes validation\<close>

definition DrumBank_valid :: "DrumBank \<Rightarrow> bool" where
  "DrumBank_valid b =
     (Bank_check b = Inr () \<and> list_all (\<lambda>t. Tone_check t = Inr ()) (DrumBank_tones b))"

definition PC_valid :: "('b \<Rightarrow> bool) \<Rightarrow> 'b PC \<Rightarrow> bool" where
  "PC_valid bankValid p = (PC_check p = Inr () \<and> list_all bankValid (PC_banks p))"

definition Map_valid :: "('b PC \<Rightarrow> bool) \<Rightarrow> 'b Map \<Rightarrow> bool" where
  "Map_valid pcValid m = list_all pcValid (Map_pcs m)"

definition InstrumentList_valid :: "Bank MapList \<Rightarrow> bool" where
  "InstrumentList_valid l =
     list_all (Map_valid (PC_valid (\<lambda>b. Bank_check b = Inr ()))) (MapList_maps l)"

definition DrumSetList_valid :: "DrumBank MapList \<Rightarrow> bool" where
  "DrumSetList_valid l = list_all (Map_valid (PC_valid DrumBank_valid)) (MapList_maps l)"

fun CCM_tag_valid :: "CCM_tag \<Rightarrow> bool" where
  "CCM_tag_valid (CCM_value v) = (Value_check v = Inr ())"
| "CCM_tag_valid (CCM_gate v) = (Value_check v = Inr ())"
| "CCM_tag_valid (CCM_data d) = True"
| "CCM_tag_valid (CCM_memo s) = True"

definition CCM_valid :: "CCM \<Rightarrow> bool" where
  "CCM_valid c = (CCM_check c = Inr () \<and> list_all CCM_tag_valid (CCM_tags c))"

fun CCMFolder_valid :: "CCMFolder \<Rightarrow> bool"
and CCMFolderTag_valid :: "CCMFolderTag \<Rightarrow> bool" where
  "CCMFolder_valid (CCMFolder n i tags) = list_all CCMFolderTag_valid tags"
| "CCMFolderTag_valid (FolderTag f) = CCMFolder_valid f"
| "CCMFolderTag_valid (FolderLinkTag l) = True"
| "CCMFolderTag_valid (CCMTag c) = CCM_valid c"
| "CCMFolderTag_valid (CCMLinkTag l) = True"
| "CCMFolderTag_valid (TableTag t) = (Table_check t = Inr ())"
| "CCMFolderTag_valid (MemoTag s) = True"

fun MacroTag_valid :: "MacroTag \<Rightarrow> bool" where
  "MacroTag_valid (MacroFolder f) = CCMFolder_valid f"
| "MacroTag_valid (MacroFolderLink l) = True"
| "MacroTag_valid (MacroCCM c) = CCM_valid c"
| "MacroTag_valid (MacroCCMLink l) = True"
| "MacroTag_valid (MacroTable t) = (Table_check t = Inr ())"

fun TemplateTag_valid :: "TemplateTag \<Rightarrow> bool" where
  "TemplateTag_valid (TemplatePCTag p) = (TemplatePC_check p = Inr ())"
| "TemplateTag_valid tag = True"

definition Template_valid :: "Template \<Rightarrow> bool" where
  "Template_valid t = (Template_check t = Inr () \<and> list_all TemplateTag_valid (Template_tags t))"

fun TemplateFolder_valid :: "TemplateFolder \<Rightarrow> bool"
and TemplateFolderTag_valid :: "TemplateFolderTag \<Rightarrow> bool" where
  "TemplateFolder_valid (TemplateFolder n tags) = list_all TemplateFolderTag_valid tags"
| "TemplateFolderTag_valid (TemplateTagOf t) = Template_valid t"
| "TemplateFolderTag_valid (TemplateFolderTagOf f) = TemplateFolder_valid f"

fun TrackTag_valid :: "TrackTag \<Rightarrow> bool" where
  "TrackTag_valid (TrackTimeSignature t) = (TimeSignature_check t = Inr ())"
| "TrackTag_valid (TrackPC p) = (DefaultDataPC_check p = Inr ())"
| "TrackTag_valid tag = True"

definition Track_valid :: "Track \<Rightarrow> bool" where
  "Track_valid t = (Track_check t = Inr () \<and> list_all TrackTag_valid (Track_tags t))"

fun DefaultDataTag_valid :: "DefaultDataTag \<Rightarrow> bool" where
  "DefaultDataTag_valid (DefaultDataMark m) = (Mark_check m = Inr ())"
| "DefaultDataTag_valid (DefaultDataTrack t) = Track_valid t"

fun ModuleData_tag_valid :: "ModuleData_tag \<Rightarrow> bool" where
  "ModuleData_tag_valid (Tag_instrumentList l) = InstrumentList_valid l"
| "ModuleData_tag_valid (Tag_drumSetList l) = DrumSetList_valid l"
| "ModuleData_tag_valid (Tag_controlChangeMacroList l) =
     list_all MacroTag_valid (ControlChangeMacroList_tags l)"
| "ModuleData_tag_valid (Tag_templateList l) =
     list_all TemplateFolderTag_valid (TemplateList_tags l)"
| "ModuleData_tag_valid (Tag_defaultData d) = list_all DefaultDataTag_valid (DefaultData_tags d)"
| "ModuleData_tag_valid tag = True"

definition File_valid :: "File \<Rightarrow> bool" where
  "File_valid f = list_all ModuleData_tag_valid (ModuleData_tags (File_moduleData f))"

subsection \<open>A tree that a text can carry\<close>

text \<open>
  The parser coerces the attribute values. A string that a decoder passes through
  \<^verbatim>\<open>String\<close> has to spell itself again after that (\<open>survives\<close>); a string that a decoder
  accepts only as a string, and the word of an enumeration, has to stay the string it
  is (\<open>staysString\<close>, \<open>keeps\<close>); the three decimals of a tempo have to be read as a
  number (\<open>isNumber\<close>). Besides, the predicates below state what the source's types
  say of a tree: a program change has at least one bank, and the keys of a \<^verbatim>\<open>tags\<close>
  object are distinct.
\<close>

definition survives :: "(string \<Rightarrow> jsval) \<Rightarrow> string \<Rightarrow> bool" where
  "survives coerce s = (coerce s \<noteq> JUndef \<and> String_of (coerce s) = s)"

definition staysString :: "(string \<Rightarrow> jsval) \<Rightarrow> string \<Rightarrow> bool" where
  "staysString coerce s = (coerce s = JStr s)"

definition survivesOpt :: "(string \<Rightarrow> jsval) \<Rightarrow> string option \<Rightarrow> bool" where
  "survivesOpt coerce v = (case v of None \<Rightarrow> True | Some s \<Rightarrow> survives coerce s)"

definition keeps :: "(string \<Rightarrow> jsval) \<Rightarrow> jsval \<Rightarrow> bool" where
  "keeps coerce v = (readBack coerce v = v)"

definition isNumber :: "jsval \<Rightarrow> bool" where
  "isNumber v = (case v of JNum n \<Rightarrow> True | _ \<Rightarrow> False)"

definition DrumBank_portable :: "(string \<Rightarrow> jsval) \<Rightarrow> DrumBank \<Rightarrow> bool" where
  "DrumBank_portable coerce b =
     (survives coerce (Bank_name b) \<and> list_all (\<lambda>t. survives coerce (Tone_name t)) (DrumBank_tones b))"

definition PC_portable :: "(string \<Rightarrow> jsval) \<Rightarrow> ('b \<Rightarrow> bool) \<Rightarrow> 'b PC \<Rightarrow> bool" where
  "PC_portable coerce bankPortable p =
     (survives coerce (PC_name p) \<and> length (PC_banks p) > 0 \<and> list_all bankPortable (PC_banks p))"

definition Map_portable :: "(string \<Rightarrow> jsval) \<Rightarrow> ('b PC \<Rightarrow> bool) \<Rightarrow> 'b Map \<Rightarrow> bool" where
  "Map_portable coerce pcPortable m = (survives coerce (Map_name m) \<and> list_all pcPortable (Map_pcs m))"

definition InstrumentList_portable :: "(string \<Rightarrow> jsval) \<Rightarrow> Bank MapList \<Rightarrow> bool" where
  "InstrumentList_portable coerce l =
     list_all (Map_portable coerce (PC_portable coerce (\<lambda>b. survives coerce (Bank_name b)))) (MapList_maps l)"

definition DrumSetList_portable :: "(string \<Rightarrow> jsval) \<Rightarrow> DrumBank MapList \<Rightarrow> bool" where
  "DrumSetList_portable coerce l =
     list_all (Map_portable coerce (PC_portable coerce (DrumBank_portable coerce))) (MapList_maps l)"

definition Value_portable :: "(string \<Rightarrow> jsval) \<Rightarrow> Value \<Rightarrow> bool" where
  "Value_portable coerce v =
     (survivesOpt coerce (Value_name v) \<and>
      keeps coerce (case Value_type v of None \<Rightarrow> JUndef | Some Key \<Rightarrow> JStr ''Key'') \<and>
      list_all (\<lambda>t. survives coerce (Entry_label t))
        (case Value_tags v of None \<Rightarrow> [] | Some tags \<Rightarrow> tags))"

definition Table_portable :: "(string \<Rightarrow> jsval) \<Rightarrow> Table \<Rightarrow> bool" where
  "Table_portable coerce t = list_all (\<lambda>t. survives coerce (Entry_label t)) (Table_tags t)"

fun CCM_tag_portable :: "(string \<Rightarrow> jsval) \<Rightarrow> CCM_tag \<Rightarrow> bool" where
  "CCM_tag_portable coerce (CCM_value v) = Value_portable coerce v"
| "CCM_tag_portable coerce (CCM_gate v) = Value_portable coerce v"
| "CCM_tag_portable coerce (CCM_data d) = True"
| "CCM_tag_portable coerce (CCM_memo s) = True"

definition CCM_portable :: "(string \<Rightarrow> jsval) \<Rightarrow> CCM \<Rightarrow> bool" where
  "CCM_portable coerce c =
     (survives coerce (CCM_name c) \<and> keeps coerce (SyncText (CCM_sync c)) \<and>
      (case CCM_color c of None \<Rightarrow> True | Some col \<Rightarrow> staysString coerce col) \<and>
      distinct (map CCM_tag_key (CCM_tags c)) \<and>
      list_all (CCM_tag_portable coerce) (CCM_tags c))"

fun CCMFolder_portable :: "(string \<Rightarrow> jsval) \<Rightarrow> CCMFolder \<Rightarrow> bool"
and CCMFolderTag_portable :: "(string \<Rightarrow> jsval) \<Rightarrow> CCMFolderTag \<Rightarrow> bool" where
  "CCMFolder_portable coerce (CCMFolder n i tags) =
     (survives coerce n \<and> list_all (CCMFolderTag_portable coerce) tags)"
| "CCMFolderTag_portable coerce (FolderTag f) = CCMFolder_portable coerce f"
| "CCMFolderTag_portable coerce (FolderLinkTag l) = survives coerce (CCMFolderLink_name l)"
| "CCMFolderTag_portable coerce (CCMTag c) = CCM_portable coerce c"
| "CCMFolderTag_portable coerce (CCMLinkTag l) = True"
| "CCMFolderTag_portable coerce (TableTag t) = Table_portable coerce t"
| "CCMFolderTag_portable coerce (MemoTag s) = True"

fun MacroTag_portable :: "(string \<Rightarrow> jsval) \<Rightarrow> MacroTag \<Rightarrow> bool" where
  "MacroTag_portable coerce (MacroFolder f) = CCMFolder_portable coerce f"
| "MacroTag_portable coerce (MacroFolderLink l) = survives coerce (CCMFolderLink_name l)"
| "MacroTag_portable coerce (MacroCCM c) = CCM_portable coerce c"
| "MacroTag_portable coerce (MacroCCMLink l) = True"
| "MacroTag_portable coerce (MacroTable t) = Table_portable coerce t"

fun TemplateTag_portable :: "(string \<Rightarrow> jsval) \<Rightarrow> TemplateTag \<Rightarrow> bool" where
  "TemplateTag_portable coerce (TemplateComment c) = survivesOpt coerce (Comment_text c)"
| "TemplateTag_portable coerce (TemplatePCTag p) = keeps coerce (PCModeText (TemplatePC_mode p))"
| "TemplateTag_portable coerce tag = True"

definition Template_portable :: "(string \<Rightarrow> jsval) \<Rightarrow> Template \<Rightarrow> bool" where
  "Template_portable coerce t =
     (survives coerce (Template_name t) \<and> list_all (TemplateTag_portable coerce) (Template_tags t))"

fun TemplateFolder_portable :: "(string \<Rightarrow> jsval) \<Rightarrow> TemplateFolder \<Rightarrow> bool"
and TemplateFolderTag_portable :: "(string \<Rightarrow> jsval) \<Rightarrow> TemplateFolderTag \<Rightarrow> bool" where
  "TemplateFolder_portable coerce (TemplateFolder n tags) =
     (survives coerce n \<and> list_all (TemplateFolderTag_portable coerce) tags)"
| "TemplateFolderTag_portable coerce (TemplateTagOf t) = Template_portable coerce t"
| "TemplateFolderTag_portable coerce (TemplateFolderTagOf f) = TemplateFolder_portable coerce f"

fun TrackTag_portable :: "(string \<Rightarrow> jsval) \<Rightarrow> TrackTag \<Rightarrow> bool" where
  "TrackTag_portable coerce (TrackMark m) = survivesOpt coerce (DefaultDataTrackMark_name m)"
| "TrackTag_portable coerce (TrackTempo t) = isNumber (coerce (js_toFixed3 (Tempo_tempo t)))"
| "TrackTag_portable coerce (TrackPC p) = keeps coerce (PCModeText (DefaultDataPC_mode p))"
| "TrackTag_portable coerce (TrackTimeSignature t) = staysString coerce (TimeSignature_timeSignature t)"
| "TrackTag_portable coerce (TrackKeySignature k) = staysString coerce (KeySignature_keySignature k)"
| "TrackTag_portable coerce (TrackComment c) = survivesOpt coerce (DefaultDataComment_text c)"
| "TrackTag_portable coerce tag = True"

definition Track_portable :: "(string \<Rightarrow> jsval) \<Rightarrow> Track \<Rightarrow> bool" where
  "Track_portable coerce t =
     (survivesOpt coerce (Track_name t) \<and> keeps coerce (TrackModeText (Track_mode t)) \<and>
      list_all (TrackTag_portable coerce) (Track_tags t))"

fun DefaultDataTag_portable :: "(string \<Rightarrow> jsval) \<Rightarrow> DefaultDataTag \<Rightarrow> bool" where
  "DefaultDataTag_portable coerce (DefaultDataMark m) = survivesOpt coerce (Mark_name m)"
| "DefaultDataTag_portable coerce (DefaultDataTrack t) = Track_portable coerce t"

fun ModuleData_tag_portable :: "(string \<Rightarrow> jsval) \<Rightarrow> ModuleData_tag \<Rightarrow> bool" where
  "ModuleData_tag_portable coerce (Tag_exclusiveEventDefault x) =
     staysString coerce (ExclusiveEventDefault_data x)"
| "ModuleData_tag_portable coerce (Tag_instrumentList l) = InstrumentList_portable coerce l"
| "ModuleData_tag_portable coerce (Tag_drumSetList l) = DrumSetList_portable coerce l"
| "ModuleData_tag_portable coerce (Tag_controlChangeMacroList l) =
     list_all (MacroTag_portable coerce) (ControlChangeMacroList_tags l)"
| "ModuleData_tag_portable coerce (Tag_templateList l) =
     list_all (TemplateFolderTag_portable coerce) (TemplateList_tags l)"
| "ModuleData_tag_portable coerce (Tag_defaultData d) =
     list_all (DefaultDataTag_portable coerce) (DefaultData_tags d)"
| "ModuleData_tag_portable coerce tag = True"

definition File_portable :: "(string \<Rightarrow> jsval) \<Rightarrow> File \<Rightarrow> bool" where
  "File_portable coerce f =
     (let md = File_moduleData f
      in staysString coerce File_xmlEncoding \<and> survives coerce (ModuleData_name md) \<and> survivesOpt coerce (ModuleData_folder md) \<and>
         survivesOpt coerce (ModuleData_fileCreator md) \<and> survivesOpt coerce (ModuleData_fileVersion md) \<and>
         survivesOpt coerce (ModuleData_website md) \<and>
         distinct (map ModuleData_tag_key (ModuleData_tags md)) \<and>
         list_all (ModuleData_tag_portable coerce) (ModuleData_tags md))"

subsection \<open>What the parser makes of an encoded element\<close>

lemma readBack_simps [simp]:
  "readBack coerce JUndef = JUndef"
  "readBack coerce (JNum n) = JNum n"
  "readBack coerce (JBool b) = JBool b"
  "readBack coerce (JStr s) = coerce s"
  by (simp_all add: readBack_def)

lemma readBack_optNum [simp]: "readBack coerce (optNum v) = optNum v"
  by (cases v) (simp_all add: optNum_def)

lemma map_of_readAttributes_absent:
  "k \<notin> fst ` set kvs \<Longrightarrow> map_of (readAttributes coerce kvs) k = None"
proof (induction kvs)
  case Nil
  then show ?case by simp
next
  case (Cons kv kvs)
  obtain k' v where kv: "kv = (k', v)" by (cases kv)
  with Cons show ?case by (cases v) auto
qed

lemma map_of_readAttributes:
  "distinct (map fst kvs) \<Longrightarrow>
   (case map_of (readAttributes coerce kvs) k of None \<Rightarrow> JUndef | Some v \<Rightarrow> v) =
     readBack coerce (case map_of kvs k of None \<Rightarrow> JUndef | Some v \<Rightarrow> v)"
proof (induction kvs)
  case Nil
  then show ?case by simp
next
  case (Cons kv kvs)
  obtain k' v where kv: "kv = (k', v)" by (cases kv)
  from Cons.prems kv have fresh: "k' \<notin> fst ` set kvs" and "distinct (map fst kvs)" by auto
  with Cons.IH have IH: "(case map_of (readAttributes coerce kvs) k of None \<Rightarrow> JUndef | Some v \<Rightarrow> v) =
      readBack coerce (case map_of kvs k of None \<Rightarrow> JUndef | Some v \<Rightarrow> v)"
    by simp
  show ?case
  proof (cases "k = k'")
    case True
    with fresh have "map_of (readAttributes coerce kvs) k = None"
      by (simp add: map_of_readAttributes_absent)
    with True kv show ?thesis by (cases v) simp_all
  next
    case False
    with kv IH show ?thesis by (cases v) simp_all
  qed
qed

lemma attr_Nil [simp]: "attr (ElementElement n (Some []) es) k = JUndef"
  by (simp add: attr_def)

lemma attr_Cons [simp]:
  "attr (ElementElement n (Some ((k', v) # kvs)) es) k =
     (if k = k' then v else attr (ElementElement n (Some kvs) es) k)"
  by (simp add: attr_def)

lemma attr_readAttributes:
  "distinct (map fst kvs) \<Longrightarrow>
   attr (ElementElement n (Some (readAttributes coerce kvs)) es) k =
     readBack coerce (attr (ElementElement n' (Some kvs) es') k)"
  using map_of_readAttributes [of kvs coerce k] by (simp add: attr_def)

lemma attr_readAttributeList [simp]:
  "attr (ElementElement n (readAttributeList coerce a) es) k =
     attr (ElementElement n (map_option (readAttributes coerce) a) es) k"
  by (cases a) (simp_all add: readAttributeList_def attr_def)

declare readAttributes.simps [simp del]

lemma attr_readElement_None [simp]:
  "attr (readElement coerce (ElementElement n None es)) k = JUndef"
  by (simp add: attr_def readAttributeList_def)

lemma name_readElement [simp]: "name (readElement coerce e) = name e"
  by (cases e) simp

lemma elements_readElement [simp]: "elements (readElement coerce e) = map (readNode coerce) (elements e)"
  by (cases e) simp

text \<open>The children that the parser builds where the encoder wrote a list of elements.\<close>

definition readChildren :: "(string \<Rightarrow> jsval) \<Rightarrow> ElementElement list \<Rightarrow> Element list" where
  "readChildren coerce els = map (readNode coerce) (map EElement els)"

lemma readChildren_simps [simp]:
  "readChildren coerce [] = []"
  "readChildren coerce (el # els) = EElement (readElement coerce el) # readChildren coerce els"
  by (simp_all add: readChildren_def)

lemma readChildren_fold [simp]:
  "map (readNode coerce) (map EElement els) = readChildren coerce els"
  "map (readNode coerce \<circ> EElement) els = readChildren coerce els"
  "map (\<lambda>a. EElement (readElement coerce a)) els = readChildren coerce els"
  by (simp_all add: readChildren_def)

lemma elementsNamed_read:
  "(\<And>el. el \<in> set els \<Longrightarrow> name el = n) \<Longrightarrow>
   elementsNamed n (readChildren coerce els) = map (readElement coerce) els"
  by (induction els) simp_all

lemma elementChildren_read [simp]: "elementChildren (readChildren coerce els) = map (readElement coerce) els"
  by (induction els) simp_all

lemma firstText_TextElement [simp]: "firstText (ElementElement n a (TextElement t # es)) = t"
  by (simp add: firstText_def)

subsection \<open>What the decoders make of coerced values\<close>

lemma optionalNumber_optNum [simp]: "optionalNumber msg (optNum v) = Inr v"
  by (cases v) (simp_all add: optionalNumber_def optNum_def)

lemma requiredNumber_JNum [simp]: "requiredNumber msg (JNum n) = Inr n"
  by (simp add: requiredNumber_def)

lemma requiredName_coerced: "survives coerce s \<Longrightarrow> requiredName msg (coerce s) = Inr s"
  by (cases "coerce s") (simp_all add: requiredName_def survives_def)

lemma optionalName_optStr:
  "survivesOpt coerce v \<Longrightarrow> optionalName (readBack coerce (optStr v)) = v"
  by (cases v; cases "coerce (the v)")
    (auto simp: optionalName_def optStr_def survivesOpt_def survives_def)

lemma requiredString_coerced:
  "staysString coerce s \<Longrightarrow> requiredString msg (coerce s) = Inr s"
  by (simp add: requiredString_def staysString_def)

lemma enum_read:
  "keeps coerce (SyncText s) \<Longrightarrow> CCM_syncFromXML (readBack coerce (SyncText s)) = Inr s"
  "keeps coerce (PCModeText m) \<Longrightarrow> PCModeFromXML msg (readBack coerce (PCModeText m)) = Inr m"
  "keeps coerce (TrackModeText tm) \<Longrightarrow>
     Track_modeFromXML (readBack coerce (TrackModeText tm)) = Inr tm"
proof -
  have "CCM_syncFromXML (SyncText s) = Inr s"
  proof (cases s)
    case None
    then show ?thesis by (simp add: SyncText_def CCM_syncFromXML_def)
  next
    case (Some a)
    then show ?thesis by (cases a) (simp_all add: SyncText_def CCM_syncFromXML_def)
  qed
  then show "keeps coerce (SyncText s) \<Longrightarrow>
      CCM_syncFromXML (readBack coerce (SyncText s)) = Inr s"
    by (simp add: keeps_def)
  have "PCModeFromXML msg (PCModeText m) = Inr m"
  proof (cases m)
    case None
    then show ?thesis by (simp add: PCModeText_def PCModeFromXML_def)
  next
    case (Some a)
    then show ?thesis by (cases a) (simp_all add: PCModeText_def PCModeFromXML_def)
  qed
  then show "keeps coerce (PCModeText m) \<Longrightarrow>
      PCModeFromXML msg (readBack coerce (PCModeText m)) = Inr m"
    by (simp add: keeps_def)
  have "Track_modeFromXML (TrackModeText tm) = Inr tm"
  proof (cases tm)
    case None
    then show ?thesis by (simp add: TrackModeText_def Track_modeFromXML_def)
  next
    case (Some a)
    then show ?thesis by (cases a) (simp_all add: TrackModeText_def Track_modeFromXML_def)
  qed
  then show "keeps coerce (TrackModeText tm) \<Longrightarrow>
      Track_modeFromXML (readBack coerce (TrackModeText tm)) = Inr tm"
    by (simp add: keeps_def)
qed

lemmas read_simps =
  attr_readAttributes [where n' = "[]" and es' = "[]"] requiredName_coerced optionalName_optStr
  requiredString_coerced enum_read

subsection \<open>Lists of children\<close>

lemma mapE_roundtrip:
  assumes "\<And>x. x \<in> set xs \<Longrightarrow>
      \<exists>el. enc x = Inr el \<and> name el = n \<and> dec (readElement coerce el) = Inr (back x)"
  shows "\<exists>els. mapE enc xs = Inr els \<and> (\<forall>el \<in> set els. name el = n) \<and>
      mapE dec (map (readElement coerce) els) = Inr (map back xs)"
  using assms
proof (induction xs)
  case Nil
  then show ?case by simp
next
  case (Cons x xs)
  from Cons.prems [of x] obtain el where el: "enc x = Inr el" "name el = n"
      "dec (readElement coerce el) = Inr (back x)"
    by auto
  from Cons.IH Cons.prems obtain els where els: "mapE enc xs = Inr els"
      "\<forall>el \<in> set els. name el = n" "mapE dec (map (readElement coerce) els) = Inr (map back xs)"
    by auto
  from el els have "mapE enc (x # xs) = Inr (el # els) \<and> (\<forall>e \<in> set (el # els). name e = n) \<and>
      mapE dec (map (readElement coerce) (el # els)) = Inr (map back (x # xs))"
    by simp
  then show ?case by blast
qed

lemma forEachElement_roundtrip_push:
  assumes "\<And>t. t \<in> set tags \<Longrightarrow>
      \<exists>el. enc t = Inr el \<and> (\<forall>acc. step (readElement coerce el) acc = Inr (acc @ [back t]))"
  shows "\<exists>els. mapE enc tags = Inr els \<and>
      (\<forall>acc. forEachElement step (readChildren coerce els) acc =
         Inr (acc @ map back tags))"
  using assms
proof (induction tags)
  case Nil
  then show ?case by simp
next
  case (Cons t tags)
  from Cons.prems [of t] obtain el where el: "enc t = Inr el"
      "\<forall>acc. step (readElement coerce el) acc = Inr (acc @ [back t])"
    by auto
  from Cons.IH Cons.prems obtain els where els: "mapE enc tags = Inr els"
      "\<forall>acc. forEachElement step (readChildren coerce els) acc =
         Inr (acc @ map back tags)"
    by auto
  from el els have "mapE enc (t # tags) = Inr (el # els) \<and>
      (\<forall>acc. forEachElement step (readChildren coerce (el # els)) acc =
         Inr (acc @ map back (t # tags)))"
    by simp
  then show ?case by blast
qed

lemma assign_fresh: "key v \<notin> set (map key acc) \<Longrightarrow> assign key v acc = acc @ [v]"
  by (induction acc) auto

lemma forEachElement_roundtrip_assign:
  assumes "\<And>t. t \<in> set tags \<Longrightarrow>
      \<exists>el. enc t = Inr el \<and> (\<forall>acc. step (readElement coerce el) acc = Inr (assign key (back t) acc))"
    and "\<And>t. key (back t) = key t"
    and "distinct (map key tags)"
  shows "\<exists>els. mapE enc tags = Inr els \<and>
      (\<forall>acc. set (map key acc) \<inter> set (map key tags) = {} \<longrightarrow>
         forEachElement step (readChildren coerce els) acc =
           Inr (acc @ map back tags))"
  using assms(1) assms(3)
proof (induction tags)
  case Nil
  then show ?case by simp
next
  case (Cons t tags)
  from Cons.prems(1) [of t] obtain el where el: "enc t = Inr el"
      "\<forall>acc. step (readElement coerce el) acc = Inr (assign key (back t) acc)"
    by auto
  from Cons.IH Cons.prems obtain els where els: "mapE enc tags = Inr els"
      "\<forall>acc. set (map key acc) \<inter> set (map key tags) = {} \<longrightarrow>
         forEachElement step (readChildren coerce els) acc =
           Inr (acc @ map back tags)"
    by auto
  have "forEachElement step (readChildren coerce (el # els)) acc =
      Inr (acc @ map back (t # tags))"
    if disjoint: "set (map key acc) \<inter> set (map key (t # tags)) = {}" for acc
  proof -
    from disjoint have "key (back t) \<notin> set (map key acc)" by (auto simp: assms(2) image_iff)
    then have first: "step (readElement coerce el) acc = Inr (acc @ [back t])"
      using el(2) by (simp add: assign_fresh)
    from disjoint Cons.prems(2)
    have "set (map key (acc @ [back t])) \<inter> set (map key tags) = {}"
      by (auto simp: assms(2))
    with els(2) have "forEachElement step (readChildren coerce els) (acc @ [back t]) =
        Inr ((acc @ [back t]) @ map back tags)"
      by blast
    with first show ?thesis by simp
  qed
  with el(1) els(1) have "mapE enc (t # tags) = Inr (el # els) \<and>
      (\<forall>acc. set (map key acc) \<inter> set (map key (t # tags)) = {} \<longrightarrow>
         forEachElement step (readChildren coerce (el # els)) acc =
           Inr (acc @ map back (t # tags)))"
    by simp
  then show ?case by blast
qed

subsection \<open>Instrument and drum maps, there and back\<close>

lemma mapE_length: "mapE f xs = Inr ys \<Longrightarrow> length ys = length xs"
proof (induction xs arbitrary: ys)
  case Nil
  then show ?case by simp
next
  case (Cons x xs)
  then show ?case by (auto simp: thenE_Inr_iff)
qed

lemma Tone_roundtrip:
  assumes "Tone_check t = Inr ()" and "survives coerce (Tone_name t)"
  shows "\<exists>el. Tone_toXMLElement t = Inr el \<and> name el = ''Tone'' \<and>
    Tone_fromXMLElement (readElement coerce el) = Inr t"
  using assms by (simp add: Tone_toXMLElement_def Tone_fromXMLElement_def read_simps)

lemma Bank_roundtrip:
  fixes b :: Bank
  assumes "Bank_check b = Inr ()" and "survives coerce (Bank_name b)"
  shows "\<exists>el. Bank_toXMLElement b = Inr el \<and> name el = ''Bank'' \<and>
    Bank_fromXMLElement (readElement coerce el) = Inr b"
  using assms
  by (simp add: Bank_toXMLElement_def Bank_fromXMLElement_def Bank_fromXMLElementBase_def
      read_simps)

lemma DrumBank_roundtrip:
  assumes "DrumBank_valid b" and "DrumBank_portable coerce b"
  shows "\<exists>el. DrumBank_toXMLElement b = Inr el \<and> name el = ''Bank'' \<and>
    DrumBank_fromXMLElement (readElement coerce el) = Inr b"
proof -
  have "\<exists>el. Tone_toXMLElement t = Inr el \<and> name el = ''Tone'' \<and>
      Tone_fromXMLElement (readElement coerce el) = Inr ((\<lambda>x. x) t)"
    if "t \<in> set (DrumBank_tones b)" for t
    using that assms Tone_roundtrip [of t coerce]
    by (simp add: DrumBank_valid_def DrumBank_portable_def list_all_iff)
  from mapE_roundtrip [of "DrumBank_tones b" Tone_toXMLElement "''Tone''" Tone_fromXMLElement
      coerce "\<lambda>x. x", OF this]
  obtain els where els: "mapE Tone_toXMLElement (DrumBank_tones b) = Inr els"
    and names: "\<forall>el \<in> set els. name el = ''Tone''"
    and decoded: "mapE Tone_fromXMLElement (map (readElement coerce) els) = Inr (DrumBank_tones b)"
    by auto
  from names have named: "elementsNamed ''Tone'' (readChildren coerce els) =
      map (readElement coerce) els"
    by (simp add: elementsNamed_read)
  from assms els decoded named show ?thesis
    by (simp add: DrumBank_toXMLElement_def Bank_toXMLElement_def DrumBank_fromXMLElement_def
        Bank_fromXMLElementBase_def DrumBank_valid_def DrumBank_portable_def read_simps)
qed

lemma PC_roundtrip:
  assumes "PC_valid bankValid p" and "PC_portable coerce bankPortable p"
    and bank: "\<And>b. b \<in> set (PC_banks p) \<Longrightarrow> bankValid b \<Longrightarrow> bankPortable b \<Longrightarrow>
      \<exists>el. bankToXML b = Inr el \<and> name el = ''Bank'' \<and> bankFromXML (readElement coerce el) = Inr b"
  shows "\<exists>el. PC_toXMLElement bankToXML p = Inr el \<and> name el = ''PC'' \<and>
    PC_fromXMLElement bankFromXML (readElement coerce el) = Inr p"
proof -
  have "\<exists>el. bankToXML b = Inr el \<and> name el = ''Bank'' \<and>
      bankFromXML (readElement coerce el) = Inr ((\<lambda>x. x) b)"
    if "b \<in> set (PC_banks p)" for b
    using that assms(1,2) bank [of b] by (simp add: PC_valid_def PC_portable_def list_all_iff)
  from mapE_roundtrip [of "PC_banks p" bankToXML "''Bank''" bankFromXML coerce
      "\<lambda>x. x", OF this]
  obtain els where els: "mapE bankToXML (PC_banks p) = Inr els"
    and names: "\<forall>el \<in> set els. name el = ''Bank''"
    and decoded: "mapE bankFromXML (map (readElement coerce) els) = Inr (PC_banks p)"
    by auto
  from names have named: "elementsNamed ''Bank'' (readChildren coerce els) =
      map (readElement coerce) els"
    by (simp add: elementsNamed_read)
  from els have "length els = length (PC_banks p)" by (rule mapE_length)
  with assms(2) have some: "els \<noteq> []" by (auto simp: PC_portable_def)
  from assms(1,2) els decoded named some show ?thesis
    by (simp add: PC_toXMLElement_def PC_fromXMLElement_def PC_fromXMLElementBase_def
        PC_valid_def PC_portable_def read_simps)
qed

lemma Map_roundtrip:
  assumes "Map_valid pcValid m" and "Map_portable coerce pcPortable m"
    and pc: "\<And>p. p \<in> set (Map_pcs m) \<Longrightarrow> pcValid p \<Longrightarrow> pcPortable p \<Longrightarrow>
      \<exists>el. pcToXML p = Inr el \<and> name el = ''PC'' \<and> pcFromXML (readElement coerce el) = Inr p"
  shows "\<exists>el. Map_toXMLElement pcToXML m = Inr el \<and> name el = ''Map'' \<and>
    Map_fromXMLElement pcFromXML (readElement coerce el) = Inr m"
proof -
  have "\<exists>el. pcToXML p = Inr el \<and> name el = ''PC'' \<and>
      pcFromXML (readElement coerce el) = Inr ((\<lambda>x. x) p)"
    if "p \<in> set (Map_pcs m)" for p
    using that assms(1,2) pc [of p] by (simp add: Map_valid_def Map_portable_def list_all_iff)
  from mapE_roundtrip [of "Map_pcs m" pcToXML "''PC''" pcFromXML coerce "\<lambda>x. x", OF this]
  obtain els where els: "mapE pcToXML (Map_pcs m) = Inr els"
    and names: "\<forall>el \<in> set els. name el = ''PC''"
    and decoded: "mapE pcFromXML (map (readElement coerce) els) = Inr (Map_pcs m)"
    by auto
  from names have named: "elementsNamed ''PC'' (readChildren coerce els) =
      map (readElement coerce) els"
    by (simp add: elementsNamed_read)
  from assms(1,2) els decoded named show ?thesis
    by (simp add: Map_toXMLElement_def Map_fromXMLElement_def Map_fromXMLElementBase_def
        Map_portable_def read_simps)
qed

lemma InstrumentList_roundtrip:
  assumes "InstrumentList_valid l" and "InstrumentList_portable coerce l"
  shows "\<exists>el. InstrumentList_toXMLElement l = Inr el \<and> name el = ''InstrumentList'' \<and>
    InstrumentList_fromXMLElement (readElement coerce el) = Inr l"
proof -
  have "\<exists>el. InstrumentMap_toXMLElement m = Inr el \<and> name el = ''Map'' \<and>
      InstrumentMap_fromXMLElement (readElement coerce el) = Inr ((\<lambda>x. x) m)"
    if "m \<in> set (MapList_maps l)" for m
  proof -
    from that assms have v: "Map_valid (PC_valid (\<lambda>b. Bank_check b = Inr ())) m"
      and p: "Map_portable coerce (PC_portable coerce (\<lambda>b. survives coerce (Bank_name b))) m"
      by (simp_all add: InstrumentList_valid_def InstrumentList_portable_def list_all_iff)
    have "\<exists>el. InstrumentPC_toXMLElement pc = Inr el \<and> name el = ''PC'' \<and>
        InstrumentPC_fromXMLElement (readElement coerce el) = Inr pc"
      if "PC_valid (\<lambda>b. Bank_check b = Inr ()) pc"
        and "PC_portable coerce (\<lambda>b. survives coerce (Bank_name b)) pc" for pc
      unfolding InstrumentPC_toXMLElement_def InstrumentPC_fromXMLElement_def
      using that by (rule PC_roundtrip) (rule Bank_roundtrip)
    with Map_roundtrip [OF v p, of InstrumentPC_toXMLElement InstrumentPC_fromXMLElement]
    show ?thesis
      by (simp add: InstrumentMap_toXMLElement_def InstrumentMap_fromXMLElement_def)
  qed
  from mapE_roundtrip [of "MapList_maps l" InstrumentMap_toXMLElement "''Map''"
      InstrumentMap_fromXMLElement coerce "\<lambda>x. x", OF this]
  obtain els where els: "mapE InstrumentMap_toXMLElement (MapList_maps l) = Inr els"
    and names: "\<forall>el \<in> set els. name el = ''Map''"
    and decoded: "mapE InstrumentMap_fromXMLElement (map (readElement coerce) els) = Inr (MapList_maps l)"
    by auto
  from names have named: "elementsNamed ''Map'' (readChildren coerce els) =
      map (readElement coerce) els"
    by (simp add: elementsNamed_read)
  from els decoded named show ?thesis
    by (simp add: InstrumentList_toXMLElement_def MapList_toXMLElement_def
        InstrumentList_fromXMLElement_def)
qed

lemma DrumSetList_roundtrip:
  assumes "DrumSetList_valid l" and "DrumSetList_portable coerce l"
  shows "\<exists>el. DrumSetList_toXMLElement l = Inr el \<and> name el = ''DrumSetList'' \<and>
    DrumSetList_fromXMLElement (readElement coerce el) = Inr l"
proof -
  have "\<exists>el. DrumMap_toXMLElement m = Inr el \<and> name el = ''Map'' \<and>
      DrumMap_fromXMLElement (readElement coerce el) = Inr ((\<lambda>x. x) m)"
    if "m \<in> set (MapList_maps l)" for m
  proof -
    from that assms have v: "Map_valid (PC_valid DrumBank_valid) m"
      and p: "Map_portable coerce (PC_portable coerce (DrumBank_portable coerce)) m"
      by (simp_all add: DrumSetList_valid_def DrumSetList_portable_def list_all_iff)
    have "\<exists>el. DrumPC_toXMLElement pc = Inr el \<and> name el = ''PC'' \<and>
        DrumPC_fromXMLElement (readElement coerce el) = Inr pc"
      if "PC_valid DrumBank_valid pc" and "PC_portable coerce (DrumBank_portable coerce) pc" for pc
      unfolding DrumPC_toXMLElement_def DrumPC_fromXMLElement_def
      using that by (rule PC_roundtrip) (rule DrumBank_roundtrip)
    with Map_roundtrip [OF v p, of DrumPC_toXMLElement DrumPC_fromXMLElement]
    show ?thesis
      by (simp add: DrumMap_toXMLElement_def DrumMap_fromXMLElement_def)
  qed
  from mapE_roundtrip [of "MapList_maps l" DrumMap_toXMLElement "''Map''"
      DrumMap_fromXMLElement coerce "\<lambda>x. x", OF this]
  obtain els where els: "mapE DrumMap_toXMLElement (MapList_maps l) = Inr els"
    and names: "\<forall>el \<in> set els. name el = ''Map''"
    and decoded: "mapE DrumMap_fromXMLElement (map (readElement coerce) els) = Inr (MapList_maps l)"
    by auto
  from names have named: "elementsNamed ''Map'' (readChildren coerce els) =
      map (readElement coerce) els"
    by (simp add: elementsNamed_read)
  from els decoded named show ?thesis
    by (simp add: DrumSetList_toXMLElement_def MapList_toXMLElement_def
        DrumSetList_fromXMLElement_def)
qed

subsection \<open>Control change macros, there and back\<close>

lemma Entry_roundtrip:
  assumes "survives coerce (Entry_label t)"
  shows "\<exists>el. Entry_toXMLElement t = Inr el \<and> name el = ''Entry'' \<and>
    Entry_fromXMLElement (readElement coerce el) = Inr t"
  using assms by (simp add: Entry_toXMLElement_def Entry_fromXMLElement_def read_simps)

lemma Entries_roundtrip:
  assumes "list_all (\<lambda>t. survives coerce (Entry_label t)) entries"
  shows "\<exists>els. mapE Entry_toXMLElement entries = Inr els \<and>
    mapE Entry_fromXMLElement (map (readElement coerce) els) = Inr entries"
proof -
  have "\<exists>el. Entry_toXMLElement t = Inr el \<and> name el = ''Entry'' \<and>
      Entry_fromXMLElement (readElement coerce el) = Inr ((\<lambda>x. x) t)"
    if "t \<in> set entries" for t
    using that assms Entry_roundtrip [of coerce t] by (simp add: list_all_iff)
  from mapE_roundtrip [of entries Entry_toXMLElement "''Entry''" Entry_fromXMLElement coerce
      "\<lambda>x. x", OF this]
  show ?thesis by auto
qed

lemma Value_type_read [simp]:
  assumes "keeps coerce (case ty of None \<Rightarrow> JUndef | Some Key \<Rightarrow> JStr ''Key'')"
  shows "Value_typeFromXML
      (readBack coerce (case ty of None \<Rightarrow> JUndef | Some Key \<Rightarrow> JStr ''Key'')) = Inr ty"
proof -
  have "Value_typeFromXML (case ty of None \<Rightarrow> JUndef | Some Key \<Rightarrow> JStr ''Key'') = Inr ty"
  proof (cases ty)
    case None
    then show ?thesis by (simp add: Value_typeFromXML_def)
  next
    case (Some a)
    then show ?thesis by (cases a) (simp add: Value_typeFromXML_def)
  qed
  with assms show ?thesis by (simp add: keeps_def)
qed

lemma Value_roundtrip_named:
  assumes "Value_check v = Inr ()" and "Value_portable coerce v"
  shows "\<exists>kvs els. Value_toXMLElement v = Inr (ElementElement ''Value'' (Some kvs) els) \<and>
    (\<forall>n. Value_fromXMLElement (readElement coerce (ElementElement n (Some kvs) els)) =
       Inr (Value_asRead v))"
proof -
  define entries where "entries = (case Value_tags v of None \<Rightarrow> [] | Some tags \<Rightarrow> tags)"
  from assms(2) have "list_all (\<lambda>t. survives coerce (Entry_label t)) entries"
    by (simp add: Value_portable_def entries_def)
  from Entries_roundtrip [OF this]
  obtain els where els: "mapE Entry_toXMLElement entries = Inr els"
    and decoded: "mapE Entry_fromXMLElement (map (readElement coerce) els) = Inr entries"
    by auto
  have written: "(case Value_tags v of None \<Rightarrow> Inr [] | Some tags \<Rightarrow> mapE Entry_toXMLElement tags) =
      Inr els"
    using els by (cases "Value_tags v") (simp_all add: entries_def)
  have same: "\<lparr>Value_default = Value_default v, Value_min = Value_min v,
      Value_max = Value_max v, Value_offset = Value_offset v, Value_name = Value_name v,
      Value_type = Value_type v, Value_tableId = Value_tableId v,
      Value_tags = Some entries\<rparr> = Value_asRead v"
    by (simp add: Value_asRead_def entries_def)
  from assms written decoded same show ?thesis
    by (simp add: Value_toXMLElement_def Value_fromXMLElement_def Value_portable_def read_simps)
qed

lemma Table_roundtrip:
  assumes "Table_check t = Inr ()" and "Table_portable coerce t"
  shows "\<exists>el. Table_toXMLElement t = Inr el \<and> name el = ''Table'' \<and>
    Table_fromXMLElement (readElement coerce el) = Inr t"
proof -
  from assms(2) have "list_all (\<lambda>t. survives coerce (Entry_label t)) (Table_tags t)"
    by (simp add: Table_portable_def)
  from Entries_roundtrip [OF this]
  obtain els where "mapE Entry_toXMLElement (Table_tags t) = Inr els"
    and "mapE Entry_fromXMLElement (map (readElement coerce) els) = Inr (Table_tags t)"
    by auto
  with assms(1) show ?thesis
    by (simp add: Table_toXMLElement_def Table_fromXMLElement_def read_simps)
qed

lemma Data_eta [simp]: "\<lparr>Data_text = Data_text d\<rparr> = d"
  by (cases d) simp

lemma CCM_tag_roundtrip:
  assumes "CCM_tag_valid tag" and "CCM_tag_portable coerce tag"
  shows "\<exists>el. CCM_tag_toXMLElement tag = Inr el \<and>
    (\<forall>acc. CCM_childFromXML (readElement coerce el) acc =
       Inr (assign CCM_tag_key (CCM_tag_asRead tag) acc))"
proof (cases tag)
  case (CCM_value v)
  with assms Value_roundtrip_named [of v coerce] show ?thesis
    by (auto simp: CCM_childFromXML_def)
next
  case (CCM_gate v)
  with assms Value_roundtrip_named [of v coerce] show ?thesis
    by (auto simp: CCM_childFromXML_def Gate_toXMLElement_def)
next
  case (CCM_data d)
  then show ?thesis
    by (simp add: CCM_childFromXML_def Data_toXMLElement_def Data_fromXMLElements_def)
next
  case (CCM_memo s)
  then show ?thesis by (simp add: CCM_childFromXML_def)
qed

lemma CCM_tag_key_asRead [simp]: "CCM_tag_key (CCM_tag_asRead tag) = CCM_tag_key tag"
  by (cases tag) simp_all

lemma CCM_color_read:
  "(case col of None \<Rightarrow> True | Some c \<Rightarrow> (staysString coerce) c) \<Longrightarrow>
   CCM_colorFromXML (readBack coerce (optStr col)) = Inr col"
  by (cases col) (simp_all add: CCM_colorFromXML_def optStr_def staysString_def)

lemma CCM_roundtrip:
  assumes "CCM_valid c" and "CCM_portable coerce c"
  shows "\<exists>el. CCM_toXMLElement c = Inr el \<and> name el = ''CCM'' \<and>
    CCM_fromXMLElement (readElement coerce el) = Inr (CCM_asRead c)"
proof -
  have "\<exists>el. CCM_tag_toXMLElement tag = Inr el \<and>
      (\<forall>acc. CCM_childFromXML (readElement coerce el) acc =
         Inr (assign CCM_tag_key (CCM_tag_asRead tag) acc))"
    if "tag \<in> set (CCM_tags c)" for tag
    using that assms CCM_tag_roundtrip [of tag coerce]
    by (simp add: CCM_valid_def CCM_portable_def list_all_iff)
  moreover from assms(2) have "distinct (map CCM_tag_key (CCM_tags c))"
    by (simp add: CCM_portable_def)
  ultimately obtain els where els: "mapE CCM_tag_toXMLElement (CCM_tags c) = Inr els"
    and "\<forall>acc. set (map CCM_tag_key acc) \<inter> set (map CCM_tag_key (CCM_tags c)) = {} \<longrightarrow>
      forEachElement CCM_childFromXML (readChildren coerce els) acc =
        Inr (acc @ map CCM_tag_asRead (CCM_tags c))"
    using forEachElement_roundtrip_assign [of "CCM_tags c" CCM_tag_toXMLElement CCM_childFromXML
      coerce CCM_tag_key CCM_tag_asRead]
    by auto
  then have children: "forEachElement CCM_childFromXML (readChildren coerce els) [] =
      Inr (map CCM_tag_asRead (CCM_tags c))"
    by force
  have same: "\<lparr>CCM_id = CCM_id c, CCM_name = CCM_name c, CCM_color = CCM_color c,
      CCM_sync = CCM_sync c, CCM_tags = map CCM_tag_asRead (CCM_tags c)\<rparr> = CCM_asRead c"
    by (simp add: CCM_asRead_def)
  from assms els children same show ?thesis
    by (simp add: CCM_toXMLElement_def CCM_fromXMLElement_def CCM_valid_def CCM_portable_def
        CCM_color_read read_simps)
qed

lemma CCMLink_roundtrip:
  "\<exists>el. CCMLink_toXMLElement l = Inr el \<and> name el = ''CCMLink'' \<and>
    CCMLink_fromXMLElement (readElement coerce el) = Inr l"
  by (simp add: CCMLink_toXMLElement_def CCMLink_fromXMLElement_def read_simps)

lemma CCMFolderLink_roundtrip:
  assumes "survives coerce (CCMFolderLink_name l)"
  shows "\<exists>el. CCMFolderLink_toXMLElement l = Inr el \<and> name el = ''FolderLink'' \<and>
    CCMFolderLink_fromXMLElement (readElement coerce el) = Inr l"
  using assms
  by (simp add: CCMFolderLink_toXMLElement_def CCMFolderLink_fromXMLElement_def read_simps)

lemma children_roundtrip:
  assumes "\<And>acc. children [] acc = Inr acc"
    and "\<And>t. t \<in> set tags \<Longrightarrow>
      \<exists>el. enc t = Inr el \<and>
        (\<forall>es acc. children (EElement (readElement coerce el) # es) acc =
           children es (acc @ [back t]))"
  shows "\<exists>els. mapE enc tags = Inr els \<and>
      (\<forall>acc. children (readChildren coerce els) acc = Inr (acc @ map back tags))"
  using assms(2)
proof (induction tags)
  case Nil
  then show ?case by (simp add: assms(1))
next
  case (Cons t tags)
  from Cons.prems [of t] obtain el where el: "enc t = Inr el"
      "\<forall>es acc. children (EElement (readElement coerce el) # es) acc = children es (acc @ [back t])"
    by auto
  from Cons.IH Cons.prems obtain els where els: "mapE enc tags = Inr els"
      "\<forall>acc. children (readChildren coerce els) acc = Inr (acc @ map back tags)"
    by auto
  from el els have "mapE enc (t # tags) = Inr (el # els) \<and>
      (\<forall>acc. children (readChildren coerce (el # els)) acc = Inr (acc @ map back (t # tags)))"
    by simp
  then show ?case by blast
qed

lemma CCMFolder_roundtrip:
  "CCMFolder_valid f \<Longrightarrow> CCMFolder_portable coerce f \<Longrightarrow>
     \<exists>el. CCMFolder_toXMLElement f = Inr el \<and> name el = ''Folder'' \<and>
       CCMFolder_fromXMLElement (readElement coerce el) = Inr (CCMFolder_asRead f)"
  and CCMFolderTag_roundtrip:
  "CCMFolderTag_valid t \<Longrightarrow> CCMFolderTag_portable coerce t \<Longrightarrow>
     \<exists>el. CCMFolderTag_toXMLElement t = Inr el \<and>
       (\<forall>es acc. CCMFolder_childrenFromXML (EElement (readElement coerce el) # es) acc =
          CCMFolder_childrenFromXML es (acc @ [CCMFolderTag_asRead t]))"
proof (induction f and t)
  case (CCMFolder n i tags)
  have "\<exists>el. CCMFolderTag_toXMLElement t = Inr el \<and>
      (\<forall>es acc. CCMFolder_childrenFromXML (EElement (readElement coerce el) # es) acc =
         CCMFolder_childrenFromXML es (acc @ [CCMFolderTag_asRead t]))"
    if "t \<in> set tags" for t
    using that CCMFolder by (simp add: list_all_iff)
  from children_roundtrip [of CCMFolder_childrenFromXML tags CCMFolderTag_toXMLElement coerce
      CCMFolderTag_asRead, OF _ this]
  obtain els where "mapE CCMFolderTag_toXMLElement tags = Inr els"
    and "\<forall>acc. CCMFolder_childrenFromXML (readChildren coerce els) acc =
      Inr (acc @ map CCMFolderTag_asRead tags)"
    by auto
  with CCMFolder.prems show ?case by (simp add: read_simps)
next
  case (FolderTag f)
  then obtain el where "CCMFolder_toXMLElement f = Inr el" "name el = ''Folder''"
    "CCMFolder_fromXMLElement (readElement coerce el) = Inr (CCMFolder_asRead f)"
    by auto
  then show ?case by simp
next
  case (FolderLinkTag l)
  with CCMFolderLink_roundtrip [of coerce l] show ?case by auto
next
  case (CCMTag c)
  with CCM_roundtrip [of c coerce] show ?case by auto
next
  case (CCMLinkTag l)
  with CCMLink_roundtrip [of l coerce] show ?case by auto
next
  case (TableTag t)
  with Table_roundtrip [of t coerce] show ?case by auto
next
  case (MemoTag s)
  then show ?case by simp
qed

lemma MacroTag_roundtrip:
  assumes "MacroTag_valid tag" and "MacroTag_portable coerce tag"
  shows "\<exists>el. MacroTag_toXMLElement tag = Inr el \<and>
    (\<forall>acc. ControlChangeMacroList_childFromXML (readElement coerce el) acc =
       Inr (acc @ [MacroTag_asRead tag]))"
proof (cases tag)
  case (MacroFolder f)
  with assms CCMFolder_roundtrip [of f coerce] show ?thesis
    by (auto simp: ControlChangeMacroList_childFromXML_def)
next
  case (MacroFolderLink l)
  with assms CCMFolderLink_roundtrip [of coerce l] show ?thesis
    by (auto simp: ControlChangeMacroList_childFromXML_def)
next
  case (MacroCCM c)
  with assms CCM_roundtrip [of c coerce] show ?thesis
    by (auto simp: ControlChangeMacroList_childFromXML_def)
next
  case (MacroCCMLink l)
  with CCMLink_roundtrip [of l coerce] show ?thesis
    by (auto simp: ControlChangeMacroList_childFromXML_def)
next
  case (MacroTable t)
  with assms Table_roundtrip [of t coerce] show ?thesis
    by (auto simp: ControlChangeMacroList_childFromXML_def)
qed

lemma ControlChangeMacroList_roundtrip:
  assumes "list_all MacroTag_valid (ControlChangeMacroList_tags l)"
    and "list_all (MacroTag_portable coerce) (ControlChangeMacroList_tags l)"
  shows "\<exists>el. ControlChangeMacroList_toXMLElement l = Inr el \<and>
    name el = ''ControlChangeMacroList'' \<and>
    ControlChangeMacroList_fromXMLElement (readElement coerce el) =
      Inr (ControlChangeMacroList_asRead l)"
proof -
  have "\<exists>el. MacroTag_toXMLElement tag = Inr el \<and>
      (\<forall>acc. ControlChangeMacroList_childFromXML (readElement coerce el) acc =
         Inr (acc @ [MacroTag_asRead tag]))"
    if "tag \<in> set (ControlChangeMacroList_tags l)" for tag
    using that assms MacroTag_roundtrip [of tag coerce] by (simp add: list_all_iff)
  from forEachElement_roundtrip_push [of "ControlChangeMacroList_tags l"
      MacroTag_toXMLElement ControlChangeMacroList_childFromXML coerce MacroTag_asRead, OF this]
  obtain els where "mapE MacroTag_toXMLElement (ControlChangeMacroList_tags l) = Inr els"
    and "\<forall>acc. forEachElement ControlChangeMacroList_childFromXML (readChildren coerce els) acc =
      Inr (acc @ map MacroTag_asRead (ControlChangeMacroList_tags l))"
    by auto
  then show ?thesis
    by (simp add: ControlChangeMacroList_toXMLElement_def
        ControlChangeMacroList_fromXMLElement_def ControlChangeMacroList_asRead_def)
qed

subsection \<open>Templates, there and back\<close>

lemma single_field_eta [simp]:
  "\<lparr>Memo_text = Memo_text m\<rparr> = m"
  "\<lparr>Comment_text = Comment_text c\<rparr> = c"
  "\<lparr>EOT_tick = EOT_tick t\<rparr> = t"
  "\<lparr>RhythmTrackDefault_gate = RhythmTrackDefault_gate r\<rparr> = r"
  "\<lparr>ExclusiveEventDefault_data = ExclusiveEventDefault_data x\<rparr> = x"
  "\<lparr>ProgramChangeEventPropertyDlg_autoPreviewDelay =
      ProgramChangeEventPropertyDlg_autoPreviewDelay p\<rparr> = p"
  "\<lparr>ControlChangeEventDefault_id = ControlChangeEventDefault_id d\<rparr> = d"
  "\<lparr>MapList_maps = MapList_maps l\<rparr> = l"
  "\<lparr>TemplateList_tags = TemplateList_tags q\<rparr> = q"
  apply (cases m, simp)
  apply (cases c, simp)
  apply (cases t, simp)
  apply (cases r, simp)
  apply (cases x, simp)
  apply (cases p, simp)
  apply (cases d, simp)
  apply (cases l, simp)
  apply (cases q, simp)
  done

lemma TemplateTag_roundtrip:
  assumes "TemplateTag_valid tag" and "TemplateTag_portable coerce tag"
  shows "\<exists>el. TemplateTag_toXMLElement tag = Inr el \<and>
    (\<forall>acc. Template_childFromXML (readElement coerce el) acc = Inr (acc @ [tag]))"
proof (cases tag)
  case (TemplateMemo m)
  then show ?thesis
    by (simp add: Template_childFromXML_def Memo_toXMLElement_def Memo_fromXMLElement_def)
next
  case (TemplateCC c)
  then show ?thesis
    by (simp add: Template_childFromXML_def CC_toXMLElement_def CC_fromXMLElement_def read_simps)
next
  case (TemplatePCTag p)
  with assms show ?thesis
    by (simp add: Template_childFromXML_def TemplatePC_toXMLElement_def
        TemplatePC_fromXMLElement_def read_simps)
next
  case (TemplateComment c)
  with assms show ?thesis
    by (simp add: Template_childFromXML_def Comment_toXMLElement_def Comment_fromXMLElement_def
        read_simps)
qed

lemma Template_roundtrip:
  assumes "Template_valid t" and "Template_portable coerce t"
  shows "\<exists>el. Template_toXMLElement t = Inr el \<and> name el = ''Template'' \<and>
    Template_fromXMLElement (readElement coerce el) = Inr t"
proof -
  have "\<exists>el. TemplateTag_toXMLElement tag = Inr el \<and>
      (\<forall>acc. Template_childFromXML (readElement coerce el) acc = Inr (acc @ [(\<lambda>x. x) tag]))"
    if "tag \<in> set (Template_tags t)" for tag
    using that assms TemplateTag_roundtrip [of tag coerce]
    by (simp add: Template_valid_def Template_portable_def list_all_iff)
  from forEachElement_roundtrip_push [of "Template_tags t" TemplateTag_toXMLElement
      Template_childFromXML coerce "\<lambda>x. x", OF this]
  obtain els where "mapE TemplateTag_toXMLElement (Template_tags t) = Inr els"
    and "\<forall>acc. forEachElement Template_childFromXML (readChildren coerce els) acc =
      Inr (acc @ Template_tags t)"
    by auto
  with assms show ?thesis
    by (simp add: Template_toXMLElement_def Template_fromXMLElement_def Template_valid_def
        Template_portable_def read_simps)
qed

lemma TemplateFolder_roundtrip:
  "TemplateFolder_valid f \<Longrightarrow> TemplateFolder_portable coerce f \<Longrightarrow>
     \<exists>el. TemplateFolder_toXMLElement f = Inr el \<and> name el = ''Folder'' \<and>
       TemplateFolder_fromXMLElement (readElement coerce el) = Inr f"
  and TemplateFolderTag_roundtrip:
  "TemplateFolderTag_valid t \<Longrightarrow> TemplateFolderTag_portable coerce t \<Longrightarrow>
     \<exists>el. TemplateFolderTag_toXMLElement t = Inr el \<and>
       (name el = ''Folder'' \<or> name el = ''Template'') \<and>
       (\<forall>acc. TemplateList_childFromXML (readElement coerce el) acc = Inr (acc @ [t])) \<and>
       (\<forall>es acc. TemplateFolder_childrenFromXML (EElement (readElement coerce el) # es) acc =
          TemplateFolder_childrenFromXML es (acc @ [t]))"
proof (induction f and t)
  case (TemplateFolder n tags)
  have "\<exists>el. TemplateFolderTag_toXMLElement t = Inr el \<and>
      (\<forall>es acc. TemplateFolder_childrenFromXML (EElement (readElement coerce el) # es) acc =
         TemplateFolder_childrenFromXML es (acc @ [(\<lambda>x. x) t]))"
    if "t \<in> set tags" for t
  proof -
    from that TemplateFolder.prems
    have "TemplateFolderTag_valid t" and "TemplateFolderTag_portable coerce t"
      by (simp_all add: list_all_iff)
    with TemplateFolder.IH [OF that] obtain el where
      "TemplateFolderTag_toXMLElement t = Inr el"
      "\<forall>es acc. TemplateFolder_childrenFromXML (EElement (readElement coerce el) # es) acc =
         TemplateFolder_childrenFromXML es (acc @ [t])"
      by blast
    then show ?thesis by blast
  qed
  from children_roundtrip [of TemplateFolder_childrenFromXML tags
      TemplateFolderTag_toXMLElement coerce "\<lambda>x. x", OF _ this]
  obtain els where "mapE TemplateFolderTag_toXMLElement tags = Inr els"
    and "\<forall>acc. TemplateFolder_childrenFromXML (readChildren coerce els) acc = Inr (acc @ tags)"
    by auto
  with TemplateFolder.prems show ?case by (simp add: read_simps)
next
  case (TemplateTagOf t)
  with Template_roundtrip [of t coerce] show ?case
    by (auto simp: TemplateList_childFromXML_def)
next
  case (TemplateFolderTagOf f)
  then obtain el where "TemplateFolder_toXMLElement f = Inr el" "name el = ''Folder''"
    "TemplateFolder_fromXMLElement (readElement coerce el) = Inr f"
    by auto
  then show ?case by (simp add: TemplateList_childFromXML_def)
qed

lemma TemplateList_roundtrip:
  assumes "list_all TemplateFolderTag_valid (TemplateList_tags l)"
    and "list_all (TemplateFolderTag_portable coerce) (TemplateList_tags l)"
  shows "\<exists>el. TemplateList_toXMLElement l = Inr el \<and> name el = ''TemplateList'' \<and>
    TemplateList_fromXMLElement (readElement coerce el) = Inr l"
proof -
  have "\<exists>el. TemplateFolderTag_toXMLElement tag = Inr el \<and>
      (\<forall>acc. TemplateList_childFromXML (readElement coerce el) acc = Inr (acc @ [(\<lambda>x. x) tag]))"
    if "tag \<in> set (TemplateList_tags l)" for tag
    using that assms TemplateFolderTag_roundtrip [of tag coerce] by (auto simp: list_all_iff)
  from forEachElement_roundtrip_push [of "TemplateList_tags l" TemplateFolderTag_toXMLElement
      TemplateList_childFromXML coerce "\<lambda>x. x", OF this]
  obtain els where "mapE TemplateFolderTag_toXMLElement (TemplateList_tags l) = Inr els"
    and "\<forall>acc. forEachElement TemplateList_childFromXML (readChildren coerce els) acc =
      Inr (acc @ TemplateList_tags l)"
    by auto
  then show ?thesis
    by (simp add: TemplateList_toXMLElement_def TemplateList_fromXMLElement_def)
qed

subsection \<open>Default data, there and back\<close>

lemma Mark_roundtrip:
  assumes "Mark_check m = Inr ()" and "survivesOpt coerce (Mark_name m)"
  shows "\<exists>el. Mark_toXMLElement m = Inr el \<and> name el = ''Mark'' \<and>
    Mark_fromXMLElement (readElement coerce el) = Inr m"
  using assms by (simp add: Mark_toXMLElement_def Mark_fromXMLElement_def read_simps)

lemma Tempo_read:
  assumes "isNumber (coerce (js_toFixed3 (Tempo_tempo t)))"
  shows "\<exists>el. Tempo_toXMLElement t = Inr el \<and> name el = ''Tempo'' \<and>
    Tempo_fromXMLElement (readElement coerce el) = Inr (Tempo_asRead coerce t)"
proof -
  from assms obtain v where v: "coerce (js_toFixed3 (Tempo_tempo t)) = JNum v"
    by (cases "coerce (js_toFixed3 (Tempo_tempo t))") (simp_all add: isNumber_def)
  have "\<lparr>Tempo_tempo = v, Tempo_tick = Tempo_tick t, Tempo_step = Tempo_step t\<rparr> =
      Tempo_asRead coerce t"
    by (simp add: Tempo_asRead_def numberRead_def v)
  with v show ?thesis
    by (simp add: Tempo_toXMLElement_def Tempo_fromXMLElement_def read_simps)
qed

lemma TrackTag_roundtrip:
  assumes "TrackTag_valid tag" and "TrackTag_portable coerce tag"
  shows "\<exists>el. TrackTag_toXMLElement tag = Inr el \<and>
    (\<forall>acc. Track_childFromXML (readElement coerce el) acc = Inr (acc @ [(TrackTag_asRead coerce) tag]))"
proof (cases tag)
  case (TrackMark m)
  with assms show ?thesis
    by (simp add: Track_childFromXML_def DefaultDataTrackMark_toXMLElement_def
        DefaultDataTrackMark_fromXMLElement_def read_simps)
next
  case (TrackTempo t)
  with assms Tempo_read [of coerce t] show ?thesis
    by (auto simp: Track_childFromXML_def)
next
  case (TrackTimeSignature t)
  with assms show ?thesis
    by (simp add: Track_childFromXML_def TimeSignature_toXMLElement_def
        TimeSignature_fromXMLElement_def read_simps)
next
  case (TrackKeySignature k)
  with assms show ?thesis
    by (simp add: Track_childFromXML_def KeySignature_toXMLElement_def
        KeySignature_fromXMLElement_def read_simps)
next
  case (TrackCC c)
  then show ?thesis
    by (simp add: Track_childFromXML_def DefaultDataCC_toXMLElement_def
        DefaultDataCC_fromXMLElement_def read_simps)
next
  case (TrackPC p)
  with assms show ?thesis
    by (simp add: Track_childFromXML_def DefaultDataPC_toXMLElement_def
        DefaultDataPC_fromXMLElement_def read_simps)
next
  case (TrackComment c)
  with assms show ?thesis
    by (simp add: Track_childFromXML_def DefaultDataComment_toXMLElement_def
        DefaultDataComment_fromXMLElement_def read_simps)
next
  case (TrackTemplate t)
  then show ?thesis
    by (simp add: Track_childFromXML_def DefaultDataTemplate_toXMLElement_def
        DefaultDataTemplate_fromXMLElement_def read_simps)
next
  case (TrackEOT t)
  then show ?thesis
    by (simp add: Track_childFromXML_def EOT_toXMLElement_def EOT_fromXMLElement_def read_simps)
qed

lemma Track_roundtrip:
  assumes "Track_valid t" and "Track_portable coerce t"
  shows "\<exists>el. Track_toXMLElement t = Inr el \<and> name el = ''Track'' \<and>
    Track_fromXMLElement (readElement coerce el) = Inr (Track_asRead coerce t)"
proof -
  have "\<exists>el. TrackTag_toXMLElement tag = Inr el \<and>
      (\<forall>acc. Track_childFromXML (readElement coerce el) acc = Inr (acc @ [(TrackTag_asRead coerce) tag]))"
    if "tag \<in> set (Track_tags t)" for tag
    using that assms TrackTag_roundtrip [of tag coerce]
    by (simp add: Track_valid_def Track_portable_def list_all_iff)
  from forEachElement_roundtrip_push [of "Track_tags t" TrackTag_toXMLElement
      Track_childFromXML coerce "TrackTag_asRead coerce", OF this]
  obtain els where els: "mapE TrackTag_toXMLElement (Track_tags t) = Inr els"
    and children: "\<forall>acc. forEachElement Track_childFromXML (readChildren coerce els) acc =
      Inr (acc @ map (TrackTag_asRead coerce) (Track_tags t))"
    by auto
  have same: "\<lparr>Track_name = Track_name t, Track_ch = Track_ch t, Track_mode = Track_mode t,
      Track_current = Track_current t, Track_tags = map (TrackTag_asRead coerce) (Track_tags t)\<rparr> =
      Track_asRead coerce t"
    by (simp add: Track_asRead_def)
  from assms els children same show ?thesis
    by (simp add: Track_toXMLElement_def Track_fromXMLElement_def Track_valid_def
        Track_portable_def read_simps)
qed

lemma DefaultDataTag_roundtrip:
  assumes "DefaultDataTag_valid tag" and "DefaultDataTag_portable coerce tag"
  shows "\<exists>el. DefaultDataTag_toXMLElement tag = Inr el \<and>
    (\<forall>acc. DefaultData_childFromXML (readElement coerce el) acc =
       Inr (acc @ [(DefaultDataTag_asRead coerce) tag]))"
proof (cases tag)
  case (DefaultDataMark m)
  with assms Mark_roundtrip [of m coerce] show ?thesis
    by (auto simp: DefaultData_childFromXML_def)
next
  case (DefaultDataTrack t)
  with assms Track_roundtrip [of t coerce] show ?thesis
    by (auto simp: DefaultData_childFromXML_def)
qed

lemma DefaultData_roundtrip:
  assumes "list_all DefaultDataTag_valid (DefaultData_tags d)"
    and "list_all (DefaultDataTag_portable coerce) (DefaultData_tags d)"
  shows "\<exists>el. DefaultData_toXMLElement d = Inr el \<and> name el = ''DefaultData'' \<and>
    DefaultData_fromXMLElement (readElement coerce el) = Inr (DefaultData_asRead coerce d)"
proof -
  have "\<exists>el. DefaultDataTag_toXMLElement tag = Inr el \<and>
      (\<forall>acc. DefaultData_childFromXML (readElement coerce el) acc =
         Inr (acc @ [(DefaultDataTag_asRead coerce) tag]))"
    if "tag \<in> set (DefaultData_tags d)" for tag
    using that assms DefaultDataTag_roundtrip [of tag coerce] by (simp add: list_all_iff)
  from forEachElement_roundtrip_push [of "DefaultData_tags d" DefaultDataTag_toXMLElement
      DefaultData_childFromXML coerce "DefaultDataTag_asRead coerce", OF this]
  obtain els where "mapE DefaultDataTag_toXMLElement (DefaultData_tags d) = Inr els"
    and "\<forall>acc. forEachElement DefaultData_childFromXML (readChildren coerce els) acc =
      Inr (acc @ map (DefaultDataTag_asRead coerce) (DefaultData_tags d))"
    by auto
  then show ?thesis
    by (simp add: DefaultData_toXMLElement_def DefaultData_fromXMLElement_def
        DefaultData_asRead_def)
qed

subsection \<open>The module data and the document, there and back\<close>

lemma ModuleData_tag_key_asRead [simp]:
  "ModuleData_tag_key (ModuleData_tag_asRead coerce t) = ModuleData_tag_key t"
  by (cases t) simp_all

lemma ModuleData_tag_roundtrip:
  assumes "ModuleData_tag_valid tag" and "ModuleData_tag_portable coerce tag"
  shows "\<exists>el. ModuleData_tag_toXMLElement tag = Inr el \<and>
    (\<forall>acc. ModuleData_childFromXML (readElement coerce el) acc =
       Inr (assign ModuleData_tag_key (ModuleData_tag_asRead coerce tag) acc))"
proof (cases tag)
  case (Tag_rhythmTrackDefault x)
  then show ?thesis
    by (simp add: ModuleData_childFromXML_def RhythmTrackDefault_toXMLElement_def
        RhythmTrackDefault_fromXMLElement_def read_simps)
next
  case (Tag_exclusiveEventDefault x)
  with assms show ?thesis
    by (simp add: ModuleData_childFromXML_def ExclusiveEventDefault_toXMLElement_def
        ExclusiveEventDefault_fromXMLElement_def read_simps)
next
  case (Tag_programChangeEventPropertyDlg x)
  then show ?thesis
    by (simp add: ModuleData_childFromXML_def ProgramChangeEventPropertyDlg_toXMLElement_def
        ProgramChangeEventPropertyDlg_fromXMLElement_def read_simps)
next
  case (Tag_controlChangeEventDefault x)
  then show ?thesis
    by (simp add: ModuleData_childFromXML_def ControlChangeEventDefault_toXMLElement_def
        ControlChangeEventDefault_fromXMLElement_def read_simps)
next
  case (Tag_instrumentList l)
  with assms InstrumentList_roundtrip [of l coerce] show ?thesis
    by (auto simp: ModuleData_childFromXML_def)
next
  case (Tag_drumSetList l)
  with assms DrumSetList_roundtrip [of l coerce] show ?thesis
    by (auto simp: ModuleData_childFromXML_def)
next
  case (Tag_controlChangeMacroList l)
  with assms ControlChangeMacroList_roundtrip [of l coerce] show ?thesis
    by (auto simp: ModuleData_childFromXML_def)
next
  case (Tag_templateList l)
  with assms TemplateList_roundtrip [of l coerce] show ?thesis
    by (auto simp: ModuleData_childFromXML_def)
next
  case (Tag_defaultData d)
  with assms DefaultData_roundtrip [of d coerce] show ?thesis
    by (auto simp: ModuleData_childFromXML_def)
qed

lemma ModuleData_roundtrip:
  assumes "list_all ModuleData_tag_valid (ModuleData_tags md)"
    and "list_all (ModuleData_tag_portable coerce) (ModuleData_tags md)"
    and keys: "distinct (map ModuleData_tag_key (ModuleData_tags md))"
    and strings: "survives coerce (ModuleData_name md)" "survivesOpt coerce (ModuleData_folder md)"
      "survivesOpt coerce (ModuleData_fileCreator md)" "survivesOpt coerce (ModuleData_fileVersion md)"
      "survivesOpt coerce (ModuleData_website md)"
  shows "\<exists>el. ModuleData_toXMLElement md = Inr (el, ModuleData_check md) \<and>
    ModuleData_fromXMLElement (readElement coerce el) = Inr (ModuleData_asRead coerce md)"
proof -
  have step: "\<exists>el. ModuleData_tag_toXMLElement tag = Inr el \<and>
      (\<forall>acc. ModuleData_childFromXML (readElement coerce el) acc =
         Inr (assign ModuleData_tag_key (ModuleData_tag_asRead coerce tag) acc))"
    if "tag \<in> set (ModuleData_tags md)" for tag
    using that assms(1,2) ModuleData_tag_roundtrip [of tag coerce] by (simp add: list_all_iff)
  from forEachElement_roundtrip_assign [of "ModuleData_tags md" ModuleData_tag_toXMLElement
      ModuleData_childFromXML coerce ModuleData_tag_key "ModuleData_tag_asRead coerce",
      OF step ModuleData_tag_key_asRead keys]
  obtain els where els: "mapE ModuleData_tag_toXMLElement (ModuleData_tags md) = Inr els"
    and every: "\<forall>acc. set (map ModuleData_tag_key acc) \<inter>
        set (map ModuleData_tag_key (ModuleData_tags md)) = {} \<longrightarrow>
      forEachElement ModuleData_childFromXML (readChildren coerce els) acc =
        Inr (acc @ map (ModuleData_tag_asRead coerce) (ModuleData_tags md))"
    by auto
  from every have children: "forEachElement ModuleData_childFromXML (readChildren coerce els) [] =
      Inr (map (ModuleData_tag_asRead coerce) (ModuleData_tags md))"
    by simp
  have same: "\<lparr>ModuleData_name = ModuleData_name md, ModuleData_folder = ModuleData_folder md,
      ModuleData_priority = ModuleData_priority md,
      ModuleData_fileCreator = ModuleData_fileCreator md,
      ModuleData_fileVersion = ModuleData_fileVersion md,
      ModuleData_website = ModuleData_website md,
      ModuleData_tags = map (ModuleData_tag_asRead coerce) (ModuleData_tags md)\<rparr> = ModuleData_asRead coerce md"
    by (simp add: ModuleData_asRead_def)
  from els children same strings show ?thesis
    by (simp add: ModuleData_toXMLElement_def ModuleData_fromXMLElement_def read_simps)
qed

lemma declaration_read:
  assumes "staysString coerce File_xmlEncoding"
  shows "declaredEncoding
      (readAttributes coerce
        [(''version'', JStr File_xmlVersion), (''encoding'', JStr File_xmlEncoding)]) =
    JStr ''Shift_JIS''"
  using assms
  by (simp add: readAttributes.simps declaredEncoding_def staysString_def File_xmlEncoding_def)

subsection \<open>Three decimals, as the library of the examples reads them\<close>

text \<open>
  For the coercion \<open>nativeType\<close> and a tempo below 10^21 in magnitude, the number read
  back is the tempo rounded to three decimals, the larger neighbour on a tie.
\<close>

definition toFixed3_value :: "number \<Rightarrow> number" where
  "toFixed3_value x =
     (let q = of_nat (nat \<lfloor>\<bar>x\<bar> * 1000 + 1 / 2\<rfloor>) / 1000 in if x < 0 then - q else q)"

lemma digit_cases:
  "d < 10 \<Longrightarrow>
   d = 0 \<or> d = 1 \<or> d = 2 \<or> d = 3 \<or> d = 4 \<or> d = 5 \<or> d = 6 \<or> d = 7 \<or> d = 8 \<or> d = (9::nat)"
  by arith

lemma digit_val_digit_char: "d < 10 \<Longrightarrow> digit_val (digit_char d) = Some d"
  using digit_cases [of d]
  by (auto simp: digit_val_def digit_char_def decimalDigits_def)

lemma digit_val_marks [simp]:
  "digit_val (CHR ''.'') = None" "digit_val (CHR ''-'') = None" "digit_val (CHR ''+'') = None"
  by (simp_all add: digit_val_def decimalDigits_def)

lemma parse_digits_append:
  "parse_digits (s @ t) acc =
     (case parse_digits s acc of None \<Rightarrow> None | Some a \<Rightarrow> parse_digits t a)"
  by (induction s arbitrary: acc) (auto split: option.splits)

lemma parse_digits_string_of_nat: "parse_digits (string_of_nat n) 0 = Some n"
proof (induction n rule: string_of_nat.induct)
  case (1 n)
  show ?case
  proof (cases "n < 10")
    case True
    then show ?thesis
      by (subst string_of_nat.simps) (simp add: digit_val_digit_char)
  next
    case False
    then have "parse_digits (string_of_nat (n div 10)) 0 = Some (n div 10)"
      using "1.IH" by simp
    with False show ?thesis
      by (subst string_of_nat.simps) (simp add: parse_digits_append digit_val_digit_char)
  qed
qed

lemma string_of_nat_digits: "c \<in> set (string_of_nat n) \<Longrightarrow> digit_val c \<noteq> None"
proof (induction n arbitrary: c rule: string_of_nat.induct)
  case (1 n)
  show ?case
  proof (cases "n < 10")
    case True
    with "1.prems" have "c = digit_char n"
      by (subst (asm) string_of_nat.simps) simp
    with True show ?thesis by (simp add: digit_val_digit_char)
  next
    case False
    with "1.prems" have "c \<in> set (string_of_nat (n div 10)) \<or> c = digit_char (n mod 10)"
      by (subst (asm) string_of_nat.simps) auto
    then show ?thesis
    proof
      assume "c \<in> set (string_of_nat (n div 10))"
      with False "1.IH" show ?thesis by simp
    next
      assume "c = digit_char (n mod 10)"
      then show ?thesis by (simp add: digit_val_digit_char)
    qed
  qed
qed

lemma string_of_nat_not_Nil: "string_of_nat n \<noteq> []"
  by (subst string_of_nat.simps) simp

lemma parse_nat_string_of_nat: "parse_nat (string_of_nat n) = Some n"
proof (cases "string_of_nat n")
  case Nil
  then show ?thesis by (simp add: string_of_nat_not_Nil)
next
  case (Cons c cs)
  with parse_digits_string_of_nat [of n] show ?thesis by (simp add: parse_nat_def)
qed

lemma digits_notPoint:
  assumes "digit_val c \<noteq> None"
  shows "notPoint c"
proof -
  from assms have "c \<noteq> CHR ''.''" using digit_val_marks(1) by blast
  then show ?thesis by (simp add: notPoint_def)
qed

lemma takeWhile_notPoint_digits:
  assumes "\<And>c. c \<in> set ds \<Longrightarrow> digit_val c \<noteq> None"
  shows "takeWhile notPoint (ds @ CHR ''.'' # fs) = ds"
proof -
  have "takeWhile notPoint (ds @ CHR ''.'' # fs) = ds @ takeWhile notPoint (CHR ''.'' # fs)"
    by (rule takeWhile_append2) (rule digits_notPoint, erule assms)
  then show ?thesis by (simp add: notPoint_def)
qed

lemma dropWhile_notPoint_digits:
  assumes "\<And>c. c \<in> set ds \<Longrightarrow> digit_val c \<noteq> None"
  shows "dropWhile notPoint (ds @ CHR ''.'' # fs) = CHR ''.'' # fs"
proof -
  have "dropWhile notPoint (ds @ CHR ''.'' # fs) = dropWhile notPoint (CHR ''.'' # fs)"
    by (rule dropWhile_append2) (rule digits_notPoint, erule assms)
  then show ?thesis by (simp add: notPoint_def)
qed

lemma parse_unsigned_fixed3:
  assumes "d1 < 10" "d2 < 10" "d3 < 10"
  shows "parse_unsigned
      (string_of_nat a @ CHR ''.'' # [digit_char d1, digit_char d2, digit_char d3]) =
     Some (of_nat a + of_nat (d1 * 100 + d2 * 10 + d3) / 1000)"
proof -
  let ?fs = "[digit_char d1, digit_char d2, digit_char d3]"
  have t: "takeWhile notPoint (string_of_nat a @ CHR ''.'' # ?fs) = string_of_nat a"
    by (rule takeWhile_notPoint_digits) (rule string_of_nat_digits)
  have d: "dropWhile notPoint (string_of_nat a @ CHR ''.'' # ?fs) = CHR ''.'' # ?fs"
    by (rule dropWhile_notPoint_digits) (rule string_of_nat_digits)
  have f: "parse_digits ?fs 0 = Some (d1 * 100 + d2 * 10 + d3)"
    using assms by (simp add: digit_val_digit_char)
  have "parse_unsigned (string_of_nat a @ CHR ''.'' # ?fs) =
      (case parse_nat (string_of_nat a) of
         None \<Rightarrow> None
       | Some a' \<Rightarrow>
           (case parse_digits ?fs 0 of
              None \<Rightarrow> None
            | Some b \<Rightarrow> Some (of_nat a' + of_nat b / 10 ^ length ?fs)))"
    unfolding parse_unsigned_def t d by (simp only: list.case)
  also have "\<dots> = Some (of_nat a + of_nat (d1 * 100 + d2 * 10 + d3) / 10 ^ length ?fs)"
    by (simp only: parse_nat_string_of_nat f option.case)
  also have "10 ^ length ?fs = (1000::rat)" by simp
  finally show ?thesis .
qed

lemma parse_number_unsigned:
  assumes "\<And>c. c \<in> set ds \<Longrightarrow> digit_val c \<noteq> None" and "ds \<noteq> []"
  shows "parse_number (ds @ rest) = parse_unsigned (ds @ rest)"
proof -
  from assms(2) obtain c cs where ds: "ds = c # cs" by (cases ds) auto
  with assms(1) [of c] have "digit_val c \<noteq> None" by simp
  then have "c \<noteq> CHR ''-''" and "c \<noteq> CHR ''+''" by auto
  with ds show ?thesis by (simp add: parse_number_def)
qed

lemma three_digits:
  "(n::nat) mod 1000 div 100 * 100 + n mod 100 div 10 * 10 + n mod 10 = n mod 1000"
proof -
  have a: "n mod 1000 = n mod 1000 div 100 * 100 + n mod 1000 mod 100" by simp
  have b: "n mod 1000 mod 100 = n mod 100" by (simp add: mod_mod_cancel)
  have c: "n mod 100 = n mod 100 div 10 * 10 + n mod 100 mod 10" by simp
  have d: "n mod 100 mod 10 = n mod 10" by (simp add: mod_mod_cancel)
  from a b c d show ?thesis by linarith
qed

lemma thousandths: "of_nat (n div 1000) + of_nat (n mod 1000) / 1000 = (of_nat n / 1000 :: rat)"
proof -
  have "of_nat n = (of_nat (n div 1000 * 1000 + n mod 1000) :: rat)" by simp
  also have "\<dots> = of_nat (n div 1000) * 1000 + of_nat (n mod 1000)"
    by (simp only: of_nat_add of_nat_mult of_nat_numeral)
  finally show ?thesis by simp
qed

lemma parse_number_toFixed3:
  assumes "\<bar>x\<bar> < 10 ^ 21"
  shows "parse_number (js_toFixed3 x) = Some (toFixed3_value x)"
proof -
  define n where "n = nat \<lfloor>\<bar>x\<bar> * 1000 + 1 / 2\<rfloor>"
  define fs where "fs = [digit_char (n mod 1000 div 100), digit_char (n mod 100 div 10),
      digit_char (n mod 10)]"
  define body where "body = string_of_nat (n div 1000) @ CHR ''.'' # fs"
  have "parse_unsigned body =
      Some (of_nat (n div 1000) +
            of_nat (n mod 1000 div 100 * 100 + n mod 100 div 10 * 10 + n mod 10) / 1000)"
    unfolding body_def fs_def by (rule parse_unsigned_fixed3) simp_all
  then have body: "parse_unsigned body = Some (of_nat n / 1000)"
    by (simp only: three_digits thousandths)
  have "parse_number body = parse_unsigned body"
    unfolding body_def
    by (rule parse_number_unsigned) (erule string_of_nat_digits, rule string_of_nat_not_Nil)
  with body have unsigned: "parse_number body = Some (of_nat n / 1000)" by simp
  have quantized: "toFixed3_value x = (if x < 0 then - (of_nat n / 1000) else of_nat n / 1000)"
    unfolding toFixed3_value_def n_def Let_def ..
  have small: "\<not> \<bar>x\<bar> \<ge> 10 ^ 21" using assms by simp
  have spelled: "js_toFixed3 x = (if x < 0 then CHR ''-'' # body else body)"
    unfolding js_toFixed3_def body_def fs_def n_def Let_def if_not_P [OF small]
    by (simp only: append.simps if_distrib [of "\<lambda>s. s @ _"] cong: if_cong)
  show ?thesis
  proof (cases "x < 0")
    case True
    then have "js_toFixed3 x = CHR ''-'' # body" by (simp only: spelled if_True)
    then have "parse_number (js_toFixed3 x) = map_option uminus (parse_unsigned body)"
      by (simp add: parse_number_def)
    also have "\<dots> = Some (- (of_nat n / 1000))" by (simp only: body option.map)
    also have "- (of_nat n / 1000) = toFixed3_value x" using True by (simp only: quantized if_True)
    finally show ?thesis .
  next
    case False
    then have "js_toFixed3 x = body" by (simp only: spelled if_False)
    then have "parse_number (js_toFixed3 x) = Some (of_nat n / 1000)" by (simp only: unsigned)
    also have "of_nat n / 1000 = toFixed3_value x" using False by (simp only: quantized if_False)
    finally show ?thesis .
  qed
qed

lemma nativeType_toFixed3:
  "\<bar>x\<bar> < 10 ^ 21 \<Longrightarrow> nativeType (js_toFixed3 x) = JNum (toFixed3_value x)"
  by (simp add: nativeType_def parse_number_toFixed3)

lemma numberRead_toFixed3:
  "\<bar>x\<bar> < 10 ^ 21 \<Longrightarrow> numberRead nativeType (js_toFixed3 x) = toFixed3_value x"
  by (simp add: numberRead_def nativeType_toFixed3)

subsection \<open>Encoding a document and decoding it again\<close>


text \<open>
  A name is decoded through \<^verbatim>\<open>String\<close>, so a name that looks like a number does not
  make the decoder raise; but it comes back as that number is written, not as it was:
  the module data named \<^verbatim>\<open>1.0\<close> is decoded with the name \<^verbatim>\<open>1\<close>.
\<close>

lemma File_roundtrip_changes_name:
  "File_toXML treeDeps None
     \<lparr>File_moduleData =
        \<lparr>ModuleData_name = ''1.0'', ModuleData_folder = None, ModuleData_priority = None,
         ModuleData_fileCreator = None, ModuleData_fileVersion = None,
         ModuleData_website = None, ModuleData_tags = []\<rparr>\<rparr> =
     Inr (XmlText
           \<lparr>XmlJs_declaration =
              Some [(''version'', JStr ''1.0''), (''encoding'', JStr ''Shift_JIS'')],
            XmlJs_elements =
              Some [EElement (ElementElement ''ModuleData''
                (Some [(''Name'', JStr ''1.0''), (''Folder'', JUndef), (''Priority'', JUndef),
                       (''FileCreator'', JUndef), (''FileVersion'', JUndef),
                       (''WebSite'', JUndef)]) [])]\<rparr>,
          [])
   \<and> File_fromXML treeDeps
     (XmlText
        \<lparr>XmlJs_declaration =
           Some [(''version'', JStr ''1.0''), (''encoding'', JStr ''Shift_JIS'')],
         XmlJs_elements =
           Some [EElement (ElementElement ''ModuleData''
             (Some [(''Name'', JStr ''1.0''), (''Folder'', JUndef), (''Priority'', JUndef),
                    (''FileCreator'', JUndef), (''FileVersion'', JUndef),
                    (''WebSite'', JUndef)]) [])]\<rparr>) =
     Inr \<lparr>File_moduleData =
        \<lparr>ModuleData_name = ''1'', ModuleData_folder = None, ModuleData_priority = None,
         ModuleData_fileCreator = None, ModuleData_fileVersion = None,
         ModuleData_website = None, ModuleData_tags = []\<rparr>\<rparr>"
  by (simp add: File_toXML_def File_obj_def File_xmlVersion_def File_xmlEncoding_def
      library_eval ModuleData_toXMLElement_def optStr_def optNum_def ModuleData_check_def
      checkDuplicate_def outputUsedId_def js_sort_def File_fromXML_def declaredEncoding_def
      readAttributes.simps parser_eval ModuleData_fromXMLElement_def decode_eval
      js_String_eval)



end
